theory Spec2Isabelle
  imports Main "HOL-Library.Word" "HOL-Library.While_Combinator"
begin

section \<open>JavaScript strings and exceptions\<close>

text \<open>
  A JavaScript string is a sequence of 16-bit code units; positions and lengths of the
  source count code units. Exceptions are values: \<open>Inl e\<close> is a raise.
  \<open>Unmodelled\<close> and \<open>OutOfFuel\<close> are not JavaScript exceptions: the first marks
  an input on which the behaviour of the source (sparse arrays, properties set on
  primitives, inherited properties, non-integer numbers) is not described by this
  development, the second a computation that does not finish: a loop that runs forever, or
  calls nested deeper than the fuel that was given.
\<close>

type_synonym jsstring = "16 word list"

datatype error =
    TypeError | URIError | SyntaxError | ReferenceError | Error string | Unmodelled | OutOfFuel

definition ascii :: "string \<Rightarrow> jsstring" where
  "ascii s = map of_char s"

definition substring :: "jsstring \<Rightarrow> nat \<Rightarrow> nat \<Rightarrow> jsstring" where
  \<comment> \<open>\<open>s.substring(a, b)\<close>: both indices are clamped to the length and swapped when \<open>a > b\<close>.\<close>
  "substring s a b =
     (let a' = min a (length s); b' = min b (length s)
      in take (max a' b' - min a' b') (drop (min a' b') s))"

definition substring_from :: "jsstring \<Rightarrow> nat \<Rightarrow> jsstring" where
  \<comment> \<open>\<open>s.substring(a)\<close>\<close>
  "substring_from s a = drop a s"

definition indexOf :: "jsstring \<Rightarrow> jsstring \<Rightarrow> nat \<Rightarrow> nat option" where
  \<comment> \<open>\<open>text.indexOf(pattern, from)\<close>; \<open>None\<close> is -1\<close>
  "indexOf text pattern from =
     List.find (\<lambda>k. take (length pattern) (drop k text) = pattern)
       [min from (length text)..<Suc (length text)]"

definition lastIndexOf :: "jsstring \<Rightarrow> jsstring \<Rightarrow> nat \<Rightarrow> nat option" where
  \<comment> \<open>\<open>text.lastIndexOf(pattern, from)\<close>; \<open>None\<close> is -1\<close>
  "lastIndexOf text pattern from =
     List.find (\<lambda>k. take (length pattern) (drop k text) = pattern)
       (rev [0..<Suc (min from (length text))])"

definition splice :: "'a list \<Rightarrow> int \<Rightarrow> nat \<Rightarrow> 'a list \<Rightarrow> 'a list" where
  \<comment> \<open>\<open>xs.splice(start, deleteCount, items...)\<close>: the array afterwards\<close>
  "splice xs start deleteCount items =
     (let len = length xs;
          st = (if start < 0 then nat (max (int len + start) 0) else min (nat start) len)
      in take st xs @ items @ drop (st + min deleteCount (len - st)) xs)"

fun digit_of :: "nat \<Rightarrow> 16 word" where
  "digit_of d = of_nat (48 + d)"

function decimal_digits :: "nat \<Rightarrow> jsstring \<Rightarrow> jsstring" where
  "decimal_digits n acc =
     (if n < 10 then digit_of n # acc
      else decimal_digits (n div 10) (digit_of (n mod 10) # acc))"
  by pat_completeness auto
termination
  by (relation "measure fst") auto

declare decimal_digits.simps [simp del]

definition decimal :: "nat \<Rightarrow> jsstring" where
  \<comment> \<open>\<open>String(n)\<close> for a non-negative integer \<open>n\<close>\<close>
  "decimal n = decimal_digits n []"

definition is_digit :: "16 word \<Rightarrow> bool" where
  "is_digit c = (48 \<le> c \<and> c \<le> 57)"

definition digit_val :: "16 word \<Rightarrow> nat" where
  "digit_val c = unat c - 48"

definition digits_val :: "jsstring \<Rightarrow> nat" where
  "digits_val ds = foldl (\<lambda>n c. 10 * n + digit_val c) 0 ds"

definition is_StrWhiteSpaceChar :: "16 word \<Rightarrow> bool" where
  \<comment> \<open>ECMAScript 5.1, 9.3.1: WhiteSpace and LineTerminator, with the space separators
      of Unicode 6.3 and later, where U+180E is none.\<close>
  "is_StrWhiteSpaceChar c =
     (c \<in> {0x9, 0xA, 0xB, 0xC, 0xD, 0x20, 0xA0, 0x1680, 0x2028, 0x2029, 0x202F,
            0x205F, 0x3000, 0xFEFF} \<or> (0x2000 \<le> c \<and> c \<le> 0x200A))"

definition parseInt10 :: "jsstring \<Rightarrow> int option" where
  \<comment> \<open>\<open>parseInt(s, 10)\<close>; \<open>None\<close> is NaN. Leading white space is skipped, a sign is
      accepted, and the longest prefix of digits is read; what follows it is ignored.\<close>
  "parseInt10 s =
     (let t = dropWhile is_StrWhiteSpaceChar s;
          neg = (t \<noteq> [] \<and> hd t = 45);
          u = (if t \<noteq> [] \<and> (hd t = 45 \<or> hd t = 43) then tl t else t);
          ds = takeWhile is_digit u
      in if ds = [] then None
         else Some (if neg then - int (digits_val ds) else int (digits_val ds)))"

fun split_tab :: "jsstring \<Rightarrow> jsstring list" where
  \<comment> \<open>\<open>s.split(/\t/g)\<close>: the empty string gives one empty token.\<close>
  "split_tab [] = [[]]"
| "split_tab (c # cs) =
     (if c = 9 then [] # split_tab cs
      else (case split_tab cs of t # ts \<Rightarrow> (c # t) # ts | [] \<Rightarrow> [[c]]))"

fun join_tab :: "jsstring list \<Rightarrow> jsstring" where
  \<comment> \<open>\<open>xs.join('\t')\<close>\<close>
  "join_tab [] = []"
| "join_tab [t] = t"
| "join_tab (t # ts) = t @ 9 # join_tab ts"

subsection \<open>encodeURI and decodeURI (ECMAScript 5.1, 15.1.3)\<close>

definition uriReserved :: "16 word set" where
  \<comment> \<open>\<open>; / ? : @ & = + $ ,\<close>\<close>
  "uriReserved = {59, 47, 63, 58, 64, 38, 61, 43, 36, 44}"

definition uriUnescaped :: "16 word \<Rightarrow> bool" where
  \<comment> \<open>letters, digits and \<open>- _ . ! ~ * ' ( )\<close>\<close>
  "uriUnescaped c =
     ((65 \<le> c \<and> c \<le> 90) \<or> (97 \<le> c \<and> c \<le> 122) \<or> (48 \<le> c \<and> c \<le> 57)
      \<or> c \<in> {45, 95, 46, 33, 126, 42, 39, 40, 41})"

definition hex_digit :: "nat \<Rightarrow> 16 word" where
  "hex_digit d = (if d < 10 then of_nat (48 + d) else of_nat (55 + d))"

definition percent_octet :: "nat \<Rightarrow> jsstring" where
  "percent_octet b = [37, hex_digit (b div 16), hex_digit (b mod 16)]"

definition utf8_octets :: "nat \<Rightarrow> nat list" where
  "utf8_octets v =
     (if v < 0x80 then [v]
      else if v < 0x800 then [0xC0 + v div 64, 0x80 + v mod 64]
      else if v < 0x10000 then [0xE0 + v div 4096, 0x80 + (v div 64) mod 64, 0x80 + v mod 64]
      else [0xF0 + v div 262144, 0x80 + (v div 4096) mod 64, 0x80 + (v div 64) mod 64,
            0x80 + v mod 64])"

fun encodeURI :: "jsstring \<Rightarrow> error + jsstring" where
  "encodeURI [] = Inr []"
| "encodeURI (c # cs) =
     (if c \<in> uriReserved \<or> uriUnescaped c \<or> c = 35 then
        (case encodeURI cs of Inl e \<Rightarrow> Inl e | Inr r \<Rightarrow> Inr (c # r))
      else if 0xDC00 \<le> c \<and> c \<le> 0xDFFF then Inl URIError
      else if \<not> (0xD800 \<le> c \<and> c \<le> 0xDBFF) then
        (case encodeURI cs of Inl e \<Rightarrow> Inl e
         | Inr r \<Rightarrow> Inr (concat (map percent_octet (utf8_octets (unat c))) @ r))
      else
        (case cs of
           [] \<Rightarrow> Inl URIError
         | k # cs' \<Rightarrow>
             if \<not> (0xDC00 \<le> k \<and> k \<le> 0xDFFF) then Inl URIError
             else
               (case encodeURI cs' of Inl e \<Rightarrow> Inl e
                | Inr r \<Rightarrow>
                    Inr (concat (map percent_octet
                           (utf8_octets ((unat c - 0xD800) * 0x400 + (unat k - 0xDC00) + 0x10000)))
                         @ r))))"

definition hex_val :: "16 word \<Rightarrow> nat option" where
  "hex_val c =
     (if 48 \<le> c \<and> c \<le> 57 then Some (unat c - 48)
      else if 65 \<le> c \<and> c \<le> 70 then Some (unat c - 55)
      else if 97 \<le> c \<and> c \<le> 102 then Some (unat c - 87)
      else None)"

fun escaped_octet :: "jsstring \<Rightarrow> (nat \<times> jsstring) option" where
  \<comment> \<open>reads \<open>%XX\<close> at the head of the string\<close>
  "escaped_octet (p # h1 # h2 # rest) =
     (if p \<noteq> 37 then None
      else (case (hex_val h1, hex_val h2) of
              (Some a, Some b) \<Rightarrow> Some (16 * a + b, rest)
            | _ \<Rightarrow> None))"
| "escaped_octet _ = None"

fun continuation_octets :: "nat \<Rightarrow> jsstring \<Rightarrow> (nat list \<times> jsstring) option" where
  "continuation_octets 0 s = Some ([], s)"
| "continuation_octets (Suc m) s =
     (case escaped_octet s of
        None \<Rightarrow> None
      | Some (b, rest) \<Rightarrow>
          if b div 64 \<noteq> 2 then None
          else (case continuation_octets m rest of
                  None \<Rightarrow> None
                | Some (bs, rest') \<Rightarrow> Some (b # bs, rest')))"

definition leading_ones :: "nat \<Rightarrow> nat" where
  \<comment> \<open>the number of leading 1 bits of an octet with the top bit set\<close>
  "leading_ones b =
     (if b < 0xC0 then 1 else if b < 0xE0 then 2 else if b < 0xF0 then 3
      else if b < 0xF8 then 4 else 5)"

definition utf8_value :: "nat list \<Rightarrow> nat option" where
  \<comment> \<open>the code point of a well-formed UTF-8 sequence: overlong forms, surrogates and
      values above \<open>0x10FFFF\<close> are rejected\<close>
  "utf8_value bs =
     (case bs of
        [b0, b1] \<Rightarrow>
          (let v = (b0 mod 32) * 64 + b1 mod 64 in if v < 0x80 then None else Some v)
      | [b0, b1, b2] \<Rightarrow>
          (let v = (b0 mod 16) * 4096 + (b1 mod 64) * 64 + b2 mod 64
           in if v < 0x800 \<or> (0xD800 \<le> v \<and> v \<le> 0xDFFF) then None else Some v)
      | [b0, b1, b2, b3] \<Rightarrow>
          (let v = (b0 mod 8) * 262144 + (b1 mod 64) * 4096 + (b2 mod 64) * 64 + b3 mod 64
           in if v < 0x10000 \<or> 0x10FFFF < v then None else Some v)
      | _ \<Rightarrow> None)"

definition code_units :: "nat \<Rightarrow> jsstring" where
  \<comment> \<open>the UTF-16 form of a code point\<close>
  "code_units v =
     (if v < 0x10000 then [of_nat v]
      else [of_nat (((v - 0x10000) div 1024) mod 1024 + 0xD800),
            of_nat ((v - 0x10000) mod 1024 + 0xDC00)])"

lemma escaped_octet_length:
  "escaped_octet s = Some (b, rest) \<Longrightarrow> length rest < length s"
  by (induction s rule: escaped_octet.induct) (auto split: if_splits option.splits)

lemma continuation_octets_length:
  "continuation_octets m s = Some (bs, rest) \<Longrightarrow> length rest \<le> length s"
proof (induction m arbitrary: s bs rest)
  case 0
  then show ?case by simp
next
  case (Suc m)
  then show ?case
    by (fastforce split: option.splits if_splits dest: escaped_octet_length)
qed

function decodeURI :: "jsstring \<Rightarrow> error + jsstring" where
  "decodeURI [] = Inr []"
| "decodeURI (c # cs) =
     (if c \<noteq> 37 then
        (case decodeURI cs of Inl e \<Rightarrow> Inl e | Inr r \<Rightarrow> Inr (c # r))
      else
        (case escaped_octet (c # cs) of
           None \<Rightarrow> Inl URIError
         | Some (b, rest) \<Rightarrow>
             if b < 0x80 then
               (case decodeURI rest of
                  Inl e \<Rightarrow> Inl e
                | Inr r \<Rightarrow>
                    if of_nat b \<in> uriReserved \<or> b = 35 then Inr (take 3 (c # cs) @ r)
                    else Inr (of_nat b # r))
             else if leading_ones b = 1 \<or> leading_ones b > 4 then Inl URIError
             else
               (case continuation_octets (leading_ones b - 1) rest of
                  None \<Rightarrow> Inl URIError
                | Some (bs, rest') \<Rightarrow>
                    (case utf8_value (b # bs) of
                       None \<Rightarrow> Inl URIError
                     | Some v \<Rightarrow>
                         (case decodeURI rest' of
                            Inl e \<Rightarrow> Inl e
                          | Inr r \<Rightarrow> Inr (code_units v @ r))))))"
  by pat_completeness auto
termination
proof (relation "measure length", goal_cases)
  case 1
  show ?case by simp
next
  case (2 c cs)
  show ?case by simp
next
  case (3 c cs x2 b rest)
  then show ?case using escaped_octet_length [of "c # cs" b rest] by simp
next
  case (4 c cs x2 b rest x2a bs rest' v)
  then show ?case
    using escaped_octet_length [of "c # cs" b rest]
      continuation_octets_length [of "leading_ones b - 1" rest bs rest'] by simp
qed

section \<open>TextDiff: diff tuples and the delta codec\<close>

datatype diff_op = DIFF_DELETE | DIFF_INSERT | DIFF_EQUAL

type_synonym diff = "diff_op \<times> jsstring"

definition diff_text1 :: "diff list \<Rightarrow> jsstring" where
  "diff_text1 diffs = concat (map snd (filter (\<lambda>d. fst d \<noteq> DIFF_INSERT) diffs))"

definition diff_text2 :: "diff list \<Rightarrow> jsstring" where
  "diff_text2 diffs = concat (map snd (filter (\<lambda>d. fst d \<noteq> DIFF_DELETE) diffs))"

fun replace_pct20 :: "jsstring \<Rightarrow> jsstring" where
  \<comment> \<open>\<open>s.replace(/%20/g, ' ')\<close>\<close>
  "replace_pct20 (a # b # c # rest) =
     (if a = 37 \<and> b = 50 \<and> c = 48 then 32 # replace_pct20 rest
      else a # replace_pct20 (b # c # rest))"
| "replace_pct20 s = s"

fun diff_toDelta_tokens :: "diff list \<Rightarrow> error + jsstring list" where
  "diff_toDelta_tokens [] = Inr []"
| "diff_toDelta_tokens ((op, data) # diffs) =
     (case (case op of
              DIFF_INSERT \<Rightarrow>
                (case encodeURI data of Inl e \<Rightarrow> Inl e | Inr t \<Rightarrow> Inr (43 # t))
            | DIFF_DELETE \<Rightarrow> Inr (45 # decimal (length data))
            | DIFF_EQUAL \<Rightarrow> Inr (61 # decimal (length data))) of
        Inl e \<Rightarrow> Inl e
      | Inr t \<Rightarrow>
          (case diff_toDelta_tokens diffs of Inl e \<Rightarrow> Inl e | Inr ts \<Rightarrow> Inr (t # ts)))"

definition diff_toDelta :: "diff list \<Rightarrow> error + jsstring" where
  "diff_toDelta diffs =
     (case diff_toDelta_tokens diffs of
        Inl e \<Rightarrow> Inl e
      | Inr text \<Rightarrow> Inr (replace_pct20 (join_tab text)))"

fun diff_fromDelta_tokens ::
  "jsstring \<Rightarrow> jsstring list \<Rightarrow> nat \<Rightarrow> error + (diff list \<times> nat)" where
  "diff_fromDelta_tokens text1 [] pointer = Inr ([], pointer)"
| "diff_fromDelta_tokens text1 (token # tokens) pointer =
     (let param = substring_from token 1 in
      if take 1 token = [43] then
        (case decodeURI param of
           Inl e \<Rightarrow> Inl (Error ''Illegal escape in diff_fromDelta'')
         | Inr t \<Rightarrow>
             (case diff_fromDelta_tokens text1 tokens pointer of
                Inl e \<Rightarrow> Inl e
              | Inr (diffs, p) \<Rightarrow> Inr ((DIFF_INSERT, t) # diffs, p)))
      else if take 1 token = [45] \<or> take 1 token = [61] then
        (case parseInt10 param of
           None \<Rightarrow> Inl (Error ''Invalid number in diff_fromDelta'')
         | Some n \<Rightarrow>
             if n < 0 then Inl (Error ''Invalid number in diff_fromDelta'')
             else
               (let text = substring text1 pointer (pointer + nat n) in
                case diff_fromDelta_tokens text1 tokens (pointer + nat n) of
                  Inl e \<Rightarrow> Inl e
                | Inr (diffs, p) \<Rightarrow>
                    Inr ((if take 1 token = [61] then DIFF_EQUAL else DIFF_DELETE, text)
                         # diffs, p)))
      else if token \<noteq> [] then Inl (Error ''Invalid diff operation in diff_fromDelta'')
      else diff_fromDelta_tokens text1 tokens pointer)"

definition diff_fromDelta :: "jsstring \<Rightarrow> jsstring \<Rightarrow> error + diff list" where
  "diff_fromDelta text1 delta =
     (case diff_fromDelta_tokens text1 (split_tab delta) 0 of
        Inl e \<Rightarrow> Inl e
      | Inr (diffs, pointer) \<Rightarrow>
          if pointer \<noteq> length text1 then
            Inl (Error ''Delta length does not equal source text length'')
          else Inr diffs)"

section \<open>TextDiff: diff\<close>

text \<open>
  The diff engine. An array of diff tuples that the source edits in place is a list that
  each function returns; no array of tuples is used again by its caller after it was
  handed over, so the sharing of the tuples is not observable.

  The clock is a parameter: \<open>clock t\<close> is the value of the reading number \<open>t\<close> of
  \<open>(new Date()).getTime()\<close>, and a function that reads the clock returns the number of
  the next reading with its result.

  The loops whose pointer can move backwards are \<open>while\<close> loops that need not end;
  a loop that runs forever, and a recursion through \<open>diff_main\<close> deeper than the fuel,
  are the value \<open>Inl OutOfFuel\<close>.
\<close>

subsection \<open>Loops\<close>

definition while_loop :: "('s \<Rightarrow> bool) \<Rightarrow> ('s \<Rightarrow> error + 's) \<Rightarrow> 's \<Rightarrow> error + 's" where
  \<comment> \<open>\<open>while (b) { c }\<close>, where the body may raise\<close>
  "while_loop b c s =
     (case while_option (\<lambda>r. case r of Inl e \<Rightarrow> False | Inr s \<Rightarrow> b s)
             (\<lambda>r. case r of Inl e \<Rightarrow> Inl e | Inr s \<Rightarrow> c s) (Inr s) of
        None \<Rightarrow> Inl OutOfFuel
      | Some r \<Rightarrow> r)"

lemma while_loop_unfold:
  "while_loop b c s =
     (if b s then (case c s of Inl e \<Rightarrow> Inl e | Inr s' \<Rightarrow> while_loop b c s') else Inr s)"
proof (cases "b s")
  case False
  then show ?thesis
    by (simp add: while_loop_def while_option_unfold)
next
  case True
  show ?thesis
  proof (cases "c s")
    case (Inl e)
    with True show ?thesis
      by (simp add: while_loop_def while_option_unfold)
  next
    case (Inr s')
    with True show ?thesis
      by (simp add: while_loop_def while_option_unfold [where s = "Inr s"])
  qed
qed

subsection \<open>Common prefix, suffix and overlap\<close>

definition Diff_Timeout :: int where
  \<comment> \<open>seconds\<close>
  "Diff_Timeout = 1"

function commonPrefix_search :: "jsstring \<Rightarrow> jsstring \<Rightarrow> nat \<Rightarrow> nat \<Rightarrow> nat \<Rightarrow> nat \<Rightarrow> nat" where
  \<comment> \<open>the binary search of \<open>diff_commonPrefix\<close>\<close>
  "commonPrefix_search text1 text2 pointermin pointermid pointermax pointerstart =
     (if pointermin < pointermid then
        (if substring text1 pointerstart pointermid = substring text2 pointerstart pointermid
         then commonPrefix_search text1 text2 pointermid
                ((pointermax - pointermid) div 2 + pointermid) pointermax pointermid
         else commonPrefix_search text1 text2 pointermin
                ((pointermid - pointermin) div 2 + pointermin) pointermid pointerstart)
      else pointermid)"
  by pat_completeness auto
termination
  by (relation "measure (\<lambda>(text1, text2, pointermin, pointermid, pointermax, pointerstart).
          if \<not> pointermin < pointermid then 0
          else if pointermid \<le> pointermax then
            2 * (pointermax - pointermin) + (if pointermid = pointermax then 1 else 0) + 1
          else 2 * (pointermid - pointermin) + 3)")
    (auto split: if_splits)

declare commonPrefix_search.simps [simp del]

definition diff_commonPrefix :: "jsstring \<Rightarrow> jsstring \<Rightarrow> nat" where
  "diff_commonPrefix text1 text2 =
     (if text1 = [] \<or> text2 = [] \<or> hd text1 \<noteq> hd text2 then 0
      else commonPrefix_search text1 text2 0 (min (length text1) (length text2))
             (min (length text1) (length text2)) 0)"

function commonSuffix_search :: "jsstring \<Rightarrow> jsstring \<Rightarrow> nat \<Rightarrow> nat \<Rightarrow> nat \<Rightarrow> nat \<Rightarrow> nat" where
  \<comment> \<open>the binary search of \<open>diff_commonSuffix\<close>\<close>
  "commonSuffix_search text1 text2 pointermin pointermid pointermax pointerend =
     (if pointermin < pointermid then
        (if substring text1 (length text1 - pointermid) (length text1 - pointerend)
            = substring text2 (length text2 - pointermid) (length text2 - pointerend)
         then commonSuffix_search text1 text2 pointermid
                ((pointermax - pointermid) div 2 + pointermid) pointermax pointermid
         else commonSuffix_search text1 text2 pointermin
                ((pointermid - pointermin) div 2 + pointermin) pointermid pointerend)
      else pointermid)"
  by pat_completeness auto
termination
  by (relation "measure (\<lambda>(text1, text2, pointermin, pointermid, pointermax, pointerend).
          if \<not> pointermin < pointermid then 0
          else if pointermid \<le> pointermax then
            2 * (pointermax - pointermin) + (if pointermid = pointermax then 1 else 0) + 1
          else 2 * (pointermid - pointermin) + 3)")
    (auto split: if_splits)

declare commonSuffix_search.simps [simp del]

definition diff_commonSuffix :: "jsstring \<Rightarrow> jsstring \<Rightarrow> nat" where
  "diff_commonSuffix text1 text2 =
     (if text1 = [] \<or> text2 = [] \<or> last text1 \<noteq> last text2 then 0
      else commonSuffix_search text1 text2 0 (min (length text1) (length text2))
             (min (length text1) (length text2)) 0)"

definition commonOverlap_step ::
  "jsstring \<Rightarrow> jsstring \<Rightarrow> nat \<times> nat \<times> nat option \<Rightarrow> nat \<times> nat \<times> nat option" where
  \<comment> \<open>one round of the loop \<open>while (true)\<close> of \<open>diff_commonOverlap_\<close> on the truncated
      texts; the state is \<open>best\<close>, \<open>length\<close> and the value returned, if any\<close>
  "commonOverlap_step text1 text2 = (\<lambda>(best, len, result).
     (case indexOf text2 (substring_from text1 (length text1 - len)) 0 of
        None \<Rightarrow> (best, len, Some best)
      | Some found \<Rightarrow>
          if found = 0
             \<or> substring_from text1 (length text1 - (len + found)) = substring text2 0 (len + found)
          then (len + found, len + found + 1, None)
          else (best, len + found, None)))"

definition diff_commonOverlap :: "jsstring \<Rightarrow> jsstring \<Rightarrow> error + nat" where
  \<comment> \<open>\<open>diff_commonOverlap_\<close>\<close>
  "diff_commonOverlap text1 text2 =
     (if length text1 = 0 \<or> length text2 = 0 then Inr 0
      else
        (let t1 = (if length text1 > length text2
                   then substring_from text1 (length text1 - length text2) else text1);
             t2 = (if length text1 < length text2
                   then substring text2 0 (length text1) else text2)
         in if t1 = t2 then Inr (min (length text1) (length text2))
            else
              (case while_loop (\<lambda>(best, len, result). result = None)
                      (\<lambda>s. Inr (commonOverlap_step t1 t2 s)) (0, 1, None) of
                 Inl e \<Rightarrow> Inl e
               | Inr (best, len, result) \<Rightarrow> Inr (the result))))"

subsection \<open>Half match\<close>

definition halfMatchI ::
  "jsstring \<Rightarrow> jsstring \<Rightarrow> nat
   \<Rightarrow> (jsstring \<times> jsstring \<times> jsstring \<times> jsstring \<times> jsstring) option" where
  \<comment> \<open>\<open>diff_halfMatchI_\<close>: the occurrences \<open>j\<close> of the seed in \<open>shorttext\<close> are visited from
      left to right, and a later one replaces the best only when it is strictly longer.
      The seed is not empty: \<open>longtext\<close> has four code units or more.\<close>
  "halfMatchI longtext shorttext i =
     (let seed = substring longtext i (i + length longtext div 4);
          js = filter (\<lambda>j. take (length seed) (drop j shorttext) = seed)
                 [0..<Suc (length shorttext)];
          best = foldl (\<lambda>best j.
                    (let prefixLength = diff_commonPrefix (substring_from longtext i)
                                          (substring_from shorttext j);
                         suffixLength = diff_commonSuffix (substring longtext 0 i)
                                          (substring shorttext 0 j)
                     in case best of (best_longtext_a, best_longtext_b, best_shorttext_a,
                                      best_shorttext_b, best_common) \<Rightarrow>
                          if length best_common < suffixLength + prefixLength then
                            (substring longtext 0 (i - suffixLength),
                             substring_from longtext (i + prefixLength),
                             substring shorttext 0 (j - suffixLength),
                             substring_from shorttext (j + prefixLength),
                             substring shorttext (j - suffixLength) j
                             @ substring shorttext j (j + prefixLength))
                          else best))
                   ([], [], [], [], []) js
      in case best of (a, b, c, d, best_common) \<Rightarrow>
           if length best_common * 2 \<ge> length longtext then Some best else None)"

definition diff_halfMatch ::
  "jsstring \<Rightarrow> jsstring
   \<Rightarrow> (jsstring \<times> jsstring \<times> jsstring \<times> jsstring \<times> jsstring) option" where
  \<comment> \<open>\<open>diff_halfMatch_\<close>: \<open>text1_a\<close>, \<open>text1_b\<close>, \<open>text2_a\<close>, \<open>text2_b\<close> and \<open>mid_common\<close>\<close>
  "diff_halfMatch text1 text2 =
     (let longtext = (if length text1 > length text2 then text1 else text2);
          shorttext = (if length text1 > length text2 then text2 else text1)
      in if Diff_Timeout \<le> 0 then None
         else if length longtext < 4 \<or> length shorttext * 2 < length longtext then None
         else
           (let hm1 = halfMatchI longtext shorttext ((length longtext + 3) div 4);
                hm2 = halfMatchI longtext shorttext ((length longtext + 1) div 2);
                hm = (case (hm1, hm2) of
                        (None, None) \<Rightarrow> None
                      | (Some h1, None) \<Rightarrow> Some h1
                      | (None, Some h2) \<Rightarrow> Some h2
                      | (Some h1, Some h2) \<Rightarrow>
                          if length (snd (snd (snd (snd h1)))) > length (snd (snd (snd (snd h2))))
                          then Some h1 else Some h2)
            in case hm of
                 None \<Rightarrow> None
               | Some (a, b, c, d, mid_common) \<Rightarrow>
                   if length text1 > length text2 then Some (a, b, c, d, mid_common)
                   else Some (c, d, a, b, mid_common)))"

subsection \<open>Lines as characters\<close>

fun lines_of :: "jsstring \<Rightarrow> jsstring list" where
  \<comment> \<open>the lines that the loop of \<open>diff_linesToCharsMunge_\<close> cuts: each ends after its
      \<open>'\n'\<close>, the last one at the end of the text\<close>
  "lines_of [] = []"
| "lines_of (c # cs) =
     (if c = 10 then [c] # lines_of cs
      else (case lines_of cs of [] \<Rightarrow> [[c]] | l # ls \<Rightarrow> (c # l) # ls))"

definition lineHash :: "jsstring list \<Rightarrow> jsstring \<Rightarrow> error + nat option" where
  \<comment> \<open>the test \<open>lineHash.hasOwnProperty ? lineHash.hasOwnProperty(line) : ...\<close> and the
      entry \<open>lineHash[line]\<close>. The keys of \<open>lineHash\<close> are the lines of \<open>lineArray\<close> from
      index 1 on, each with the index at which it was added. Once the line
      \<open>hasOwnProperty\<close> is a key, \<open>lineHash.hasOwnProperty\<close> is a number, and the call
      of it raises. What an assignment to the key \<open>__proto__\<close> does depends on the
      engine.\<close>
  "lineHash lineArray line =
     (if ascii ''hasOwnProperty'' \<in> set (tl lineArray) then Inl TypeError
      else if line = ascii ''__proto__'' then Inl Unmodelled
      else Inr (List.find (\<lambda>k. lineArray ! k = line) [1..<length lineArray]))"

definition fromCharCode :: "nat \<Rightarrow> 16 word" where
  \<comment> \<open>\<open>String.fromCharCode(n)\<close>: the code unit \<open>n mod 65536\<close>\<close>
  "fromCharCode n = of_nat n"

definition charCodeAt :: "16 word \<Rightarrow> nat" where
  "charCodeAt c = unat c"

fun linesToCharsMunge ::
  "jsstring list \<Rightarrow> jsstring list \<Rightarrow> jsstring \<Rightarrow> error + jsstring \<times> jsstring list" where
  \<comment> \<open>the loop of \<open>diff_linesToCharsMunge_\<close> over the lines that are left: the encoded
      text and \<open>lineArray\<close> afterwards\<close>
  "linesToCharsMunge lineArray [] chars = Inr (chars, lineArray)"
| "linesToCharsMunge lineArray (line # lines) chars =
     (case lineHash lineArray line of
        Inl e \<Rightarrow> Inl e
      | Inr (Some k) \<Rightarrow> linesToCharsMunge lineArray lines (chars @ [fromCharCode k])
      | Inr None \<Rightarrow>
          linesToCharsMunge (lineArray @ [line]) lines
            (chars @ [fromCharCode (length lineArray)]))"

definition diff_linesToChars ::
  "jsstring \<Rightarrow> jsstring \<Rightarrow> error + jsstring \<times> jsstring \<times> jsstring list" where
  \<comment> \<open>\<open>diff_linesToChars_\<close>; the entry 0 of \<open>lineArray\<close> is the empty string\<close>
  "diff_linesToChars text1 text2 =
     (case linesToCharsMunge [[]] (lines_of text1) [] of
        Inl e \<Rightarrow> Inl e
      | Inr (chars1, lineArray1) \<Rightarrow>
          (case linesToCharsMunge lineArray1 (lines_of text2) [] of
             Inl e \<Rightarrow> Inl e
           | Inr (chars2, lineArray2) \<Rightarrow> Inr (chars1, chars2, lineArray2)))"

definition diff_charsToLines :: "diff list \<Rightarrow> jsstring list \<Rightarrow> diff list" where
  \<comment> \<open>\<open>diff_charsToLines_\<close>; an index beyond \<open>lineArray\<close> gives \<open>undefined\<close>, which
      \<open>join\<close> turns into the empty string\<close>
  "diff_charsToLines diffs lineArray =
     map (\<lambda>(op, chars).
            (op, concat (map (\<lambda>c. if charCodeAt c < length lineArray
                                   then lineArray ! charCodeAt c else []) chars)))
       diffs"

subsection \<open>Bisection\<close>

type_synonym clock = "nat \<Rightarrow> int"

type_synonym diff_result = "error + diff list \<times> nat"

type_synonym diff_rec =
  "nat \<Rightarrow> jsstring \<Rightarrow> jsstring \<Rightarrow> bool option \<Rightarrow> int option \<Rightarrow> diff_result"

definition charAt :: "jsstring \<Rightarrow> int \<Rightarrow> 16 word option" where
  \<comment> \<open>\<open>s.charAt(i)\<close>; \<open>None\<close> is the empty string\<close>
  "charAt s i = (if 0 \<le> i \<and> i < int (length s) then Some (s ! nat i) else None)"

function bisect_snake :: "jsstring \<Rightarrow> jsstring \<Rightarrow> int \<Rightarrow> int \<Rightarrow> int \<times> int" where
  \<comment> \<open>the loop that follows a diagonal forwards: \<open>x1\<close> and \<open>y1\<close> afterwards\<close>
  "bisect_snake text1 text2 x1 y1 =
     (if x1 < int (length text1) \<and> y1 < int (length text2)
         \<and> charAt text1 x1 = charAt text2 y1
      then bisect_snake text1 text2 (x1 + 1) (y1 + 1) else (x1, y1))"
  by pat_completeness auto
termination
  by (relation "measure (\<lambda>(text1, text2, x1, y1). nat (int (length text1) - x1))") auto

declare bisect_snake.simps [simp del]

function bisect_snake_rev :: "jsstring \<Rightarrow> jsstring \<Rightarrow> int \<Rightarrow> int \<Rightarrow> int \<times> int" where
  \<comment> \<open>the loop that follows a diagonal backwards: \<open>x2\<close> and \<open>y2\<close> afterwards\<close>
  "bisect_snake_rev text1 text2 x2 y2 =
     (if x2 < int (length text1) \<and> y2 < int (length text2)
         \<and> charAt text1 (int (length text1) - x2 - 1) = charAt text2 (int (length text2) - y2 - 1)
      then bisect_snake_rev text1 text2 (x2 + 1) (y2 + 1) else (x2, y2))"
  by pat_completeness auto
termination
  by (relation "measure (\<lambda>(text1, text2, x2, y2). nat (int (length text1) - x2))") auto

declare bisect_snake_rev.simps [simp del]

record bisect_state =
  v1 :: "int \<Rightarrow> int"
  v2 :: "int \<Rightarrow> int"
  k1start :: int
  k1end :: int
  k2start :: int
  k2end :: int

definition bisect_max_d :: "jsstring \<Rightarrow> jsstring \<Rightarrow> int" where
  \<comment> \<open>\<open>Math.ceil((text1_length + text2_length) / 2)\<close>\<close>
  "bisect_max_d text1 text2 = (int (length text1) + int (length text2) + 1) div 2"

definition bisect_front_step ::
  "jsstring \<Rightarrow> jsstring \<Rightarrow> int \<Rightarrow> int \<Rightarrow> bisect_state \<Rightarrow> (int \<times> int) + bisect_state" where
  \<comment> \<open>the body of the loop over \<open>k1\<close> at depth \<open>d\<close>: the point \<open>(x1, y1)\<close> when an
      overlap is detected, the state otherwise\<close>
  "bisect_front_step text1 text2 d k1 st =
     (let text1_length = int (length text1);
          text2_length = int (length text2);
          v_offset = bisect_max_d text1 text2;
          v_length = 2 * bisect_max_d text1 text2;
          delta = text1_length - text2_length;
          front = (delta mod 2 \<noteq> 0);
          k1_offset = v_offset + k1;
          x1 = (if k1 = - d \<or> (k1 \<noteq> d \<and> v1 st (k1_offset - 1) < v1 st (k1_offset + 1))
                then v1 st (k1_offset + 1) else v1 st (k1_offset - 1) + 1);
          xy = bisect_snake text1 text2 x1 (x1 - k1);
          st1 = st\<lparr>v1 := (v1 st)(k1_offset := fst xy)\<rparr>;
          k2_offset = v_offset + delta - k1
      in if fst xy > text1_length then Inr (st1\<lparr>k1end := k1end st + 2\<rparr>)
         else if snd xy > text2_length then Inr (st1\<lparr>k1start := k1start st + 2\<rparr>)
         else if front \<and> k2_offset \<ge> 0 \<and> k2_offset < v_length \<and> v2 st1 k2_offset \<noteq> - 1
                 \<and> fst xy \<ge> text1_length - v2 st1 k2_offset
         then Inl xy
         else Inr st1)"

lemma bisect_front_step_k1end:
  "bisect_front_step text1 text2 d k1 st = Inr st' \<Longrightarrow> k1end st \<le> k1end st'"
  by (auto simp: bisect_front_step_def Let_def split: if_splits)

function bisect_front ::
  "jsstring \<Rightarrow> jsstring \<Rightarrow> int \<Rightarrow> int \<Rightarrow> bisect_state \<Rightarrow> (int \<times> int) + bisect_state" where
  \<comment> \<open>\<open>for (...; k1 <= d - k1end; k1 += 2)\<close>\<close>
  "bisect_front text1 text2 d k1 st =
     (if k1 \<le> d - k1end st then
        (case bisect_front_step text1 text2 d k1 st of
           Inl xy \<Rightarrow> Inl xy
         | Inr st' \<Rightarrow> bisect_front text1 text2 d (k1 + 2) st')
      else Inr st)"
  by pat_completeness auto
termination
proof (relation "measure (\<lambda>(text1, text2, d, k1, st). nat (d - k1end st - k1 + 1))")
  show "wf (measure (\<lambda>(text1, text2, d, k1, st). nat (d - k1end st - k1 + 1)))"
    by simp
next
  fix text1 text2 :: jsstring and d k1 :: int and st st' :: bisect_state
  assume "k1 \<le> d - k1end st" and "bisect_front_step text1 text2 d k1 st = Inr st'"
  then show "((text1, text2, d, k1 + 2, st'), (text1, text2, d, k1, st))
      \<in> measure (\<lambda>(text1, text2, d, k1, st). nat (d - k1end st - k1 + 1))"
    using bisect_front_step_k1end [of text1 text2 d k1 st st'] by simp
qed

declare bisect_front.simps [simp del]

definition bisect_reverse_step ::
  "jsstring \<Rightarrow> jsstring \<Rightarrow> int \<Rightarrow> int \<Rightarrow> bisect_state \<Rightarrow> (int \<times> int) + bisect_state" where
  \<comment> \<open>the body of the loop over \<open>k2\<close> at depth \<open>d\<close>\<close>
  "bisect_reverse_step text1 text2 d k2 st =
     (let text1_length = int (length text1);
          text2_length = int (length text2);
          v_offset = bisect_max_d text1 text2;
          v_length = 2 * bisect_max_d text1 text2;
          delta = text1_length - text2_length;
          front = (delta mod 2 \<noteq> 0);
          k2_offset = v_offset + k2;
          x2 = (if k2 = - d \<or> (k2 \<noteq> d \<and> v2 st (k2_offset - 1) < v2 st (k2_offset + 1))
                then v2 st (k2_offset + 1) else v2 st (k2_offset - 1) + 1);
          xy = bisect_snake_rev text1 text2 x2 (x2 - k2);
          st1 = st\<lparr>v2 := (v2 st)(k2_offset := fst xy)\<rparr>;
          k1_offset = v_offset + delta - k2;
          x1 = v1 st1 k1_offset;
          y1 = v_offset + x1 - k1_offset
      in if fst xy > text1_length then Inr (st1\<lparr>k2end := k2end st + 2\<rparr>)
         else if snd xy > text2_length then Inr (st1\<lparr>k2start := k2start st + 2\<rparr>)
         else if \<not> front \<and> k1_offset \<ge> 0 \<and> k1_offset < v_length \<and> v1 st1 k1_offset \<noteq> - 1
                 \<and> x1 \<ge> text1_length - fst xy
         then Inl (x1, y1)
         else Inr st1)"

lemma bisect_reverse_step_k2end:
  "bisect_reverse_step text1 text2 d k2 st = Inr st' \<Longrightarrow> k2end st \<le> k2end st'"
  by (auto simp: bisect_reverse_step_def Let_def split: if_splits)

function bisect_reverse ::
  "jsstring \<Rightarrow> jsstring \<Rightarrow> int \<Rightarrow> int \<Rightarrow> bisect_state \<Rightarrow> (int \<times> int) + bisect_state" where
  \<comment> \<open>\<open>for (...; k2 <= d - k2end; k2 += 2)\<close>\<close>
  "bisect_reverse text1 text2 d k2 st =
     (if k2 \<le> d - k2end st then
        (case bisect_reverse_step text1 text2 d k2 st of
           Inl xy \<Rightarrow> Inl xy
         | Inr st' \<Rightarrow> bisect_reverse text1 text2 d (k2 + 2) st')
      else Inr st)"
  by pat_completeness auto
termination
proof (relation "measure (\<lambda>(text1, text2, d, k2, st). nat (d - k2end st - k2 + 1))")
  show "wf (measure (\<lambda>(text1, text2, d, k2, st). nat (d - k2end st - k2 + 1)))"
    by simp
next
  fix text1 text2 :: jsstring and d k2 :: int and st st' :: bisect_state
  assume "k2 \<le> d - k2end st" and "bisect_reverse_step text1 text2 d k2 st = Inr st'"
  then show "((text1, text2, d, k2 + 2, st'), (text1, text2, d, k2, st))
      \<in> measure (\<lambda>(text1, text2, d, k2, st). nat (d - k2end st - k2 + 1))"
    using bisect_reverse_step_k2end [of text1 text2 d k2 st st'] by simp
qed

declare bisect_reverse.simps [simp del]

function bisect_depths ::
  "clock \<Rightarrow> int \<Rightarrow> nat \<Rightarrow> jsstring \<Rightarrow> jsstring \<Rightarrow> int \<Rightarrow> bisect_state
   \<Rightarrow> (int \<times> int) option \<times> nat" where
  \<comment> \<open>\<open>for (var d = 0; d < max_d; d++)\<close>: the point of the overlap if one is detected,
      and the number of the next reading of the clock\<close>
  "bisect_depths clock deadline t text1 text2 d st =
     (if d < bisect_max_d text1 text2 then
        (if clock t > deadline then (None, t + 1)
         else
           (case bisect_front text1 text2 d (- d + k1start st) st of
              Inl xy \<Rightarrow> (Some xy, t + 1)
            | Inr st1 \<Rightarrow>
                (case bisect_reverse text1 text2 d (- d + k2start st1) st1 of
                   Inl xy \<Rightarrow> (Some xy, t + 1)
                 | Inr st2 \<Rightarrow> bisect_depths clock deadline (t + 1) text1 text2 (d + 1) st2)))
      else (None, t))"
  by pat_completeness auto
termination
  by (relation "measure (\<lambda>(clock, deadline, t, text1, text2, d, st).
          nat (bisect_max_d text1 text2 - d))") auto

declare bisect_depths.simps [simp del]

definition diff_bisectSplit ::
  "diff_rec \<Rightarrow> nat \<Rightarrow> jsstring \<Rightarrow> jsstring \<Rightarrow> int \<Rightarrow> int \<Rightarrow> int \<Rightarrow> diff_result" where
  \<comment> \<open>\<open>diff_bisectSplit_\<close>; \<open>substring\<close> takes a negative index for 0\<close>
  "diff_bisectSplit main t text1 text2 x y deadline =
     (case main t (substring text1 0 (nat x)) (substring text2 0 (nat y))
             (Some False) (Some deadline) of
        Inl e \<Rightarrow> Inl e
      | Inr (diffs, t1) \<Rightarrow>
          (case main t1 (substring_from text1 (nat x)) (substring_from text2 (nat y))
                  (Some False) (Some deadline) of
             Inl e \<Rightarrow> Inl e
           | Inr (diffsb, t2) \<Rightarrow> Inr (diffs @ diffsb, t2)))"

definition diff_bisect ::
  "diff_rec \<Rightarrow> clock \<Rightarrow> nat \<Rightarrow> jsstring \<Rightarrow> jsstring \<Rightarrow> int \<Rightarrow> diff_result" where
  \<comment> \<open>\<open>diff_bisect_\<close>. Every entry of \<open>v1\<close> and \<open>v2\<close> that is read without a test of
      its index lies in the array or is the entry \<open>v_offset + 1\<close>, since \<open>k1\<close> and \<open>k2\<close>
      stay between \<open>-d\<close> and \<open>d\<close> and \<open>d < max_d\<close>; so the arrays are functions that
      are \<open>-1\<close> wherever nothing was stored.\<close>
  "diff_bisect main clock t text1 text2 deadline =
     (let v = (\<lambda>x. - 1)(bisect_max_d text1 text2 + 1 := 0)
      in case bisect_depths clock deadline t text1 text2 0
                \<lparr>v1 = v, v2 = v, k1start = 0, k1end = 0, k2start = 0, k2end = 0\<rparr> of
           (Some (x, y), t') \<Rightarrow> diff_bisectSplit main t' text1 text2 x y deadline
         | (None, t') \<Rightarrow> Inr ([(DIFF_DELETE, text1), (DIFF_INSERT, text2)], t'))"

subsection \<open>Merging\<close>

record merge_state =
  ms_diffs :: "diff list"
  ms_pointer :: nat
  count_delete :: nat
  count_insert :: nat
  text_delete :: jsstring
  text_insert :: jsstring

definition merge_factor :: "merge_state \<Rightarrow> merge_state" where
  \<comment> \<open>the common prefix and the common suffix of the insertion and the deletion move
      into the equalities around them\<close>
  "merge_factor st =
     (let prefixlength = diff_commonPrefix (text_insert st) (text_delete st);
          start = int (ms_pointer st) - int (count_delete st) - int (count_insert st);
          st1 = (if prefixlength \<noteq> 0 then
                   (if start > 0 \<and> fst (ms_diffs st ! nat (start - 1)) = DIFF_EQUAL
                    then st\<lparr>ms_diffs := (ms_diffs st)[nat (start - 1) :=
                                  (DIFF_EQUAL, snd (ms_diffs st ! nat (start - 1))
                                     @ substring (text_insert st) 0 prefixlength)]\<rparr>
                    else st\<lparr>ms_diffs := splice (ms_diffs st) 0 0
                                  [(DIFF_EQUAL, substring (text_insert st) 0 prefixlength)],
                            ms_pointer := ms_pointer st + 1\<rparr>)
                   \<lparr>text_insert := substring_from (text_insert st) prefixlength,
                    text_delete := substring_from (text_delete st) prefixlength\<rparr>
                 else st);
          suffixlength = diff_commonSuffix (text_insert st1) (text_delete st1)
      in if suffixlength \<noteq> 0 then
           st1\<lparr>ms_diffs := (ms_diffs st1)[ms_pointer st1 :=
                   (fst (ms_diffs st1 ! ms_pointer st1),
                    substring_from (text_insert st1) (length (text_insert st1) - suffixlength)
                    @ snd (ms_diffs st1 ! ms_pointer st1))],
               text_insert := substring (text_insert st1) 0
                                (length (text_insert st1) - suffixlength),
               text_delete := substring (text_delete st1) 0
                                (length (text_delete st1) - suffixlength)\<rparr>
         else st1)"

definition merge_replace :: "merge_state \<Rightarrow> merge_state" where
  \<comment> \<open>the counted records are replaced by the merged ones\<close>
  "merge_replace st =
     (let start = int (ms_pointer st) - int (count_delete st) - int (count_insert st);
          n = count_delete st + count_insert st;
          merged = (if count_delete st = 0 then [(DIFF_INSERT, text_insert st)]
                    else if count_insert st = 0 then [(DIFF_DELETE, text_delete st)]
                    else [(DIFF_DELETE, text_delete st), (DIFF_INSERT, text_insert st)])
      in st\<lparr>ms_diffs := splice (ms_diffs st) start n merged,
            ms_pointer := nat (start + (if count_delete st \<noteq> 0 then 1 else 0)
                                + (if count_insert st \<noteq> 0 then 1 else 0) + 1)\<rparr>)"

definition merge_reset :: "merge_state \<Rightarrow> merge_state" where
  "merge_reset st = st\<lparr>count_insert := 0, count_delete := 0, text_delete := [], text_insert := []\<rparr>"

definition merge_step :: "merge_state \<Rightarrow> merge_state" where
  \<comment> \<open>the body of the first loop of \<open>diff_cleanupMerge\<close>, entered with
      \<open>pointer < diffs.length\<close>\<close>
  "merge_step st =
     (case ms_diffs st ! ms_pointer st of
        (DIFF_INSERT, text) \<Rightarrow>
          st\<lparr>count_insert := count_insert st + 1, text_insert := text_insert st @ text,
             ms_pointer := ms_pointer st + 1\<rparr>
      | (DIFF_DELETE, text) \<Rightarrow>
          st\<lparr>count_delete := count_delete st + 1, text_delete := text_delete st @ text,
             ms_pointer := ms_pointer st + 1\<rparr>
      | (DIFF_EQUAL, text) \<Rightarrow>
          merge_reset
            (if count_delete st + count_insert st > 1 then
               merge_replace
                 (if count_delete st \<noteq> 0 \<and> count_insert st \<noteq> 0 then merge_factor st else st)
             else if ms_pointer st \<noteq> 0 \<and> fst (ms_diffs st ! (ms_pointer st - 1)) = DIFF_EQUAL
             then st\<lparr>ms_diffs := splice ((ms_diffs st)[ms_pointer st - 1 :=
                                     (DIFF_EQUAL, snd (ms_diffs st ! (ms_pointer st - 1)) @ text)])
                                   (int (ms_pointer st)) 1 []\<rparr>
             else st\<lparr>ms_pointer := ms_pointer st + 1\<rparr>))"

definition shift_step :: "diff list \<times> nat \<times> bool \<Rightarrow> diff list \<times> nat \<times> bool" where
  \<comment> \<open>the body of the second loop of \<open>diff_cleanupMerge\<close>, entered with
      \<open>1 \<le> pointer < diffs.length - 1\<close>; the state is \<open>diffs\<close>, \<open>pointer\<close> and \<open>changes\<close>\<close>
  "shift_step = (\<lambda>(diffs, pointer, changes).
     (let eq_before = snd (diffs ! (pointer - 1));
          edit = snd (diffs ! pointer);
          eq_after = snd (diffs ! (pointer + 1))
      in if fst (diffs ! (pointer - 1)) = DIFF_EQUAL \<and> fst (diffs ! (pointer + 1)) = DIFF_EQUAL
         then
           (if substring_from edit (length edit - length eq_before) = eq_before then
              (splice (diffs[pointer := (fst (diffs ! pointer),
                                eq_before @ substring edit 0 (length edit - length eq_before)),
                             pointer + 1 := (DIFF_EQUAL, eq_before @ eq_after)])
                 (int pointer - 1) 1 [],
               pointer + 1, True)
            else if substring edit 0 (length eq_after) = eq_after then
              (splice (diffs[pointer - 1 := (DIFF_EQUAL, eq_before @ eq_after),
                             pointer := (fst (diffs ! pointer),
                                substring_from edit (length eq_after) @ eq_after)])
                 (int pointer + 1) 1 [],
               pointer + 1, True)
            else (diffs, pointer + 1, changes))
         else (diffs, pointer + 1, changes)))"

definition merge_round :: "diff list \<Rightarrow> error + diff list \<times> bool" where
  \<comment> \<open>the body of \<open>diff_cleanupMerge\<close> up to its call of itself: the array and
      \<open>changes\<close>\<close>
  "merge_round diffs =
     (case while_loop (\<lambda>st. ms_pointer st < length (ms_diffs st)) (\<lambda>st. Inr (merge_step st))
             \<lparr>ms_diffs = diffs @ [(DIFF_EQUAL, [])], ms_pointer = 0, count_delete = 0,
              count_insert = 0, text_delete = [], text_insert = []\<rparr> of
        Inl e \<Rightarrow> Inl e
      | Inr st \<Rightarrow>
          if ms_diffs st = [] then Inl TypeError
          else
            (let diffs1 = (if snd (last (ms_diffs st)) = [] then butlast (ms_diffs st)
                           else ms_diffs st)
             in case while_loop (\<lambda>(diffs, pointer, changes). int pointer < int (length diffs) - 1)
                       (\<lambda>s. Inr (shift_step s)) (diffs1, 1, False) of
                  Inl e \<Rightarrow> Inl e
                | Inr (diffs2, pointer, changes) \<Rightarrow> Inr (diffs2, changes)))"

definition diff_cleanupMerge :: "diff list \<Rightarrow> error + diff list" where
  \<comment> \<open>\<open>diff_cleanupMerge\<close>: its last statement calls it again when shifts were made, so
      it is the loop of its body\<close>
  "diff_cleanupMerge diffs =
     (case merge_round diffs of
        Inl e \<Rightarrow> Inl e
      | Inr r \<Rightarrow>
          (case while_loop (\<lambda>(diffs, changes). changes) (\<lambda>(diffs, changes). merge_round diffs) r of
             Inl e \<Rightarrow> Inl e
           | Inr (diffs', changes) \<Rightarrow> Inr diffs'))"

subsection \<open>Semantic cleanup\<close>

definition is_nonAlphaNumeric :: "16 word \<Rightarrow> bool" where
  \<comment> \<open>\<open>/[^a-zA-Z0-9]/\<close>\<close>
  "is_nonAlphaNumeric c =
     (\<not> ((97 \<le> c \<and> c \<le> 122) \<or> (65 \<le> c \<and> c \<le> 90) \<or> (48 \<le> c \<and> c \<le> 57)))"

definition is_whitespace :: "16 word \<Rightarrow> bool" where
  \<comment> \<open>\<open>/\s/\<close>: the white space and the line terminators of ECMAScript 5.1, 7.2 and 7.3,
      with the space separators of Unicode 6.3 and later, where U+180E is none\<close>
  "is_whitespace c =
     (c \<in> {9, 10, 11, 12, 13, 32, 160, 5760, 8232, 8233, 8239, 8287, 12288, 65279}
      \<or> (8192 \<le> c \<and> c \<le> 8202))"

definition is_linebreak :: "16 word \<Rightarrow> bool" where
  \<comment> \<open>\<open>/[\r\n]/\<close>\<close>
  "is_linebreak c = (c = 13 \<or> c = 10)"

definition is_blanklineEnd :: "jsstring \<Rightarrow> bool" where
  \<comment> \<open>\<open>/\n\r?\n$/\<close>\<close>
  "is_blanklineEnd s =
     (let r = rev s in take 2 r = [10, 10] \<or> take 3 r = [10, 13, 10])"

definition is_blanklineStart :: "jsstring \<Rightarrow> bool" where
  \<comment> \<open>\<open>/^\r?\n\r?\n/\<close>\<close>
  "is_blanklineStart s =
     (let s1 = (if take 1 s = [13] then drop 1 s else s)
      in take 1 s1 = [10]
         \<and> (let s2 = (if take 1 (drop 1 s1) = [13] then drop 2 s1 else drop 1 s1)
            in take 1 s2 = [10]))"

definition diff_cleanupSemanticScore :: "jsstring \<Rightarrow> jsstring \<Rightarrow> nat" where
  "diff_cleanupSemanticScore one two =
     (if one = [] \<or> two = [] then 6
      else
        (let char1 = last one;
             char2 = hd two;
             nonAlphaNumeric1 = is_nonAlphaNumeric char1;
             nonAlphaNumeric2 = is_nonAlphaNumeric char2;
             whitespace1 = (nonAlphaNumeric1 \<and> is_whitespace char1);
             whitespace2 = (nonAlphaNumeric2 \<and> is_whitespace char2);
             lineBreak1 = (whitespace1 \<and> is_linebreak char1);
             lineBreak2 = (whitespace2 \<and> is_linebreak char2);
             blankLine1 = (lineBreak1 \<and> is_blanklineEnd one);
             blankLine2 = (lineBreak2 \<and> is_blanklineStart two)
         in if blankLine1 \<or> blankLine2 then 5
            else if lineBreak1 \<or> lineBreak2 then 4
            else if nonAlphaNumeric1 \<and> \<not> whitespace1 \<and> whitespace2 then 3
            else if whitespace1 \<or> whitespace2 then 2
            else if nonAlphaNumeric1 \<or> nonAlphaNumeric2 then 1
            else 0))"

record slide_state =
  sl_equality1 :: jsstring
  sl_edit :: jsstring
  sl_equality2 :: jsstring
  sl_bestEquality1 :: jsstring
  sl_bestEdit :: jsstring
  sl_bestEquality2 :: jsstring
  sl_bestScore :: nat

definition slide_step :: "slide_state \<Rightarrow> slide_state" where
  \<comment> \<open>the body of the inner loop of \<open>diff_cleanupSemanticLossless\<close>: the edit moves one
      code unit to the right. \<open>charAt(0)\<close> of the empty string is the empty string.\<close>
  "slide_step st =
     (let equality1' = sl_equality1 st @ take 1 (sl_edit st);
          edit' = substring_from (sl_edit st) 1 @ take 1 (sl_equality2 st);
          equality2' = substring_from (sl_equality2 st) 1;
          score = diff_cleanupSemanticScore equality1' edit'
                  + diff_cleanupSemanticScore edit' equality2';
          st1 = st\<lparr>sl_equality1 := equality1', sl_edit := edit', sl_equality2 := equality2'\<rparr>
      in if score \<ge> sl_bestScore st then
           st1\<lparr>sl_bestScore := score, sl_bestEquality1 := equality1', sl_bestEdit := edit',
               sl_bestEquality2 := equality2'\<rparr>
         else st1)"

definition lossless_slide :: "jsstring \<Rightarrow> jsstring \<Rightarrow> jsstring \<Rightarrow> error + slide_state" where
  \<comment> \<open>the best position of an edit between two equalities\<close>
  "lossless_slide e1 ed e2 =
     (let commonOffset = diff_commonSuffix e1 ed;
          commonString = substring_from ed (length ed - commonOffset);
          equality1 = (if commonOffset \<noteq> 0 then substring e1 0 (length e1 - commonOffset) else e1);
          edit = (if commonOffset \<noteq> 0
                  then commonString @ substring ed 0 (length ed - commonOffset) else ed);
          equality2 = (if commonOffset \<noteq> 0 then commonString @ e2 else e2)
      in while_loop (\<lambda>st. take 1 (sl_edit st) = take 1 (sl_equality2 st)) (\<lambda>st. Inr (slide_step st))
           \<lparr>sl_equality1 = equality1, sl_edit = edit, sl_equality2 = equality2,
            sl_bestEquality1 = equality1, sl_bestEdit = edit, sl_bestEquality2 = equality2,
            sl_bestScore = diff_cleanupSemanticScore equality1 edit
                        + diff_cleanupSemanticScore edit equality2\<rparr>)"

definition set_text :: "diff list \<Rightarrow> int \<Rightarrow> jsstring \<Rightarrow> error + diff list" where
  \<comment> \<open>\<open>diffs[i][1] = text\<close>; outside the array \<open>diffs[i]\<close> is \<open>undefined\<close>\<close>
  "set_text diffs i text =
     (if 0 \<le> i \<and> i < int (length diffs)
      then Inr (diffs[nat i := (fst (diffs ! nat i), text)]) else Inl TypeError)"

definition lossless_step :: "diff list \<times> int \<Rightarrow> error + diff list \<times> int" where
  \<comment> \<open>the body of the outer loop of \<open>diff_cleanupSemanticLossless\<close>, entered with
      \<open>pointer < diffs.length - 1\<close>\<close>
  "lossless_step = (\<lambda>(diffs, pointer).
     if pointer < 1 then Inl TypeError
     else if fst (diffs ! nat (pointer - 1)) = DIFF_EQUAL
             \<and> fst (diffs ! nat (pointer + 1)) = DIFF_EQUAL
     then
       (case lossless_slide (snd (diffs ! nat (pointer - 1))) (snd (diffs ! nat pointer))
               (snd (diffs ! nat (pointer + 1))) of
          Inl e \<Rightarrow> Inl e
        | Inr st \<Rightarrow>
            if snd (diffs ! nat (pointer - 1)) \<noteq> sl_bestEquality1 st then
              (case (if sl_bestEquality1 st \<noteq> []
                     then (case set_text diffs (pointer - 1) (sl_bestEquality1 st) of
                             Inl e \<Rightarrow> Inl e | Inr diffs1 \<Rightarrow> Inr (diffs1, pointer))
                     else Inr (splice diffs (pointer - 1) 1 [], pointer - 1)) of
                 Inl e \<Rightarrow> Inl e
               | Inr (diffs1, pointer1) \<Rightarrow>
                   (case set_text diffs1 pointer1 (sl_bestEdit st) of
                      Inl e \<Rightarrow> Inl e
                    | Inr diffs2 \<Rightarrow>
                        if sl_bestEquality2 st \<noteq> [] then
                          (case set_text diffs2 (pointer1 + 1) (sl_bestEquality2 st) of
                             Inl e \<Rightarrow> Inl e
                           | Inr diffs3 \<Rightarrow> Inr (diffs3, pointer1 + 1))
                        else Inr (splice diffs2 (pointer1 + 1) 1 [], pointer1 - 1 + 1)))
            else Inr (diffs, pointer + 1))
     else Inr (diffs, pointer + 1))"

definition diff_cleanupSemanticLossless :: "diff list \<Rightarrow> error + diff list" where
  "diff_cleanupSemanticLossless diffs =
     (case while_loop (\<lambda>(diffs, pointer). pointer < int (length diffs) - 1) lossless_step
             (diffs, 1) of
        Inl e \<Rightarrow> Inl e
      | Inr (diffs', pointer) \<Rightarrow> Inr diffs')"

record semantic_state =
  sem_diffs :: "diff list"
  sem_changes :: bool
  equalities :: "int \<Rightarrow> int"
  equalitiesLength :: int
  lastequality :: "jsstring option"
  sem_pointer :: int
  length_insertions1 :: nat
  length_deletions1 :: nat
  length_insertions2 :: nat
  length_deletions2 :: nat

definition semantic_eliminate :: "semantic_state \<Rightarrow> jsstring \<Rightarrow> semantic_state" where
  \<comment> \<open>the last equality becomes a deletion and an insertion, and the scan goes back to
      the equality before it. \<open>equalitiesLength\<close> is lowered twice, below 0 too, and
      \<open>equalities\<close> keeps what was stored at any index.\<close>
  "semantic_eliminate st equality =
     (let e = equalities st (equalitiesLength st - 1);
          diffs1 = splice (sem_diffs st) e 0 [(DIFF_DELETE, equality)];
          diffs2 = diffs1[nat (e + 1) := (DIFF_INSERT, snd (diffs1 ! nat (e + 1)))]
      in st\<lparr>sem_diffs := diffs2,
            equalitiesLength := equalitiesLength st - 2,
            sem_pointer := (if equalitiesLength st - 2 > 0
                            then equalities st (equalitiesLength st - 3) else - 1) + 1,
            length_insertions1 := 0, length_deletions1 := 0,
            length_insertions2 := 0, length_deletions2 := 0,
            lastequality := None, sem_changes := True\<rparr>)"

definition semantic_step :: "semantic_state \<Rightarrow> semantic_state" where
  \<comment> \<open>the body of the first loop of \<open>diff_cleanupSemantic\<close>, entered with
      \<open>0 \<le> pointer < diffs.length\<close>\<close>
  "semantic_step st =
     (case sem_diffs st ! nat (sem_pointer st) of
        (DIFF_EQUAL, text) \<Rightarrow>
          st\<lparr>equalities := (equalities st)(equalitiesLength st := sem_pointer st),
             equalitiesLength := equalitiesLength st + 1,
             length_insertions1 := length_insertions2 st,
             length_deletions1 := length_deletions2 st,
             length_insertions2 := 0, length_deletions2 := 0,
             lastequality := Some text,
             sem_pointer := sem_pointer st + 1\<rparr>
      | (op, text) \<Rightarrow>
          (let st1 = (if op = DIFF_INSERT
                      then st\<lparr>length_insertions2 := length_insertions2 st + length text\<rparr>
                      else st\<lparr>length_deletions2 := length_deletions2 st + length text\<rparr>)
           in case lastequality st1 of
                None \<Rightarrow> st1\<lparr>sem_pointer := sem_pointer st1 + 1\<rparr>
              | Some equality \<Rightarrow>
                  if length equality \<le> max (length_insertions1 st1) (length_deletions1 st1)
                     \<and> length equality \<le> max (length_insertions2 st1) (length_deletions2 st1)
                  then semantic_eliminate st1 equality
                  else st1\<lparr>sem_pointer := sem_pointer st1 + 1\<rparr>))"

definition overlap_step :: "diff list \<times> nat \<Rightarrow> error + diff list \<times> nat" where
  \<comment> \<open>the body of the last loop of \<open>diff_cleanupSemantic\<close>, entered with
      \<open>1 \<le> pointer < diffs.length\<close>. The halves of the lengths are compared as
      \<open>2 * overlap \<ge> length\<close>.\<close>
  "overlap_step = (\<lambda>(diffs, pointer).
     if fst (diffs ! (pointer - 1)) = DIFF_DELETE \<and> fst (diffs ! pointer) = DIFF_INSERT then
       (let deletion = snd (diffs ! (pointer - 1));
            insertion = snd (diffs ! pointer)
        in case diff_commonOverlap deletion insertion of
             Inl e \<Rightarrow> Inl e
           | Inr overlap_length1 \<Rightarrow>
               (case diff_commonOverlap insertion deletion of
                  Inl e \<Rightarrow> Inl e
                | Inr overlap_length2 \<Rightarrow>
                    if overlap_length1 \<ge> overlap_length2 then
                      (if 2 * overlap_length1 \<ge> length deletion
                          \<or> 2 * overlap_length1 \<ge> length insertion
                       then
                         Inr ((splice diffs (int pointer) 0
                                 [(DIFF_EQUAL, substring insertion 0 overlap_length1)])
                              [pointer - 1 := (DIFF_DELETE,
                                 substring deletion 0 (length deletion - overlap_length1)),
                               pointer + 1 := (DIFF_INSERT,
                                 substring_from insertion overlap_length1)],
                              pointer + 3)
                       else Inr (diffs, pointer + 2))
                    else
                      (if 2 * overlap_length2 \<ge> length deletion
                          \<or> 2 * overlap_length2 \<ge> length insertion
                       then
                         Inr ((splice diffs (int pointer) 0
                                 [(DIFF_EQUAL, substring deletion 0 overlap_length2)])
                              [pointer - 1 := (DIFF_INSERT,
                                 substring insertion 0 (length insertion - overlap_length2)),
                               pointer + 1 := (DIFF_DELETE,
                                 substring_from deletion overlap_length2)],
                              pointer + 3)
                       else Inr (diffs, pointer + 2))))
     else Inr (diffs, pointer + 1))"

definition diff_cleanupSemantic :: "diff list \<Rightarrow> error + diff list" where
  "diff_cleanupSemantic diffs =
     (case while_loop (\<lambda>st. sem_pointer st < int (length (sem_diffs st)))
             (\<lambda>st. Inr (semantic_step st))
             \<lparr>sem_diffs = diffs, sem_changes = False, equalities = (\<lambda>i. 0),
              equalitiesLength = 0, lastequality = None, sem_pointer = 0,
              length_insertions1 = 0, length_deletions1 = 0,
              length_insertions2 = 0, length_deletions2 = 0\<rparr> of
        Inl e \<Rightarrow> Inl e
      | Inr st \<Rightarrow>
          (case (if sem_changes st then diff_cleanupMerge (sem_diffs st)
                 else Inr (sem_diffs st)) of
             Inl e \<Rightarrow> Inl e
           | Inr diffs1 \<Rightarrow>
               (case diff_cleanupSemanticLossless diffs1 of
                  Inl e \<Rightarrow> Inl e
                | Inr diffs2 \<Rightarrow>
                    (case while_loop (\<lambda>(diffs, pointer). pointer < length diffs) overlap_step
                            (diffs2, 1) of
                       Inl e \<Rightarrow> Inl e
                     | Inr (diffs3, pointer) \<Rightarrow> Inr diffs3))))"

subsection \<open>Line mode\<close>

definition rediff_step ::
  "diff_rec \<Rightarrow> int \<Rightarrow> merge_state \<times> nat \<Rightarrow> error + merge_state \<times> nat" where
  \<comment> \<open>the body of the loop of \<open>diff_lineMode_\<close>, entered with \<open>pointer < diffs.length\<close>;
      the state has the number of the next reading of the clock\<close>
  "rediff_step main deadline = (\<lambda>(st, t).
     (case ms_diffs st ! ms_pointer st of
        (DIFF_INSERT, text) \<Rightarrow>
          Inr (st\<lparr>count_insert := count_insert st + 1, text_insert := text_insert st @ text,
                 ms_pointer := ms_pointer st + 1\<rparr>, t)
      | (DIFF_DELETE, text) \<Rightarrow>
          Inr (st\<lparr>count_delete := count_delete st + 1, text_delete := text_delete st @ text,
                 ms_pointer := ms_pointer st + 1\<rparr>, t)
      | (DIFF_EQUAL, text) \<Rightarrow>
          if count_delete st \<ge> 1 \<and> count_insert st \<ge> 1 then
            (case main t (text_delete st) (text_insert st) (Some False) (Some deadline) of
               Inl e \<Rightarrow> Inl e
             | Inr (a, t') \<Rightarrow>
                 (let start = int (ms_pointer st) - int (count_delete st) - int (count_insert st);
                      diffs1 = splice (ms_diffs st) start (count_delete st + count_insert st) [];
                      diffs2 = foldr (\<lambda>d diffs. splice diffs start 0 [d]) a diffs1
                  in Inr (merge_reset
                            (st\<lparr>ms_diffs := diffs2,
                               ms_pointer := nat (start + int (length a) + 1)\<rparr>), t')))
          else Inr (merge_reset (st\<lparr>ms_pointer := ms_pointer st + 1\<rparr>), t)))"

definition diff_lineMode ::
  "diff_rec \<Rightarrow> clock \<Rightarrow> nat \<Rightarrow> jsstring \<Rightarrow> jsstring \<Rightarrow> int \<Rightarrow> diff_result" where
  \<comment> \<open>\<open>diff_lineMode_\<close>\<close>
  "diff_lineMode main clock t text1 text2 deadline =
     (case diff_linesToChars text1 text2 of
        Inl e \<Rightarrow> Inl e
      | Inr (chars1, chars2, linearray) \<Rightarrow>
          (case diff_bisect main clock t chars1 chars2 deadline of
             Inl e \<Rightarrow> Inl e
           | Inr (diffs, t1) \<Rightarrow>
               (case diff_cleanupSemantic (diff_charsToLines diffs linearray) of
                  Inl e \<Rightarrow> Inl e
                | Inr diffs1 \<Rightarrow>
                    (case while_loop (\<lambda>(st, t). ms_pointer st < length (ms_diffs st))
                            (rediff_step main deadline)
                            (\<lparr>ms_diffs = diffs1 @ [(DIFF_EQUAL, [])], ms_pointer = 0,
                              count_delete = 0, count_insert = 0, text_delete = [],
                              text_insert = []\<rparr>, t1) of
                       Inl e \<Rightarrow> Inl e
                     | Inr (st, t2) \<Rightarrow> Inr (butlast (ms_diffs st), t2)))))"

subsection \<open>The main function\<close>

definition diff_compute ::
  "diff_rec \<Rightarrow> clock \<Rightarrow> nat \<Rightarrow> jsstring \<Rightarrow> jsstring \<Rightarrow> bool \<Rightarrow> int \<Rightarrow> diff_result" where
  \<comment> \<open>\<open>diff_compute_\<close>\<close>
  "diff_compute main clock t text1 text2 checklines deadline =
     (if text1 = [] then Inr ([(DIFF_INSERT, text2)], t)
      else if text2 = [] then Inr ([(DIFF_DELETE, text1)], t)
      else
        (let longtext = (if length text1 > length text2 then text1 else text2);
             shorttext = (if length text1 > length text2 then text2 else text1)
         in case indexOf longtext shorttext 0 of
              Some i \<Rightarrow>
                (let op = (if length text1 > length text2 then DIFF_DELETE else DIFF_INSERT)
                 in Inr ([(op, substring longtext 0 i), (DIFF_EQUAL, shorttext),
                          (op, substring_from longtext (i + length shorttext))], t))
            | None \<Rightarrow>
                if length shorttext = 1 then
                  Inr ([(DIFF_DELETE, text1), (DIFF_INSERT, text2)], t)
                else
                  (case diff_halfMatch text1 text2 of
                     Some (text1_a, text1_b, text2_a, text2_b, mid_common) \<Rightarrow>
                       (case main t text1_a text2_a (Some checklines) (Some deadline) of
                          Inl e \<Rightarrow> Inl e
                        | Inr (diffs_a, t1) \<Rightarrow>
                            (case main t1 text1_b text2_b (Some checklines) (Some deadline) of
                               Inl e \<Rightarrow> Inl e
                             | Inr (diffs_b, t2) \<Rightarrow>
                                 Inr (diffs_a @ [(DIFF_EQUAL, mid_common)] @ diffs_b, t2)))
                   | None \<Rightarrow>
                       if checklines \<and> length text1 > 100 \<and> length text2 > 100
                       then diff_lineMode main clock t text1 text2 deadline
                       else diff_bisect main clock t text1 text2 deadline)))"

definition Number_MAX_VALUE :: int where
  "Number_MAX_VALUE = 2 ^ 1024 - 2 ^ 971"

definition diff_main_body :: "diff_rec \<Rightarrow> clock \<Rightarrow> diff_rec" where
  \<comment> \<open>the body of \<open>diff_main\<close>, with \<open>main\<close> for the calls of \<open>diff_main\<close> below it; an
      argument that is left out is \<open>None\<close>. The texts are strings, never \<open>null\<close>.\<close>
  "diff_main_body main clock t text1 text2 opt_checklines opt_deadline =
     (let deadline = (case opt_deadline of
                        None \<Rightarrow> if Diff_Timeout \<le> 0 then Number_MAX_VALUE
                                else clock t + Diff_Timeout * 1000
                      | Some d \<Rightarrow> d);
          t0 = (case opt_deadline of
                  None \<Rightarrow> if Diff_Timeout \<le> 0 then t else t + 1
                | Some d \<Rightarrow> t)
      in if text1 = text2 then Inr (if text1 \<noteq> [] then [(DIFF_EQUAL, text1)] else [], t0)
         else
           (let checklines = (case opt_checklines of None \<Rightarrow> True | Some c \<Rightarrow> c);
                prefixlength = diff_commonPrefix text1 text2;
                commonprefix = substring text1 0 prefixlength;
                text1a = substring_from text1 prefixlength;
                text2a = substring_from text2 prefixlength;
                suffixlength = diff_commonSuffix text1a text2a;
                commonsuffix = substring_from text1a (length text1a - suffixlength);
                text1b = substring text1a 0 (length text1a - suffixlength);
                text2b = substring text2a 0 (length text2a - suffixlength)
            in case diff_compute main clock t0 text1b text2b checklines deadline of
                 Inl e \<Rightarrow> Inl e
               | Inr (diffs, t1) \<Rightarrow>
                   (case diff_cleanupMerge
                           ((if commonprefix \<noteq> [] then [(DIFF_EQUAL, commonprefix)] else [])
                            @ diffs
                            @ (if commonsuffix \<noteq> [] then [(DIFF_EQUAL, commonsuffix)] else [])) of
                      Inl e \<Rightarrow> Inl e
                    | Inr diffs' \<Rightarrow> Inr (diffs', t1))))"

primrec diff_main :: "nat \<Rightarrow> clock \<Rightarrow> diff_rec" where
  \<comment> \<open>\<open>diff_main\<close>, for calls of \<open>diff_main\<close> nested at most as deep as the fuel\<close>
  "diff_main 0 clock = (\<lambda>t text1 text2 opt_checklines opt_deadline. Inl OutOfFuel)"
| "diff_main (Suc fuel) clock = diff_main_body (diff_main fuel clock) clock"

section \<open>TextDiff: match\<close>

unbundle bit_operations_syntax

definition Match_MaxBits :: nat where
  "Match_MaxBits = 32"

definition match_alphabet :: "jsstring \<Rightarrow> 16 word \<Rightarrow> 32 word" where
  \<comment> \<open>\<open>match_alphabet_\<close>: the mask of a character, 0 for a character that is not in the
      pattern\<close>
  "match_alphabet pattern c =
     foldl (\<lambda>m i. if pattern ! i = c then m OR push_bit ((length pattern - i - 1) mod 32) 1
                   else m)
       0 [0..<length pattern]"

definition match_bitapScore :: "nat \<Rightarrow> nat \<Rightarrow> nat \<Rightarrow> nat \<Rightarrow> nat" where
  \<comment> \<open>\<open>match_bitapScore_(e, x)\<close> for a pattern of length \<open>len\<close>, as the numerator of the
      exact fraction over \<open>2000 * len\<close>: \<open>e / len + |loc - x| / Match_Distance\<close> with
      \<open>Match_Distance = 1000\<close>. The source computes it in floating point.\<close>
  "match_bitapScore len loc e x = 2000 * e + 2 * len * (if loc \<le> x then x - loc else loc - x)"

function bitap_bin_search :: "(nat \<Rightarrow> bool) \<Rightarrow> nat \<Rightarrow> nat \<Rightarrow> nat \<Rightarrow> nat" where
  \<comment> \<open>the binary search for \<open>bin_mid\<close>; \<open>within m\<close> is
      \<open>match_bitapScore_(d, loc + m) <= score_threshold\<close>\<close>
  "bitap_bin_search within bin_min bin_mid bin_max =
     (if bin_min < bin_mid then
        (if within bin_mid then
           bitap_bin_search within bin_mid ((bin_max - bin_mid) div 2 + bin_mid) bin_max
         else bitap_bin_search within bin_min ((bin_mid - bin_min) div 2 + bin_min) bin_mid)
      else bin_mid)"
  by pat_completeness auto
termination
  by (relation "measure (\<lambda>(within, bin_min, bin_mid, bin_max).
          if \<not> bin_min < bin_mid then 0
          else if bin_mid \<le> bin_max then
            2 * (bin_max - bin_min) + (if bin_mid = bin_max then 1 else 0) + 1
          else 2 * (bin_mid - bin_min) + 3)")
    (auto split: if_splits)

declare bitap_bin_search.simps [simp del]

function bitap_scan ::
  "jsstring \<Rightarrow> (16 word \<Rightarrow> 32 word) \<Rightarrow> nat \<Rightarrow> nat \<Rightarrow> nat \<Rightarrow> (nat \<Rightarrow> 32 word) \<Rightarrow> 32 word
   \<Rightarrow> nat \<Rightarrow> nat \<Rightarrow> (nat \<Rightarrow> 32 word) \<Rightarrow> nat \<Rightarrow> nat option
   \<Rightarrow> (nat \<Rightarrow> 32 word) \<times> nat \<times> nat option" where
  \<comment> \<open>the loop \<open>for (j = finish; j >= start; j--)\<close> with \<open>start = Suc k\<close>: the array
      \<open>rd\<close>, \<open>score_threshold\<close> and \<open>best_loc\<close> afterwards. An unset entry of an array
      is 0 in every bit operation.\<close>
  "bitap_scan text s len loc d last_rd matchmask j k rd score_threshold best_loc =
     (if Suc k \<le> j then
        (let charMatch = (if j - 1 < length text then s (text ! (j - 1)) else 0);
             rdj = (if d = 0 then (push_bit 1 (rd (j + 1)) OR 1) AND charMatch
                    else ((push_bit 1 (rd (j + 1)) OR 1) AND charMatch)
                         OR (push_bit 1 (last_rd (j + 1) OR last_rd j) OR 1)
                         OR last_rd (j + 1));
             rd' = rd(j := rdj)
         in if rdj AND matchmask \<noteq> 0 \<and> match_bitapScore len loc d (j - 1) \<le> score_threshold
            then
              (if j - 1 > loc then
                 bitap_scan text s len loc d last_rd matchmask (j - 1)
                   (max 1 (2 * loc - (j - 1)) - 1) rd'
                   (match_bitapScore len loc d (j - 1)) (Some (j - 1))
               else (rd', match_bitapScore len loc d (j - 1), Some (j - 1)))
            else
              bitap_scan text s len loc d last_rd matchmask (j - 1) k rd' score_threshold
                best_loc)
      else (rd, score_threshold, best_loc))"
  by pat_completeness auto
termination
  by (relation "measure (\<lambda>(text, s, len, loc, d, last_rd, matchmask, j, k, rd, thr, best). j)")
    auto

declare bitap_scan.simps [simp del]

function bitap_loop ::
  "jsstring \<Rightarrow> jsstring \<Rightarrow> nat \<Rightarrow> nat \<Rightarrow> nat \<Rightarrow> (nat \<Rightarrow> 32 word) \<Rightarrow> nat \<Rightarrow> nat option
   \<Rightarrow> nat option" where
  \<comment> \<open>the loop over the error level \<open>d\<close>\<close>
  "bitap_loop text pattern loc d bin_max last_rd score_threshold best_loc =
     (if d < length pattern then
        (let len = length pattern;
             bin_mid = bitap_bin_search
                         (\<lambda>m. match_bitapScore len loc d (loc + m) \<le> score_threshold)
                         0 bin_max bin_max;
             start = max 1 (loc + 1 - bin_mid);
             finish = min (loc + bin_mid) (length text) + len;
             rd0 = (\<lambda>j. 0)(finish + 1 := push_bit d 1 - 1);
             scanned = bitap_scan text (match_alphabet pattern) len loc d last_rd
                         (push_bit ((len - 1) mod 32) 1) finish (start - 1) rd0
                         score_threshold best_loc
         in if match_bitapScore len loc (d + 1) loc > fst (snd scanned) then snd (snd scanned)
            else bitap_loop text pattern loc (d + 1) bin_mid (fst scanned)
                   (fst (snd scanned)) (snd (snd scanned)))
      else best_loc)"
  by pat_completeness auto
termination
  by (relation "measure (\<lambda>(text, pattern, loc, d, bin_max, last_rd, thr, best).
          length pattern - d)")
    auto

declare bitap_loop.simps [simp del]

definition match_bitap :: "jsstring \<Rightarrow> jsstring \<Rightarrow> nat \<Rightarrow> error + int" where
  \<comment> \<open>\<open>match_bitap_\<close>: the best match index or -1. With \<open>Match_Threshold = 0.5\<close> the
      first threshold is \<open>1000 * len\<close> over \<open>2000 * len\<close>; on the empty pattern every
      score is NaN and the loop does not run.\<close>
  "match_bitap text pattern loc =
     (if length pattern > Match_MaxBits then Inl (Error ''Pattern too long for this browser.'')
      else if pattern = [] then Inr (- 1)
      else
        (let len = length pattern;
             t0 = 1000 * len;
             t1 = (case indexOf text pattern loc of
                     None \<Rightarrow> t0
                   | Some best_loc \<Rightarrow>
                       (let t = min (match_bitapScore len loc 0 best_loc) t0
                        in case lastIndexOf text pattern (loc + len) of
                             None \<Rightarrow> t
                           | Some best_loc \<Rightarrow> min (match_bitapScore len loc 0 best_loc) t))
         in case bitap_loop text pattern loc 0 (len + length text) (\<lambda>j. 0) t1 None of
              None \<Rightarrow> Inr (- 1)
            | Some best_loc \<Rightarrow> Inr (int best_loc)))"

definition match_main :: "jsstring \<Rightarrow> jsstring \<Rightarrow> int \<Rightarrow> error + int" where
  "match_main text pattern loc0 =
     (let loc = nat (max 0 (min loc0 (int (length text))))
      in if text = pattern then Inr 0
         else if length text = 0 then Inr (- 1)
         else if substring text loc (loc + length pattern) = pattern then Inr (int loc)
         else match_bitap text pattern loc)"

section \<open>JSON values\<close>

text \<open>
  Numbers are the integers. An object is the list of its own properties in the order in
  which they were added: a property is set in place when the key is present and appended
  otherwise. A loop over the properties visits them in the order \<open>for_in\<close> of this list. A
  copy that such a loop builds is listed in the order of the original, which enumerates
  alike. \<open>JUndefined\<close> is the value of a missing property.
\<close>

datatype json =
    JUndefined
  | JNull
  | JBool bool
  | JNum int
  | JStr jsstring
  | JArr "json list"
  | JObj "(jsstring \<times> json) list"

datatype jstype = T_undefined | T_null | T_boolean | T_number | T_string | T_array | T_object

fun has_key :: "('k \<times> 'v) list \<Rightarrow> 'k \<Rightarrow> bool" where
  \<comment> \<open>\<open>key in obj\<close>\<close>
  "has_key kvs k = (map_of kvs k \<noteq> None)"

fun obj_set :: "('k \<times> 'v) list \<Rightarrow> 'k \<Rightarrow> 'v \<Rightarrow> ('k \<times> 'v) list" where
  \<comment> \<open>\<open>obj[key] = v\<close>\<close>
  "obj_set [] k v = [(k, v)]"
| "obj_set ((k', v') # kvs) k v =
     (if k' = k then (k, v) # kvs else (k', v') # obj_set kvs k v)"

definition obj_delete :: "('k \<times> 'v) list \<Rightarrow> 'k \<Rightarrow> ('k \<times> 'v) list" where
  \<comment> \<open>\<open>delete obj[key]\<close>\<close>
  "obj_delete kvs k = filter (\<lambda>kv. fst kv \<noteq> k) kvs"

definition obj_get :: "(jsstring \<times> json) list \<Rightarrow> jsstring \<Rightarrow> json" where
  \<comment> \<open>\<open>obj[key]\<close>\<close>
  "obj_get kvs k = (case map_of kvs k of None \<Rightarrow> JUndefined | Some v \<Rightarrow> v)"

definition to_number :: "jsstring \<Rightarrow> nat option" where
  \<comment> \<open>\<open>Number(s)\<close> for a string of decimal digits (the empty string is 0); \<open>None\<close> for
      every other string\<close>
  "to_number s = (if list_all is_digit s then Some (digits_val s) else None)"

definition array_index :: "jsstring \<Rightarrow> nat option" where
  \<comment> \<open>the index a property name denotes: the canonical decimal form of a number\<close>
  "array_index k = (if k \<noteq> [] \<and> list_all is_digit k \<and> decimal (digits_val k) = k
                    then Some (digits_val k) else None)"

definition enum_index :: "jsstring \<Rightarrow> nat option" where
  \<comment> \<open>the array index that a property name is, if it is one: below \<open>2^32 - 1\<close>\<close>
  "enum_index k =
     (case array_index k of
        None \<Rightarrow> None
      | Some n \<Rightarrow> if n < 4294967295 then Some n else None)"

definition for_in :: "(jsstring \<times> 'a) list \<Rightarrow> (jsstring \<times> 'a) list" where
  \<comment> \<open>the iterations of \<open>for (key in obj)\<close> over the own properties of \<open>obj\<close>: first the
      properties whose names are array indices, in ascending order of the index, then the
      other properties in the order in which they were added\<close>
  "for_in kvs =
     sort_key (\<lambda>kv. case enum_index (fst kv) of Some n \<Rightarrow> n | None \<Rightarrow> 0)
       (filter (\<lambda>kv. enum_index (fst kv) \<noteq> None) kvs)
     @ filter (\<lambda>kv. enum_index (fst kv) = None) kvs"

lemma for_in_Nil [simp]: "for_in [] = []"
  by (simp add: for_in_def)

lemma enum_index_name [simp]: "c < 48 \<or> 57 < c \<Longrightarrow> enum_index (c # cs) = None"
  by (auto simp: enum_index_def array_index_def is_digit_def)

lemma for_in_names [simp]:
  "list_all (\<lambda>kv. enum_index (fst kv) = None) kvs \<Longrightarrow> for_in kvs = kvs"
  by (induction kvs) (auto simp: for_in_def list_all_iff)

lemma for_in_single [simp]: "for_in [kv] = [kv]"
  by (simp add: for_in_def)

lemma set_for_in [simp]: "set (for_in kvs) = set kvs"
  by (auto simp: for_in_def)

lemma size_insort_key: "size_list f (insort_key g x xs) = Suc (f x + size_list f xs)"
  by (induction xs) auto

lemma size_sort_key: "size_list f (sort_key g xs) = size_list f xs"
  by (induction xs) (auto simp: size_insort_key)

lemma size_filter_split:
  "size_list f (filter P xs) + size_list f (filter (\<lambda>x. \<not> P x) xs) = size_list f xs"
  by (induction xs) auto

lemma size_for_in [simp]: "size_list f (for_in xs) = size_list f xs"
  unfolding for_in_def
  using size_filter_split [of f "\<lambda>kv. enum_index (fst kv) \<noteq> None" xs]
  by (simp add: size_sort_key)

definition get_prop :: "json \<Rightarrow> jsstring \<Rightarrow> error + json" where
  \<comment> \<open>\<open>s[key]\<close> for any value \<open>s\<close>\<close>
  "get_prop s k =
     (case s of
        JUndefined \<Rightarrow> Inl TypeError
      | JNull \<Rightarrow> Inl TypeError
      | JObj kvs \<Rightarrow> Inr (obj_get kvs k)
      | JArr xs \<Rightarrow>
          (case array_index k of
             Some i \<Rightarrow> Inr (if i < length xs then xs ! i else JUndefined)
           | None \<Rightarrow> Inr (if k = ascii ''length'' then JNum (int (length xs)) else JUndefined))
      | JStr t \<Rightarrow>
          (case array_index k of
             Some i \<Rightarrow> Inr (if i < length t then JStr [t ! i] else JUndefined)
           | None \<Rightarrow> Inr (if k = ascii ''length'' then JNum (int (length t)) else JUndefined))
      | _ \<Rightarrow> Inr JUndefined)"

section \<open>JsonDiff\<close>

fun typeOf :: "json \<Rightarrow> jstype" where
  "typeOf JUndefined = T_undefined"
| "typeOf JNull = T_null"
| "typeOf (JBool b) = T_boolean"
| "typeOf (JNum n) = T_number"
| "typeOf (JStr s) = T_string"
| "typeOf (JArr xs) = T_array"
| "typeOf (JObj kvs) = T_object"

fun entries :: "json \<Rightarrow> nat" where
  \<comment> \<open>the number of own enumerable properties\<close>
  "entries (JObj kvs) = length kvs"
| "entries (JArr xs) = length xs"
| "entries (JStr s) = length s"
| "entries v = 0"

fun deepCopy :: "json \<Rightarrow> json" where
  "deepCopy (JArr xs) = JArr (map deepCopy xs)"
| "deepCopy (JObj kvs) = JObj (map (\<lambda>(i, v). (i, deepCopy v)) kvs)"
| "deepCopy JNull = JObj []"
    \<comment> \<open>\<open>typeof null === 'object'\<close>: the copy is \<open>{}\<close>, and \<open>for (i in null)\<close> adds nothing\<close>
| "deepCopy obj = obj"

fun equals :: "json \<Rightarrow> json \<Rightarrow> bool" where
  "equals (JArr a) (JArr b) =
     \<comment> \<open>\<open>list_equals\<close>\<close>
     (length a = length b \<and> list_all2 equals a b)"
| "equals (JObj a) (JObj b) =
     \<comment> \<open>\<open>object_equals\<close>\<close>
     (list_all (\<lambda>(key, v). case map_of b key of None \<Rightarrow> False | Some w \<Rightarrow> equals v w) a
      \<and> list_all (\<lambda>(key, w). has_key a key) b)"
| "equals a b = (typeOf a = typeOf b \<and> a = b)"

subsection \<open>Structural diffs\<close>

text \<open>
  An operation \<open>{o: tag, v: payload}\<close> is a value of \<open>op\<close>; a structural diff maps keys
  to operations. \<open>OpEmpty\<close> is the object \<open>{}\<close> that \<open>diff\<close> returns for equal values,
  \<open>OpUndefined\<close> the value \<open>undefined\<close> stored in the place of an operation. The
  payload of \<open>'O'\<close> is \<open>None\<close> when it is \<open>undefined\<close>.
\<close>

datatype op =
    OpUndefined
  | OpEmpty
  | OpInsert json                                \<comment> \<open>\<open>'+'\<close>\<close>
  | OpDelete                                     \<comment> \<open>\<open>'-'\<close>\<close>
  | OpReplace json                               \<comment> \<open>\<open>'r'\<close>\<close>
  | OpIncrement json                             \<comment> \<open>\<open>'I'\<close>\<close>
  | OpObject "(jsstring \<times> op) list option"      \<comment> \<open>\<open>'O'\<close>\<close>
  | OpList "(jsstring \<times> op) list"               \<comment> \<open>\<open>'L'\<close>\<close>
  | OpDelta jsstring                             \<comment> \<open>\<open>'d'\<close>\<close>

type_synonym jdiff = "(jsstring \<times> op) list"

text \<open>
  The text engine \<open>jsondiff.dmp\<close>. The delta codec is the one above; the other
  operations are parameters of the structural layer, and so is
  \<open>patch_apply_with_offsets\<close>, which returns the patched text and rewrites every offset
  of its array in the same way: by the function that is returned here.
\<close>

record 'p dmp =
  dmp_diff_main :: "jsstring \<Rightarrow> jsstring \<Rightarrow> error + diff list"
  dmp_diff_cleanupEfficiency :: "diff list \<Rightarrow> error + diff list"
  dmp_patch_make :: "jsstring \<Rightarrow> diff list \<Rightarrow> error + 'p"
  dmp_patch_apply :: "'p \<Rightarrow> jsstring \<Rightarrow> error + jsstring \<times> bool list"
  dmp_patch_apply_with_offsets :: "'p \<Rightarrow> jsstring \<Rightarrow> error + jsstring \<times> (int \<Rightarrow> int)"

definition own_entries :: "jdiff option \<Rightarrow> jdiff" where
  \<comment> \<open>the iterations of \<open>for (key in diffs)\<close>: none when \<open>diffs\<close> is \<open>undefined\<close>\<close>
  "own_entries diffs = (case diffs of None \<Rightarrow> [] | Some kvs \<Rightarrow> kvs)"

definition text_diff :: "'p dmp \<Rightarrow> jsstring \<Rightarrow> jsstring \<Rightarrow> error + op" where
  \<comment> \<open>the \<open>'string'\<close> case of \<open>diff\<close>\<close>
  "text_diff dmp a b =
     (case dmp_diff_main dmp a b of
        Inl e \<Rightarrow> Inl e
      | Inr diffs \<Rightarrow>
          (case (if length diffs > 2 then dmp_diff_cleanupEfficiency dmp diffs else Inr diffs) of
             Inl e \<Rightarrow> Inl e
           | Inr diffs' \<Rightarrow>
               if length diffs' > 0 then
                 (case diff_toDelta diffs' of Inl e \<Rightarrow> Inl e | Inr delta \<Rightarrow> Inr (OpDelta delta))
               else Inr OpEmpty))"

function diff :: "'p dmp \<Rightarrow> json \<Rightarrow> json \<Rightarrow> error + op"
  and object_diff :: "'p dmp \<Rightarrow> json \<Rightarrow> json \<Rightarrow> error + jdiff"
  and object_diff_keys ::
    "'p dmp \<Rightarrow> (jsstring \<times> json) list \<Rightarrow> (jsstring \<times> json) list \<Rightarrow> jdiff \<Rightarrow> error + jdiff"
where
  "diff dmp a b =
     (if equals a b then Inr OpEmpty
      else if typeOf a \<noteq> typeOf b then Inr (OpReplace b)
      else
        (case a of
           JBool x \<Rightarrow> Inr (OpReplace b)
         | JNum x \<Rightarrow> Inr (OpReplace b)
         | JArr x \<Rightarrow> Inr (OpReplace b)
         | JObj x \<Rightarrow>
             (case object_diff dmp a b of Inl e \<Rightarrow> Inl e | Inr d \<Rightarrow> Inr (OpObject (Some d)))
         | JStr x \<Rightarrow> (case b of JStr y \<Rightarrow> text_diff dmp x y | _ \<Rightarrow> Inr OpEmpty)
         | _ \<Rightarrow> Inr OpEmpty))"
| "object_diff dmp a b =
     (if a = JUndefined \<or> a = JNull \<or> b = JUndefined \<or> b = JNull then Inr []
      else
        (case (a, b) of
           (JObj kas, JObj kbs) \<Rightarrow>
             (case object_diff_keys dmp (for_in kas) kbs [] of
                Inl e \<Rightarrow> Inl e
              | Inr diffs \<Rightarrow>
                  Inr (foldl (\<lambda>diffs (key, v).
                               if \<not> has_key kas key then obj_set diffs key (OpInsert v)
                               else diffs)
                         diffs (for_in kbs)))
         | _ \<Rightarrow> Inl Unmodelled))"
| "object_diff_keys dmp [] kbs diffs = Inr diffs"
| "object_diff_keys dmp ((key, v) # kas) kbs diffs =
     (if has_key kbs key then
        (if \<not> equals v (obj_get kbs key) then
           (case diff dmp v (obj_get kbs key) of
              Inl e \<Rightarrow> Inl e
            | Inr d \<Rightarrow> object_diff_keys dmp kas kbs (obj_set diffs key d))
         else object_diff_keys dmp kas kbs diffs)
      else object_diff_keys dmp kas kbs (obj_set diffs key OpDelete))"
  by pat_completeness auto
termination
  by (relation "measure (\<lambda>x. case x of
          Inl (dmp, a, b) \<Rightarrow> 2 * size a + 1
        | Inr (Inl (dmp, a, b)) \<Rightarrow> 2 * size a
        | Inr (Inr (dmp, kas, kbs, diffs)) \<Rightarrow> 2 * size_list (size_prod (\<lambda>_. 0) size) kas + 1)")
    auto

subsection \<open>Applying a structural diff\<close>

definition number_string :: "int \<Rightarrow> error + jsstring" where
  \<comment> \<open>\<open>String(n)\<close>: the decimal numeral below \<open>10^21\<close>\<close>
  "number_string n =
     (if 10 ^ 21 \<le> \<bar>n\<bar> then Inl Unmodelled
      else Inr (if n < 0 then 45 # decimal (nat (- n)) else decimal (nat n)))"

fun to_string :: "json \<Rightarrow> error + jsstring"
  and join_strings :: "json list \<Rightarrow> error + jsstring"
where
  \<comment> \<open>the conversion of a value to a string, as \<open>+\<close> does it next to a string. An
      object is \<open>[object Object]\<close> unless a property \<open>toString\<close> of its own, which is no
      function, hides the method; an array is \<open>join(',')\<close> of its elements.\<close>
  "to_string JUndefined = Inr (ascii ''undefined'')"
| "to_string JNull = Inr (ascii ''null'')"
| "to_string (JBool b) = Inr (ascii (if b then ''true'' else ''false''))"
| "to_string (JNum n) = number_string n"
| "to_string (JStr s) = Inr s"
| "to_string (JArr xs) = join_strings xs"
| "to_string (JObj kvs) =
     (if has_key kvs (ascii ''toString'') then Inl TypeError
      else Inr (ascii ''[object Object]''))"
| "join_strings [] = Inr []"
| "join_strings (x # xs) =
     (case (if x = JUndefined \<or> x = JNull then Inr [] else to_string x) of
        Inl e \<Rightarrow> Inl e
      | Inr t \<Rightarrow>
          if xs = [] then Inr t
          else (case join_strings xs of Inl e \<Rightarrow> Inl e | Inr r \<Rightarrow> Inr (t @ 44 # r)))"

definition to_primitive :: "json \<Rightarrow> error + json" where
  \<comment> \<open>an object or an array becomes its string\<close>
  "to_primitive v =
     (case v of
        JObj kvs \<Rightarrow> (case to_string v of Inl e \<Rightarrow> Inl e | Inr t \<Rightarrow> Inr (JStr t))
      | JArr xs \<Rightarrow> (case to_string v of Inl e \<Rightarrow> Inl e | Inr t \<Rightarrow> Inr (JStr t))
      | _ \<Rightarrow> Inr v)"

definition number_value :: "json \<Rightarrow> int option" where
  \<comment> \<open>the conversion of a primitive value that is no string to a number; \<open>None\<close> is NaN\<close>
  "number_value v =
     (case v of
        JNum n \<Rightarrow> Some n
      | JBool b \<Rightarrow> Some (if b then 1 else 0)
      | JNull \<Rightarrow> Some 0
      | _ \<Rightarrow> None)"

definition js_plus :: "json \<Rightarrow> json \<Rightarrow> error + json" where
  \<comment> \<open>\<open>a + b\<close> for a primitive value \<open>a\<close>: the concatenation of the two strings when one
      of the operands is a string, the sum of the two numbers otherwise. The sum with
      \<open>undefined\<close> is NaN; the left operand is the value that is patched, which is a cell
      of the store when it is an object or an array.\<close>
  "js_plus a b =
     (case a of
        JObj kvs \<Rightarrow> Inl Unmodelled
      | JArr xs \<Rightarrow> Inl Unmodelled
      | _ \<Rightarrow>
          (case to_primitive b of
             Inl e \<Rightarrow> Inl e
           | Inr b' \<Rightarrow>
               if (case a of JStr s \<Rightarrow> True | _ \<Rightarrow> False)
                  \<or> (case b' of JStr t \<Rightarrow> True | _ \<Rightarrow> False) then
                 (case to_string a of
                    Inl e \<Rightarrow> Inl e
                  | Inr s \<Rightarrow>
                      (case to_string b' of Inl e \<Rightarrow> Inl e | Inr t \<Rightarrow> Inr (JStr (s @ t))))
               else
                 (case (number_value a, number_value b') of
                    (Some x, Some y) \<Rightarrow> Inr (JNum (x + y))
                  | _ \<Rightarrow> Inl Unmodelled)))"

fun fromDelta_nonstring :: "json \<Rightarrow> jsstring list \<Rightarrow> error" where
  \<comment> \<open>what \<open>diff_fromDelta(text1, delta)\<close> raises when \<open>text1\<close> is \<open>undefined\<close>, \<open>null\<close>,
      a number or a boolean: \<open>text1.substring\<close> cannot be called, and \<open>text1.length\<close>
      is not the pointer\<close>
  "fromDelta_nonstring text1 [] =
     (if text1 = JUndefined \<or> text1 = JNull then TypeError
      else Error ''Delta length does not equal source text length'')"
| "fromDelta_nonstring text1 (token # tokens) =
     (if take 1 token = [43] then
        (case decodeURI (substring_from token 1) of
           Inl e \<Rightarrow> Error ''Illegal escape in diff_fromDelta''
         | Inr t \<Rightarrow> fromDelta_nonstring text1 tokens)
      else if take 1 token = [45] \<or> take 1 token = [61] then
        (case parseInt10 (substring_from token 1) of
           None \<Rightarrow> Error ''Invalid number in diff_fromDelta''
         | Some n \<Rightarrow> if n < 0 then Error ''Invalid number in diff_fromDelta'' else TypeError)
      else if token \<noteq> [] then Error ''Invalid diff operation in diff_fromDelta''
      else fromDelta_nonstring text1 tokens)"

definition text_patch :: "'p dmp \<Rightarrow> json \<Rightarrow> jsstring \<Rightarrow> error + json" where
  \<comment> \<open>the \<open>'d'\<close> case: \<open>diff_fromDelta\<close>, \<open>patch_make\<close>, \<open>patch_apply\<close>, first component\<close>
  "text_patch dmp cur delta =
     (case cur of
        JStr t \<Rightarrow>
          (case diff_fromDelta t delta of
             Inl e \<Rightarrow> Inl e
           | Inr dmp_diffs \<Rightarrow>
               (case dmp_patch_make dmp t dmp_diffs of
                  Inl e \<Rightarrow> Inl e
                | Inr dmp_patches \<Rightarrow>
                    (case dmp_patch_apply dmp dmp_patches t of
                       Inl e \<Rightarrow> Inl e
                     | Inr dmp_result \<Rightarrow> Inr (JStr (fst dmp_result)))))
      | JArr xs \<Rightarrow> Inl Unmodelled
      | JObj kvs \<Rightarrow> Inl Unmodelled
      | _ \<Rightarrow> Inl (fromDelta_nonstring cur (split_tab delta)))"

fun str_less :: "jsstring \<Rightarrow> jsstring \<Rightarrow> bool" where
  \<comment> \<open>the order of \<open>Array.prototype.sort\<close> without a comparator: by code units\<close>
  "str_less [] [] = False"
| "str_less [] (y # ys) = True"
| "str_less (x # xs) [] = False"
| "str_less (x # xs) (y # ys) = (x < y \<or> (x = y \<and> str_less xs ys))"

fun insert_index :: "jsstring \<times> 'a \<Rightarrow> (jsstring \<times> 'a) list \<Rightarrow> (jsstring \<times> 'a) list" where
  "insert_index e [] = [e]"
| "insert_index e (x # xs) = (if str_less (fst e) (fst x) then e # x # xs else x # insert_index e xs)"

definition sort_indexes :: "(jsstring \<times> 'a) list \<Rightarrow> (jsstring \<times> 'a) list" where
  \<comment> \<open>the keys of the diff after \<open>indexes.sort()\<close>, each with its operation\<close>
  "sort_indexes diffs = foldl (\<lambda>acc e. insert_index e acc) [] diffs"

definition arr_get :: "json list \<Rightarrow> int \<Rightarrow> json" where
  "arr_get xs i = (if 0 \<le> i \<and> nat i < length xs then xs ! nat i else JUndefined)"

definition arr_set :: "json list \<Rightarrow> int \<Rightarrow> json \<Rightarrow> error + json list" where
  \<comment> \<open>\<open>xs[i] = v\<close>: an index beyond the length would leave holes\<close>
  "arr_set xs i v =
     (if 0 \<le> i \<and> nat i < length xs then Inr (xs[nat i := v])
      else if i = int (length xs) then Inr (xs @ [v])
      else Inl Unmodelled)"

definition concat_items :: "json \<Rightarrow> json list" where
  \<comment> \<open>\<open>[a, b].concat(v)\<close> appends the elements of \<open>v\<close> when \<open>v\<close> is an array\<close>
  "concat_items v = (case v of JArr ys \<Rightarrow> ys | _ \<Rightarrow> [v])"

lemma size_insert_index [simp]:
  "size_list f (insert_index e xs) = Suc (f e + size_list f xs)"
  by (induction xs) auto

lemma size_sort_indexes_aux:
  "size_list f (foldl (\<lambda>acc e. insert_index e acc) acc xs) = size_list f acc + size_list f xs"
  by (induction xs arbitrary: acc) auto

lemma size_sort_indexes [simp]: "size_list f (sort_indexes xs) = size_list f xs"
  by (simp add: sort_indexes_def size_sort_indexes_aux)

definition object_step :: "json \<Rightarrow> jsstring \<Rightarrow> op \<Rightarrow> error + json \<Rightarrow> error + json" where
  \<comment> \<open>one iteration of the loop of \<open>apply_object_diff\<close>; \<open>slot\<close> is the new value of
      \<open>patched[key]\<close> in the cases \<open>'I'\<close>, \<open>'L'\<close>, \<open>'O'\<close> and \<open>'d'\<close>\<close>
  "object_step patched key op slot =
     (case op of
        OpEmpty \<Rightarrow> Inr patched
      | OpUndefined \<Rightarrow> Inl TypeError
      | _ \<Rightarrow>
          (case patched of
             JUndefined \<Rightarrow> Inl TypeError
           | JObj kvs \<Rightarrow>
               (case op of
                  OpInsert v \<Rightarrow> Inr (JObj (obj_set kvs key v))
                | OpDelete \<Rightarrow> Inr (JObj (obj_delete kvs key))
                | OpReplace v \<Rightarrow> Inr (JObj (obj_set kvs key v))
                | _ \<Rightarrow>
                    (case slot of
                       Inl e \<Rightarrow> Inl e
                     | Inr v \<Rightarrow> Inr (JObj (obj_set kvs key v))))
           | _ \<Rightarrow> Inl Unmodelled))"

definition s_index_of :: "int list \<Rightarrow> nat \<Rightarrow> int" where
  \<comment> \<open>\<open>index - shift\<close>, where \<open>shift\<close> counts the recorded deletions \<open>x <= index\<close>\<close>
  "s_index_of deleted n = int n - int (length (filter (\<lambda>x. x \<le> int n) deleted))"

definition list_step ::
  "json \<Rightarrow> int list \<Rightarrow> jsstring \<Rightarrow> op \<Rightarrow> error + json \<Rightarrow> error + json \<times> int list" where
  \<comment> \<open>one iteration of the second loop of \<open>apply_list_diff\<close>: the array and the recorded
      deletions afterwards\<close>
  "list_step patched deleted index op slot =
     (case op of
        OpEmpty \<Rightarrow> Inr (patched, deleted)
      | OpUndefined \<Rightarrow> Inl TypeError
      | _ \<Rightarrow>
          (case patched of
             JUndefined \<Rightarrow> Inl TypeError
           | JArr xs \<Rightarrow>
               (case to_number index of
                  None \<Rightarrow> Inl Unmodelled
                | Some n \<Rightarrow>
                    (let s_index = s_index_of deleted n
                     in case op of
                          OpInsert v \<Rightarrow>
                            Inr (JArr (splice xs s_index 1 (concat_items v)), deleted)
                        | OpDelete \<Rightarrow> Inr (JArr (splice xs s_index 1 []), deleted @ [s_index])
                        | OpReplace v \<Rightarrow>
                            (case arr_set xs s_index v of
                               Inl e \<Rightarrow> Inl e
                             | Inr xs' \<Rightarrow> Inr (JArr xs', deleted))
                        | _ \<Rightarrow>
                            (case slot of
                               Inl e \<Rightarrow> Inl e
                             | Inr v \<Rightarrow>
                                 (case arr_set xs s_index v of
                                    Inl e \<Rightarrow> Inl e
                                  | Inr xs' \<Rightarrow> Inr (JArr xs', deleted)))))
           | _ \<Rightarrow> Inl Unmodelled))"

definition object_slot :: "json \<Rightarrow> jsstring \<Rightarrow> json" where
  \<comment> \<open>\<open>patched[key]\<close> as the loop of \<open>apply_object_diff\<close> reads it\<close>
  "object_slot patched key = (case patched of JObj kvs \<Rightarrow> obj_get kvs key | _ \<Rightarrow> JUndefined)"

definition list_slot :: "json \<Rightarrow> int list \<Rightarrow> jsstring \<Rightarrow> json" where
  \<comment> \<open>\<open>patched[s_index]\<close> as the loop of \<open>apply_list_diff\<close> reads it\<close>
  "list_slot patched deleted index =
     (case (patched, to_number index) of
        (JArr xs, Some n) \<Rightarrow> arr_get xs (s_index_of deleted n)
      | _ \<Rightarrow> JUndefined)"

function apply_slot_op :: "'p dmp \<Rightarrow> json \<Rightarrow> op \<Rightarrow> error + json"
  and apply_object_diff :: "'p dmp \<Rightarrow> json \<Rightarrow> jdiff \<Rightarrow> error + json"
  and apply_object_ops :: "'p dmp \<Rightarrow> json \<Rightarrow> jdiff \<Rightarrow> error + json"
  and apply_list_diff :: "'p dmp \<Rightarrow> json \<Rightarrow> jdiff \<Rightarrow> error + json"
  and apply_list_ops :: "'p dmp \<Rightarrow> json \<Rightarrow> int list \<Rightarrow> jdiff \<Rightarrow> error + json"
where
  "apply_slot_op dmp cur (OpIncrement v) = js_plus cur v"
| "apply_slot_op dmp cur (OpList d) = apply_list_diff dmp cur d"
| "apply_slot_op dmp cur (OpObject d) = apply_object_diff dmp cur (own_entries d)"
| "apply_slot_op dmp cur (OpDelta delta) = text_patch dmp cur delta"
| "apply_slot_op dmp cur OpUndefined = Inr cur"
| "apply_slot_op dmp cur OpEmpty = Inr cur"
| "apply_slot_op dmp cur (OpInsert v) = Inr cur"
| "apply_slot_op dmp cur OpDelete = Inr cur"
| "apply_slot_op dmp cur (OpReplace v) = Inr cur"
| "apply_object_diff dmp s diffs = apply_object_ops dmp (deepCopy s) (for_in diffs)"
| "apply_object_ops dmp patched [] = Inr patched"
| "apply_object_ops dmp patched ((key, op) # diffs) =
     (case object_step patched key op (apply_slot_op dmp (object_slot patched key) op) of
        Inl e \<Rightarrow> Inl e
      | Inr patched' \<Rightarrow> apply_object_ops dmp patched' diffs)"
| "apply_list_diff dmp s diffs = apply_list_ops dmp (deepCopy s) [] (sort_indexes diffs)"
| "apply_list_ops dmp patched deleted [] = Inr patched"
| "apply_list_ops dmp patched deleted ((index, op) # diffs) =
     (case list_step patched deleted index op
             (apply_slot_op dmp (list_slot patched deleted index) op) of
        Inl e \<Rightarrow> Inl e
      | Inr (patched', deleted') \<Rightarrow> apply_list_ops dmp patched' deleted' diffs)"
  by pat_completeness auto
termination
  by (relation "measure (\<lambda>x. case x of
          Inl (Inl (dmp, cur, op)) \<Rightarrow> 3 * size op
        | Inl (Inr (dmp, s, diffs)) \<Rightarrow> 3 * size_list (size_prod (\<lambda>_. 0) size) diffs + 2
        | Inr (Inl (dmp, patched, diffs)) \<Rightarrow>
            3 * size_list (size_prod (\<lambda>_. 0) size) diffs + 1
        | Inr (Inr (Inl (dmp, s, diffs))) \<Rightarrow>
            3 * size_list (size_prod (\<lambda>_. 0) size) diffs + 2
        | Inr (Inr (Inr (dmp, patched, deleted, diffs))) \<Rightarrow>
            3 * size_list (size_prod (\<lambda>_. 0) size) diffs + 1)")
    (auto simp: own_entries_def split: option.splits)

subsection \<open>Malformed deltas\<close>

text \<open>
  A delta is a list of tokens between tabs. It is malformed with respect to a text when
  a \<open>+\<close> token holds an escape that \<open>decodeURI\<close> rejects, when a token is no
  operation (its first character is none of \<open>+\<close>, \<open>-\<close>, \<open>=\<close>, or the number of a
  \<open>-\<close> or \<open>=\<close> token cannot be read or is negative), or when the lengths that are kept
  and deleted do not add up to the length of the text.
\<close>

definition bad_escape :: "jsstring \<Rightarrow> bool" where
  "bad_escape token =
     (case token of
        [] \<Rightarrow> False
      | c # param \<Rightarrow> c = 43 \<and> (case decodeURI param of Inl e \<Rightarrow> True | Inr t \<Rightarrow> False))"

definition bad_token :: "jsstring \<Rightarrow> bool" where
  "bad_token token =
     (case token of
        [] \<Rightarrow> False
      | c # param \<Rightarrow>
          if c = 45 \<or> c = 61 then
            (case parseInt10 param of None \<Rightarrow> True | Some n \<Rightarrow> n < 0)
          else c \<noteq> 43)"

definition source_length :: "jsstring list \<Rightarrow> nat" where
  \<comment> \<open>the sum of the lengths that the tokens keep and delete\<close>
  "source_length tokens =
     sum_list (map (\<lambda>token. case token of
                      [] \<Rightarrow> 0
                    | c # param \<Rightarrow>
                        if c = 45 \<or> c = 61 then
                          (case parseInt10 param of None \<Rightarrow> 0 | Some n \<Rightarrow> nat n)
                        else 0) tokens)"

definition malformed :: "jsstring \<Rightarrow> jsstring \<Rightarrow> bool" where
  "malformed text1 delta =
     (list_ex bad_escape (split_tab delta) \<or> list_ex bad_token (split_tab delta)
      \<or> source_length (split_tab delta) \<noteq> length text1)"

text \<open>
  A structural diff holds a malformed delta when its application comes to a \<open>'d'\<close>
  operation whose delta is malformed with respect to the string that the operation
  finds: in the object itself, or in an object or an array that an \<open>'O'\<close> or \<open>'L'\<close>
  operation patches. The functions follow the loops of \<open>apply_object_diff\<close> and
  \<open>apply_list_diff\<close> through the states of the patched copy.
\<close>

function malformed_op :: "'p dmp \<Rightarrow> json \<Rightarrow> op \<Rightarrow> bool"
  and malformed_object_diff :: "'p dmp \<Rightarrow> json \<Rightarrow> jdiff \<Rightarrow> bool"
  and malformed_object_ops :: "'p dmp \<Rightarrow> json \<Rightarrow> jdiff \<Rightarrow> bool"
  and malformed_list_diff :: "'p dmp \<Rightarrow> json \<Rightarrow> jdiff \<Rightarrow> bool"
  and malformed_list_ops :: "'p dmp \<Rightarrow> json \<Rightarrow> int list \<Rightarrow> jdiff \<Rightarrow> bool"
where
  "malformed_op dmp cur (OpDelta delta) =
     (case cur of JStr text1 \<Rightarrow> malformed text1 delta | _ \<Rightarrow> False)"
| "malformed_op dmp cur (OpList d) = malformed_list_diff dmp cur d"
| "malformed_op dmp cur (OpObject d) = malformed_object_diff dmp cur (own_entries d)"
| "malformed_op dmp cur (OpIncrement v) = False"
| "malformed_op dmp cur OpUndefined = False"
| "malformed_op dmp cur OpEmpty = False"
| "malformed_op dmp cur (OpInsert v) = False"
| "malformed_op dmp cur OpDelete = False"
| "malformed_op dmp cur (OpReplace v) = False"
| "malformed_object_diff dmp s diffs = malformed_object_ops dmp (deepCopy s) (for_in diffs)"
| "malformed_object_ops dmp patched [] = False"
| "malformed_object_ops dmp patched ((key, op) # diffs) =
     (malformed_op dmp (object_slot patched key) op
      \<or> (case object_step patched key op (apply_slot_op dmp (object_slot patched key) op) of
            Inl e \<Rightarrow> False
          | Inr patched' \<Rightarrow> malformed_object_ops dmp patched' diffs))"
| "malformed_list_diff dmp s diffs = malformed_list_ops dmp (deepCopy s) [] (sort_indexes diffs)"
| "malformed_list_ops dmp patched deleted [] = False"
| "malformed_list_ops dmp patched deleted ((index, op) # diffs) =
     (malformed_op dmp (list_slot patched deleted index) op
      \<or> (case list_step patched deleted index op
                  (apply_slot_op dmp (list_slot patched deleted index) op) of
            Inl e \<Rightarrow> False
          | Inr (patched', deleted') \<Rightarrow> malformed_list_ops dmp patched' deleted' diffs))"
  by pat_completeness auto
termination
  by (relation "measure (\<lambda>x. case x of
          Inl (Inl (dmp, cur, op)) \<Rightarrow> 3 * size op
        | Inl (Inr (dmp, s, diffs)) \<Rightarrow> 3 * size_list (size_prod (\<lambda>_. 0) size) diffs + 2
        | Inr (Inl (dmp, patched, diffs)) \<Rightarrow>
            3 * size_list (size_prod (\<lambda>_. 0) size) diffs + 1
        | Inr (Inr (Inl (dmp, s, diffs))) \<Rightarrow>
            3 * size_list (size_prod (\<lambda>_. 0) size) diffs + 2
        | Inr (Inr (Inr (dmp, patched, deleted, diffs))) \<Rightarrow>
            3 * size_list (size_prod (\<lambda>_. 0) size) diffs + 1)")
    (auto simp: own_entries_def split: option.splits)

subsection \<open>Applying a structural diff to an object of the store\<close>

text \<open>
  The functions of the last subsection once more, on a store of mutable objects, to say
  which objects \<open>apply_object_diff\<close> writes to. A cell of the store is an array or an
  object; a value is a reference to a cell or a value without identity: a primitive
  value, or a value of the diff, whose objects \<open>apply_object_diff\<close> reads and stores
  but never writes to. A new object takes the next free cell. \<open>deepCopy\<close> follows the
  references of the store, which need not end; its fuel bounds the depth, and \<open>None\<close> is
  a copy that did not finish.
\<close>

datatype hval = HVal json | HRef nat

datatype hobj = HArr "hval list" | HObj "(jsstring \<times> hval) list"

type_synonym heap = "hobj list"
















fun wf_json :: "json \<Rightarrow> bool" where
  \<comment> \<open>an object has one property of a name\<close>
  "wf_json (JObj kvs) = (distinct (map fst kvs) \<and> list_all (\<lambda>kv. wf_json (snd kv)) kvs)"
| "wf_json (JArr xs) = list_all wf_json xs"
| "wf_json v = True"



fun repr :: "nat \<Rightarrow> heap \<Rightarrow> hval \<Rightarrow> json \<Rightarrow> bool" where
  \<comment> \<open>\<open>repr lo h v j\<close>: in the store \<open>h\<close> the value \<open>v\<close> is the JSON value \<open>j\<close>, and every
      cell it reaches is a cell of \<open>h\<close> from \<open>lo\<close> on\<close>
  "repr lo h (HRef a) (JObj kvs) =
     (lo \<le> a \<and> a < length h \<and> distinct (map fst kvs)
      \<and> (case h ! a of
           HObj hkvs \<Rightarrow>
             list_all2 (\<lambda>kw kj. fst kw = fst kj \<and> repr lo h (snd kw) (snd kj)) hkvs kvs
         | HArr ws \<Rightarrow> False))"
| "repr lo h (HRef a) (JArr xs) =
     (lo \<le> a \<and> a < length h
      \<and> (case h ! a of
           HArr ws \<Rightarrow> list_all2 (\<lambda>w x. repr lo h w x) ws xs
         | HObj hkvs \<Rightarrow> False))"
| "repr lo h (HRef a) j = False"
| "repr lo h (HVal j) j' = (j = j' \<and> wf_json j)"


definition modifies :: "nat \<Rightarrow> heap \<Rightarrow> heap \<Rightarrow> bool" where
  \<comment> \<open>every cell of \<open>h\<close> other than \<open>p\<close> is in \<open>h'\<close>, unchanged\<close>
  "modifies p h h' = (length h \<le> length h' \<and> (\<forall>a < length h. a \<noteq> p \<longrightarrow> h' ! a = h ! a))"

definition holds :: "heap \<Rightarrow> nat \<Rightarrow> json \<Rightarrow> bool" where
  \<comment> \<open>the cell \<open>p\<close> is the object or the array \<open>j\<close>, and what it holds lies in the cells
      after \<open>p\<close>\<close>
  "holds h p j =
     (p < length h
      \<and> (case h ! p of
           HObj hkvs \<Rightarrow>
             (case j of
                JObj kvs \<Rightarrow>
                  distinct (map fst kvs)
                  \<and> list_all2 (\<lambda>kw kj. fst kw = fst kj \<and> repr (Suc p) h (snd kw) (snd kj))
                       hkvs kvs
              | _ \<Rightarrow> False)
         | HArr ws \<Rightarrow>
             (case j of JArr xs \<Rightarrow> list_all2 (\<lambda>w x. repr (Suc p) h w x) ws xs | _ \<Rightarrow> False)))"

definition copy_of :: "nat \<Rightarrow> heap \<Rightarrow> hval \<Rightarrow> json \<Rightarrow> bool" where
  \<comment> \<open>\<open>v\<close> is a primitive value \<open>j\<close>, or a cell from \<open>n\<close> on that is \<open>j\<close> and holds its
      parts after itself\<close>
  "copy_of n h v j =
     (case v of
        HVal j' \<Rightarrow> j' = j \<and> (case j of JObj kvs \<Rightarrow> False | JArr xs \<Rightarrow> False | _ \<Rightarrow> True)
      | HRef p \<Rightarrow> n \<le> p \<and> holds h p j)"








subsection \<open>Transforming a structural diff\<close>

fun deepCopy_op :: "op \<Rightarrow> op" where
  \<comment> \<open>\<open>deepCopy\<close> on the object of an operation\<close>
  "deepCopy_op (OpInsert v) = OpInsert (deepCopy v)"
| "deepCopy_op (OpReplace v) = OpReplace (deepCopy v)"
| "deepCopy_op (OpIncrement v) = OpIncrement (deepCopy v)"
| "deepCopy_op (OpObject d) = OpObject (map_option (map (\<lambda>(i, v). (i, deepCopy_op v))) d)"
| "deepCopy_op (OpList d) = OpList (map (\<lambda>(i, v). (i, deepCopy_op v)) d)"
| "deepCopy_op op = op"

definition op_get :: "jdiff \<Rightarrow> jsstring \<Rightarrow> op" where
  \<comment> \<open>\<open>bd[key]\<close>\<close>
  "op_get kvs k = (case map_of kvs k of None \<Rightarrow> OpUndefined | Some b \<Rightarrow> b)"

datatype slot_update = Unchanged | Removed | Assigned op | Reassigned op

fun update_slot :: "jdiff \<Rightarrow> jsstring \<Rightarrow> slot_update \<Rightarrow> jdiff" where
  "update_slot ad_new key Unchanged = ad_new"
| "update_slot ad_new key Removed = obj_delete ad_new key"
| "update_slot ad_new key (Assigned op) = obj_set ad_new key op"
| "update_slot ad_new key (Reassigned op) = obj_set (obj_delete ad_new key) key op"

definition transform_text :: "'p dmp \<Rightarrow> json \<Rightarrow> jsstring \<Rightarrow> jsstring \<Rightarrow> error + slot_update" where
  \<comment> \<open>the case \<open>'d'\<close> against \<open>'d'\<close>\<close>
  "transform_text dmp sk da db =
     (case sk of
        JStr t \<Rightarrow>
          (case diff_fromDelta t da of Inl e \<Rightarrow> Inl e | Inr diffs_a \<Rightarrow>
          (case dmp_patch_make dmp t diffs_a of Inl e \<Rightarrow> Inl e | Inr a_patches \<Rightarrow>
          (case diff_fromDelta t db of Inl e \<Rightarrow> Inl e | Inr diffs_b \<Rightarrow>
          (case dmp_patch_make dmp t diffs_b of Inl e \<Rightarrow> Inl e | Inr b_patches \<Rightarrow>
          (case dmp_patch_apply dmp b_patches t of Inl e \<Rightarrow> Inl e | Inr b_result \<Rightarrow>
          (case dmp_patch_apply dmp a_patches (fst b_result) of Inl e \<Rightarrow> Inl e | Inr ab_result \<Rightarrow>
             if fst ab_result \<noteq> fst b_result then
               (case text_diff dmp (fst b_result) (fst ab_result) of
                  Inl e \<Rightarrow> Inl e
                | Inr (OpDelta delta) \<Rightarrow> Inr (Reassigned (OpDelta delta))
                | Inr _ \<Rightarrow> Inr Removed)
             else Inr Removed))))))
      | JArr xs \<Rightarrow> Inl Unmodelled
      | JObj kvs \<Rightarrow> Inl Unmodelled
      | _ \<Rightarrow> Inl (fromDelta_nonstring sk (split_tab da)))"

definition transform_op ::
  "'p dmp \<Rightarrow> op \<Rightarrow> op \<Rightarrow> json \<Rightarrow> error + jdiff option \<Rightarrow> error + jdiff \<Rightarrow> error + slot_update"
where
  \<comment> \<open>the chain of conditions of \<open>transform_object_diff\<close> on one key: what happens to
      \<open>ad_new[key]\<close>. \<open>oo\<close> and \<open>ll\<close> are the recursive transforms of the two payloads.\<close>
  "transform_op dmp aop bop sk oo ll =
     (case aop of
        OpUndefined \<Rightarrow> Inl TypeError
      | OpInsert av \<Rightarrow>
          (case bop of
             OpUndefined \<Rightarrow> Inl TypeError
           | OpInsert bv \<Rightarrow>
               if equals av bv then Inr Removed
               else (case diff dmp bv av of Inl e \<Rightarrow> Inl e | Inr d \<Rightarrow> Inr (Assigned d))
           | _ \<Rightarrow> Inr Unchanged)
      | OpDelete \<Rightarrow>
          (case bop of
             OpUndefined \<Rightarrow> Inl TypeError
           | OpDelete \<Rightarrow> Inr Removed
           | _ \<Rightarrow> Inr Unchanged)
      | OpObject ad \<Rightarrow>
          (case bop of
             OpUndefined \<Rightarrow> Inl TypeError
           | OpDelete \<Rightarrow>
               (case apply_object_diff dmp sk (own_entries ad) of
                  Inl e \<Rightarrow> Inl e
                | Inr v \<Rightarrow> Inr (Assigned (OpInsert v)))
           | OpObject bd \<Rightarrow>
               (case oo of Inl e \<Rightarrow> Inl e | Inr r \<Rightarrow> Inr (Assigned (OpObject r)))
           | _ \<Rightarrow> Inr Unchanged)
      | OpList ad \<Rightarrow>
          (case bop of
             OpUndefined \<Rightarrow> Inl TypeError
           | OpDelete \<Rightarrow>
               (case apply_list_diff dmp sk ad of
                  Inl e \<Rightarrow> Inl e
                | Inr v \<Rightarrow> Inr (Assigned (OpInsert v)))
           | OpList bd \<Rightarrow>
               (case ll of Inl e \<Rightarrow> Inl e | Inr r \<Rightarrow> Inr (Assigned (OpObject (Some r))))
           | _ \<Rightarrow> Inr Unchanged)
      | OpIncrement av \<Rightarrow>
          (case bop of
             OpUndefined \<Rightarrow> Inl TypeError
           | OpDelete \<Rightarrow>
               (case js_plus sk av of Inl e \<Rightarrow> Inl e | Inr v \<Rightarrow> Inr (Assigned (OpInsert v)))
           | _ \<Rightarrow> Inr Unchanged)
      | OpDelta da \<Rightarrow>
          (case bop of
             OpUndefined \<Rightarrow> Inl TypeError
           | OpDelete \<Rightarrow>
               (case text_patch dmp sk da of
                  Inl e \<Rightarrow> Inl e
                | Inr v \<Rightarrow> Inr (Assigned (OpInsert v)))
           | OpDelta db \<Rightarrow> transform_text dmp sk da db
           | _ \<Rightarrow> Inr Unchanged)
      | _ \<Rightarrow>
          (case bop of
             OpUndefined \<Rightarrow> Inl TypeError
           | _ \<Rightarrow> Inr Unchanged))"

definition obj_payload :: "op \<Rightarrow> jdiff option" where
  "obj_payload op = (case op of OpObject d \<Rightarrow> d | _ \<Rightarrow> None)"

definition list_payload :: "op \<Rightarrow> jdiff" where
  "list_payload op = (case op of OpList d \<Rightarrow> d | _ \<Rightarrow> [])"

definition list_rekey_step ::
  "jdiff \<Rightarrow> jsstring \<Rightarrow> op \<Rightarrow> jdiff \<Rightarrow> error + jdiff option \<Rightarrow> error + jdiff" where
  \<comment> \<open>one iteration of the second loop of \<open>transform_list_diff\<close>. \<open>shift_r\<close> and
      \<open>shift_l\<close> are the lengths of one-element arrays, each holding the array of the
      selected indices; \<open>index + shift_r\<close> appends to the string \<open>index\<close>; \<open>bd.index\<close> is the
      property named \<open>index\<close>. \<open>t\<close> is \<open>transform_object_diff({sindex: op}, {sindex: bd.index}, s)\<close>.\<close>
  "list_rekey_step ad_new index op bd t =
     (let b_inserts = map fst (filter (\<lambda>(i, bop). case bop of OpInsert v \<Rightarrow> True | _ \<Rightarrow> False) bd);
          b_deletes = map fst (filter (\<lambda>(i, bop). bop = OpDelete) bd);
          shift_r = length [filter (\<lambda>x. \<not> str_less index x) b_inserts];
          shift_l = length [filter (\<lambda>x. \<not> str_less index x) b_deletes]
      in case to_number (index @ decimal shift_r) of
           None \<Rightarrow> Inl Unmodelled
         | Some n \<Rightarrow>
             if n < shift_l then Inl Unmodelled
             else
               (let sindex = decimal (n - shift_l);
                    ad_new1 = obj_set ad_new sindex op;
                    bd_index = op_get bd (ascii ''index'')
                in if has_key bd sindex then
                     (case op of
                        OpUndefined \<Rightarrow> Inl TypeError
                      | _ \<Rightarrow>
                          if (case op of OpInsert v \<Rightarrow> True | _ \<Rightarrow> False)
                             \<and> bd_index = OpUndefined then Inl TypeError
                          else if (case op of OpInsert v \<Rightarrow> True | _ \<Rightarrow> False)
                             \<and> (case bd_index of OpInsert v \<Rightarrow> True | _ \<Rightarrow> False) then Inr ad_new1
                          else if op = OpDelete \<and> bd_index = OpUndefined then Inl TypeError
                          else if op = OpDelete \<and> bd_index = OpDelete then
                            Inr (obj_delete ad_new1 sindex)
                          else
                            (case t of
                               Inl e \<Rightarrow> Inl e
                             | Inr None \<Rightarrow> Inl TypeError
                             | Inr (Some d) \<Rightarrow> Inr (obj_set ad_new1 sindex (op_get d sindex))))
                   else Inr ad_new1))"

lemma size_obj_payload:
  "size_list (size_prod (\<lambda>_. 0) size) (own_entries (obj_payload op)) \<le> size op"
  by (cases op) (auto simp: obj_payload_def own_entries_def split: option.splits)

lemma size_list_payload:
  "size_list (size_prod (\<lambda>_. 0) size) (list_payload op) \<le> size op"
  by (cases op) (auto simp: list_payload_def)

function transform_object_diff ::
    "'p dmp \<Rightarrow> jdiff option \<Rightarrow> jdiff option \<Rightarrow> json \<Rightarrow> error + jdiff option"
  and transform_object_keys ::
    "'p dmp \<Rightarrow> jdiff \<Rightarrow> jdiff \<Rightarrow> jdiff option \<Rightarrow> json \<Rightarrow> error + jdiff option"
  and transform_list_diff :: "'p dmp \<Rightarrow> jdiff \<Rightarrow> jdiff \<Rightarrow> json \<Rightarrow> error + jdiff"
  and transform_list_keys :: "'p dmp \<Rightarrow> jdiff \<Rightarrow> jdiff \<Rightarrow> jdiff \<Rightarrow> json \<Rightarrow> error + jdiff"
where
  "transform_object_diff dmp ad bd s =
     \<comment> \<open>\<open>ad_new = deepCopy(ad)\<close>, then the loop over the keys of \<open>ad\<close>\<close>
     transform_object_keys dmp (map (\<lambda>(i, v). (i, deepCopy_op v)) (own_entries ad))
       (for_in (own_entries ad)) bd s"
| "transform_object_keys dmp ad_new [] bd s =
     \<comment> \<open>the loop ends without reaching \<open>return ad_new\<close>: the result is \<open>undefined\<close>\<close>
     Inr None"
| "transform_object_keys dmp ad_new ((key, aop) # rest) bd s =
     (case bd of
        None \<Rightarrow> Inl TypeError
      | Some kbs \<Rightarrow>
          if \<not> has_key kbs key then transform_object_keys dmp ad_new rest bd s
          else
            (case get_prop s key of
               Inl e \<Rightarrow> Inl e
             | Inr sk \<Rightarrow>
                 (case transform_op dmp aop (op_get kbs key) sk
                         (transform_object_diff dmp (obj_payload aop)
                            (obj_payload (op_get kbs key)) sk)
                         (transform_list_diff dmp (list_payload aop)
                            (list_payload (op_get kbs key)) sk) of
                    Inl e \<Rightarrow> Inl e
                  | Inr u \<Rightarrow>
                      \<comment> \<open>\<open>return ad_new\<close> inside the loop\<close>
                      Inr (Some (update_slot ad_new key u)))))"
| "transform_list_diff dmp ad bd s = transform_list_keys dmp [] (for_in ad) bd s"
| "transform_list_keys dmp ad_new [] bd s = Inr ad_new"
| "transform_list_keys dmp ad_new ((index, op) # rest) bd s =
     (case list_rekey_step ad_new index op bd
             (transform_object_diff dmp (Some [(ascii ''sindex'', op)])
                (Some [(ascii ''sindex'', op_get bd (ascii ''index''))]) s) of
        Inl e \<Rightarrow> Inl e
      | Inr ad_new' \<Rightarrow> transform_list_keys dmp ad_new' rest bd s)"
  by pat_completeness auto
termination
proof (relation "measure (\<lambda>x. case x of
          Inl (Inl (dmp, ad, bd, s)) \<Rightarrow>
            3 * size_list (size_prod (\<lambda>_. 0) size) (own_entries ad) + 1
        | Inl (Inr (dmp, ad_new, ad, bd, s)) \<Rightarrow> 3 * size_list (size_prod (\<lambda>_. 0) size) ad
        | Inr (Inl (dmp, ad, bd, s)) \<Rightarrow> 3 * size_list (size_prod (\<lambda>_. 0) size) ad + 5
        | Inr (Inr (dmp, ad_new, ad, bd, s)) \<Rightarrow>
            3 * size_list (size_prod (\<lambda>_. 0) size) ad + 4)", goal_cases)
  case (4 dmp ad_new key aop rest bd s kbs sk)
  show ?case using size_obj_payload [of aop] by simp
next
  case (5 dmp ad_new key aop rest bd s kbs sk)
  show ?case using size_list_payload [of aop] by simp
qed (auto simp: own_entries_def)

section \<open>SyncClient\<close>

subsection \<open>Numbers and strings of the client\<close>

text \<open>
  The counter \<open>ccid\<close> is a number of the source, a double, and a natural number here
  (\<open>_load_meta\<close> reads a string from the storage, which the increment converts to a
  number). Every natural number below \<open>2^53\<close> is a double; above, \<open>round_double\<close> is
  the double that a sum with that value is rounded to: the nearest one with 53
  significant bits, the even one of two nearest.
\<close>

fun bit_count :: "nat \<Rightarrow> nat" where
  \<comment> \<open>the number of binary digits\<close>
  "bit_count n = (if n = 0 then 0 else Suc (bit_count (n div 2)))"

declare bit_count.simps [simp del]

definition round_double :: "nat \<Rightarrow> nat" where
  "round_double m =
     (if m < 2 ^ 53 then m
      else
        (let e = bit_count m - 53; q = m div 2 ^ e; r = m mod 2 ^ e
         in if 2 * r < 2 ^ e \<or> (2 * r = 2 ^ e \<and> even q) then q * 2 ^ e
            else (q + 1) * 2 ^ e))"

definition number_succ :: "nat \<Rightarrow> nat" where
  \<comment> \<open>the value of \<open>n\<close> after \<open>n++\<close>\<close>
  "number_succ n = round_double (n + 1)"

fun to_string_raises :: "json \<Rightarrow> bool" where
  \<comment> \<open>whether the conversion of the value to a string, as in \<open>"" + v\<close>, raises a
      \<open>TypeError\<close>: an object with a property \<open>toString\<close> of its own, which is no
      function, has no method left that yields a string; an array converts its elements\<close>
  "to_string_raises (JObj kvs) = has_key kvs (ascii ''toString'')"
| "to_string_raises (JArr xs) = list_ex to_string_raises xs"
| "to_string_raises v = False"

definition inherited_name :: "jsstring \<Rightarrow> bool" where
  \<comment> \<open>the names that \<open>store[id]\<close> and \<open>id in store\<close> find in every object\<close>
  "inherited_name k =
     (k \<in> set (map ascii
        [''constructor'', ''toString'', ''toLocaleString'', ''valueOf'', ''hasOwnProperty'',
         ''isPrototypeOf'', ''propertyIsEnumerable'', ''__proto__'', ''__defineGetter__'',
         ''__defineSetter__'', ''__lookupGetter__'', ''__lookupSetter__'']))"

subsection \<open>The client and its adapters\<close>

text \<open>
  A change record, outbound or inbound: an absent property is \<open>None\<close> (\<open>JUndefined\<close> for
  \<open>cv\<close>); \<open>change_local\<close> is the mark \<open>'local' in change\<close> that \<open>on_changes\<close> sets.
\<close>

record change =
  change_clientid :: "jsstring option"
  change_id :: jsstring
  change_ccid :: "jsstring option"
  change_ccids :: "jsstring list option"
  change_sv :: "int option"
  change_ev :: "int option"
  change_cv :: json
  change_o :: "jsstring option"
  change_v :: "jdiff option"
  change_error :: "int option"
  change_local :: bool

text \<open>An entry of the entity store; \<open>null\<close> and a missing version are \<open>None\<close>.\<close>

record entity =
  entity_id :: jsstring
  entity_object :: json
  entity_version :: "int option"
  entity_last :: json
  entity_change :: "change option"
  entity_check :: "nat option"

text \<open>
  A cursor as \<open>_captureCursor\<close> returns it. Of its properties, \<open>_notify_client\<close> reads
  and writes the two offsets and \<open>collapsed\<close>; \<open>endOffset\<close> is present for a selection
  that is not collapsed.
\<close>

record cursor =
  cursor_startOffset :: int
  cursor_endOffset :: "int option"
  cursor_collapsed :: bool

text \<open>
  The client. Its collaborators are parameters, each with the exception it may raise:
  \<^item> the UI adapter: \<open>cb_get_data\<close> and \<open>cb_notify\<close>, \<open>None\<close> when no callback is
    registered; the calls of \<open>cb_notify\<close> that return are logged in \<open>notified\<close>;
  \<^item> the cursor adapter: \<open>captureCursor\<close> and \<open>restoreCursor\<close> for \<open>_captureCursor\<close> and
    \<open>_restoreCursor\<close> on an element, which is known to the client by the properties
    that \<open>in\<close> finds in it;
  \<^item> the persistence adapter \<open>localStorage\<close>: \<open>ls_access\<close> is the exception that
    evaluating \<open>localStorage.setItem\<close> and the like raises where there is no such
    storage (then \<open>supports_html5_storage\<close> is false), \<open>ls_accepts n\<close> tells whether the
    \<open>n\<close>-th call of \<open>setItem\<close> stores its item or raises, and \<open>ls_calls\<close> counts these
    calls. \<open>ls_meta\<close> holds the items \<open>ccid\<close> and \<open>last_cv\<close>, \<open>ls_entities\<close> the entities,
    as the values that were written rather than as their strings.

  The adapters do not call the client, and \<open>console\<close> is there.
\<close>

record 'p client =
  jd_dmp :: "'p dmp"
  clientid :: jsstring
  data_ccid :: nat
  data_last_cv :: json
  data_store :: "jsstring \<rightharpoonup> entity"
  send_queue :: "change list"
  initialized :: bool
  cb_get_data :: "(jsstring \<Rightarrow> error + json) option"
  cb_notify :: "(jsstring \<Rightarrow> json \<Rightarrow> error option) option"
  captureCursor :: "json \<Rightarrow> error + cursor option"
  restoreCursor :: "json \<Rightarrow> cursor \<Rightarrow> error option"
  notified :: "(jsstring \<times> json) list"
  ls_access :: "error option"
  ls_accepts :: "nat \<Rightarrow> bool"
  ls_calls :: nat
  ls_meta :: "nat \<times> json"
  ls_entities :: "jsstring \<rightharpoonup> entity"

definition is_nullish :: "json \<Rightarrow> bool" where
  \<comment> \<open>\<open>v == null\<close>\<close>
  "is_nullish v = (v = JNull \<or> v = JUndefined)"

definition get :: "'p client \<Rightarrow> jsstring \<Rightarrow> json" where
  "get c eid =
     (case data_store c eid of
        Some s_data \<Rightarrow> deepCopy (entity_object s_data)
      | None \<Rightarrow> JNull)"

definition set_item :: "'p client \<Rightarrow> ('p client \<Rightarrow> 'p client) \<Rightarrow> 'p client \<times> bool" where
  \<comment> \<open>a call of \<open>localStorage.setItem\<close>: the call is counted, and the item is stored
      (\<open>True\<close>) or an exception is raised\<close>
  "set_item c store =
     (let c1 = c\<lparr>ls_calls := Suc (ls_calls c)\<rparr>
      in if ls_accepts c (ls_calls c) then (store c1, True) else (c1, False))"

definition save_meta :: "'p client \<Rightarrow> 'p client" where
  \<comment> \<open>\<open>_save_meta\<close>: nothing without storage; otherwise the two items are written one
      after the other, and the first exception ends the writing. The conversion of
      \<open>last_cv\<close> to a string may raise before the storage is called.\<close>
  "save_meta c =
     (if ls_access c \<noteq> None then c
      else
        (case set_item c (\<lambda>c1. c1\<lparr>ls_meta := (data_ccid c, snd (ls_meta c))\<rparr>) of
           (c2, stored) \<Rightarrow>
             if \<not> stored \<or> to_string_raises (data_last_cv c) then c2
             else fst (set_item c2 (\<lambda>c3. c3\<lparr>ls_meta := (data_ccid c, data_last_cv c)\<rparr>))))"

definition save_entity :: "'p client \<Rightarrow> jsstring \<Rightarrow> error + 'p client" where
  \<comment> \<open>\<open>_save_entity\<close>: an exception of \<open>setItem\<close> is caught. The item of an entity that
      is not in the store is the string \<open>undefined\<close>, which \<open>JSON.parse\<close> rejects when the
      item is read back.\<close>
  "save_entity c eid =
     (if ls_access c \<noteq> None then Inr c
      else
        (case set_item c (\<lambda>c1. c1\<lparr>ls_entities := (ls_entities c)(eid := data_store c eid)\<rparr>) of
           (c2, stored) \<Rightarrow>
             if stored \<and> data_store c eid = None then Inl SyntaxError else Inr c2))"

definition remove_entity :: "'p client \<Rightarrow> jsstring \<Rightarrow> error + 'p client" where
  \<comment> \<open>\<open>_remove_entity\<close>: \<open>localStorage.removeItem\<close>, outside of any \<open>try\<close>\<close>
  "remove_entity c eid =
     (case ls_access c of
        Some e \<Rightarrow> Inl e
      | None \<Rightarrow> Inr (c\<lparr>ls_entities := (ls_entities c)(eid := None)\<rparr>))"

subsection \<open>Outbound changes\<close>

definition new_change :: "jsstring \<Rightarrow> jsstring \<Rightarrow> change" where
  \<comment> \<open>\<open>{'id': ..., 'ccid': ...}\<close>\<close>
  "new_change eid ccid =
     \<lparr>change_clientid = None, change_id = eid, change_ccid = Some ccid, change_ccids = None,
      change_sv = None, change_ev = None, change_cv = JUndefined, change_o = None,
      change_v = None, change_error = None, change_local = False\<rparr>"

definition pending_for :: "'p client \<Rightarrow> jsstring \<Rightarrow> bool" where
  \<comment> \<open>the first loop of \<open>_make_change\<close>: a change for \<open>id\<close> is in the send queue\<close>
  "pending_for c eid = list_ex (\<lambda>change. eid = change_id change) (send_queue c)"

definition current_object :: "'p client \<Rightarrow> entity \<Rightarrow> jsstring \<Rightarrow> error + json option" where
  \<comment> \<open>the value \<open>c_object\<close> of \<open>_make_change\<close>; \<open>None\<close> where the source returns \<open>null\<close>
      because there is no \<open>last\<close>\<close>
  "current_object c s_data eid =
     (let from_last = (if \<not> is_nullish (entity_last s_data) then Some (entity_last s_data)
                       else None)
      in if \<not> initialized c then Inr from_last
         else
           (case cb_get_data c of
              None \<Rightarrow> Inr from_last
            | Some get_data \<Rightarrow>
                (case get_data eid of
                   Inl e \<Rightarrow> Inl e
                 | Inr c_object \<Rightarrow>
                     Inr (Some (case c_object of JArr xs \<Rightarrow> arr_get xs 0 | _ \<Rightarrow> c_object)))))"

definition make_change :: "'p client \<Rightarrow> jsstring \<Rightarrow> 'p client \<times> (error + change option)" where
  \<comment> \<open>\<open>_make_change\<close>: the client afterwards, and the change record, \<open>null\<close> (\<open>None\<close>) or
      the exception. \<open>String(n)\<close> is the decimal numeral below \<open>10^21\<close>. An \<open>id\<close> that
      names an inherited property finds a function in the store.\<close>
  "make_change c eid =
     (if pending_for c eid then (c, Inr None)
      else if 10 ^ 21 \<le> data_ccid c then (c, Inl Unmodelled)
      else
        (let change = new_change eid (decimal (data_ccid c));
             c' = c\<lparr>data_ccid := number_succ (data_ccid c)\<rparr>
         in case data_store c eid of
              None \<Rightarrow> (c', Inl (if inherited_name eid then Unmodelled else TypeError))
            | Some s_data \<Rightarrow>
                (case current_object c s_data eid of
                   Inl e \<Rightarrow> (c', Inl e)
                 | Inr None \<Rightarrow> (c', Inr None)
                 | Inr (Some c_object) \<Rightarrow>
                     (let change = change\<lparr>change_sv := entity_version s_data\<rparr>
                      in if c_object = JNull \<and> entity_version s_data \<noteq> None then
                           (c', Inr (Some (change\<lparr>change_o := Some (ascii ''-'')\<rparr>)))
                         else if \<not> is_nullish c_object \<and> \<not> is_nullish (entity_object s_data) then
                           (case object_diff (jd_dmp c) (entity_object s_data) c_object of
                              Inl e \<Rightarrow> (c', Inl e)
                            | Inr v \<Rightarrow>
                                if length v = 0 then (c', Inr None)
                                else (c', Inr (Some (change\<lparr>change_o := Some (ascii ''M''),
                                                          change_v := Some v\<rparr>))))
                         else (c', Inr None)))))"

subsection \<open>Notifying the UI\<close>

definition truthy :: "json \<Rightarrow> bool" where
  \<comment> \<open>the value of \<open>v\<close> as a condition\<close>
  "truthy v =
     (case v of
        JUndefined \<Rightarrow> False | JNull \<Rightarrow> False | JBool b \<Rightarrow> b | JNum n \<Rightarrow> n \<noteq> 0
      | JStr t \<Rightarrow> t \<noteq> [] | _ \<Rightarrow> True)"

definition call_notify :: "'p client \<Rightarrow> jsstring \<Rightarrow> json \<Rightarrow> error + 'p client" where
  \<comment> \<open>\<open>this.cb_notify(key, value)\<close>\<close>
  "call_notify c key v =
     (case cb_notify c of
        None \<Rightarrow> Inl TypeError
      | Some notify \<Rightarrow>
          (case notify key v of
             Some e \<Rightarrow> Inl e
           | None \<Rightarrow> Inr (c\<lparr>notified := notified c @ [(key, v)]\<rparr>)))"

definition text_patch_with_offsets ::
  "'p dmp \<Rightarrow> json \<Rightarrow> jsstring \<Rightarrow> int list \<Rightarrow> error + json \<times> int list" where
  \<comment> \<open>the \<open>'d'\<close> case on the designated field: \<open>diff_fromDelta\<close>, \<open>patch_make\<close>,
      \<open>patch_apply_with_offsets\<close>\<close>
  "text_patch_with_offsets dmp cur delta offsets =
     (case cur of
        JStr t \<Rightarrow>
          (case diff_fromDelta t delta of
             Inl e \<Rightarrow> Inl e
           | Inr dmp_diffs \<Rightarrow>
               (case dmp_patch_make dmp t dmp_diffs of
                  Inl e \<Rightarrow> Inl e
                | Inr dmp_patches \<Rightarrow>
                    (case dmp_patch_apply_with_offsets dmp dmp_patches t of
                       Inl e \<Rightarrow> Inl e
                     | Inr (text, shift) \<Rightarrow> Inr (JStr text, map shift offsets))))
      | JArr xs \<Rightarrow> Inl Unmodelled
      | JObj kvs \<Rightarrow> Inl Unmodelled
      | _ \<Rightarrow> Inl (fromDelta_nonstring cur (split_tab delta)))"

definition slot_with_offsets ::
  "'p dmp \<Rightarrow> json \<Rightarrow> int list \<Rightarrow> jsstring \<Rightarrow> json \<Rightarrow> op \<Rightarrow> error + json \<times> int list" where
  \<comment> \<open>the new value of \<open>patched[key]\<close> in the cases \<open>'I'\<close>, \<open>'L'\<close>, \<open>'O'\<close> and \<open>'d'\<close> of
      \<open>apply_object_diff_with_offsets\<close>, and the offsets afterwards\<close>
  "slot_with_offsets dmp field offsets key cur op =
     (case op of
        OpDelta delta \<Rightarrow>
          if field = JStr key then text_patch_with_offsets dmp cur delta offsets
          else (case text_patch dmp cur delta of Inl e \<Rightarrow> Inl e | Inr v \<Rightarrow> Inr (v, offsets))
      | _ \<Rightarrow> (case apply_slot_op dmp cur op of Inl e \<Rightarrow> Inl e | Inr v \<Rightarrow> Inr (v, offsets)))"

fun apply_object_ops_with_offsets ::
  "'p dmp \<Rightarrow> json \<Rightarrow> int list \<Rightarrow> json \<Rightarrow> jdiff \<Rightarrow> error + json \<times> int list" where
  "apply_object_ops_with_offsets dmp field offsets patched [] = Inr (patched, offsets)"
| "apply_object_ops_with_offsets dmp field offsets patched ((key, op) # diffs) =
     (let slot = slot_with_offsets dmp field offsets key (object_slot patched key) op
      in case object_step patched key op (case slot of Inl e \<Rightarrow> Inl e | Inr r \<Rightarrow> Inr (fst r)) of
           Inl e \<Rightarrow> Inl e
         | Inr patched' \<Rightarrow>
             apply_object_ops_with_offsets dmp field
               (case slot of Inl e \<Rightarrow> offsets | Inr r \<Rightarrow> snd r) patched' diffs)"

definition apply_object_diff_with_offsets ::
  "'p dmp \<Rightarrow> json \<Rightarrow> jdiff \<Rightarrow> json \<Rightarrow> int list \<Rightarrow> error + json \<times> int list" where
  \<comment> \<open>the patched copy, and the array \<open>offsets\<close> as the call leaves it\<close>
  "apply_object_diff_with_offsets dmp s diffs field offsets =
     apply_object_ops_with_offsets dmp field offsets (deepCopy s) (for_in diffs)"

definition focus :: "'p client \<Rightarrow> json \<Rightarrow> error + json \<times> json \<times> json \<times> cursor option" where
  \<comment> \<open>\<open>c_object\<close>, \<open>fieldname\<close>, \<open>element\<close> and \<open>cursor\<close> of \<open>_notify_client\<close>, from what
      \<open>cb_get_data\<close> returned. \<open>_captureCursor\<close> begins with \<open>'activeElement' in element\<close>,
      which raises unless the element is an object.\<close>
  "focus c got =
     (case got of
        JArr xs \<Rightarrow>
          (let element = arr_get xs 2
           in case (case element of
                      JObj kvs \<Rightarrow> captureCursor c element
                    | JArr ys \<Rightarrow> captureCursor c element
                    | _ \<Rightarrow> Inl TypeError) of
                Inl e \<Rightarrow> Inl e
              | Inr cursor \<Rightarrow> Inr (arr_get xs 0, arr_get xs 1, element, cursor))
      | _ \<Rightarrow> Inr (got, JUndefined, JUndefined, None))"

definition show_value :: "json \<Rightarrow> json \<Rightarrow> json \<Rightarrow> error option" where
  \<comment> \<open>what \<open>if ((element != null) && 'value' in element) element['value'] =
      new_data[fieldname]\<close> raises; the element is not part of the client\<close>
  "show_value element new_data fieldname =
     (case element of
        JUndefined \<Rightarrow> None
      | JNull \<Rightarrow> None
      | JArr xs \<Rightarrow> None
      | JObj kvs \<Rightarrow>
          if has_key kvs (ascii ''value'')
             \<and> (is_nullish new_data \<or> to_string_raises fieldname) then Some TypeError
          else None
      | _ \<Rightarrow> Some TypeError)"

definition rebase_cursor :: "cursor \<Rightarrow> int list \<Rightarrow> cursor" where
  \<comment> \<open>the cursor after the offsets are written back; the array is never empty\<close>
  "rebase_cursor cur offsets =
     (case offsets of
        [] \<Rightarrow> cur
      | start # rest \<Rightarrow>
          (case rest of
             [] \<Rightarrow> cur\<lparr>cursor_startOffset := start\<rparr>
           | stop # _ \<Rightarrow>
               cur\<lparr>cursor_startOffset := start, cursor_endOffset := Some stop,
                    cursor_collapsed := (if start \<ge> stop then True else cursor_collapsed cur)\<rparr>))"

definition rebase ::
  "'p client \<Rightarrow> json \<Rightarrow> jdiff option \<Rightarrow> json \<Rightarrow> json \<Rightarrow> cursor option \<Rightarrow> error + json" where
  \<comment> \<open>\<open>new_data\<close> of \<open>_notify_client\<close>: \<open>t_diff\<close> applied to \<open>t_object\<close>, with the cursor
      carried along when one was captured\<close>
  "rebase c t_object t_diff fieldname element cursor =
     (case cursor of
        None \<Rightarrow> apply_object_diff (jd_dmp c) t_object (own_entries t_diff)
      | Some cur \<Rightarrow>
          (case apply_object_diff_with_offsets (jd_dmp c) t_object (own_entries t_diff) fieldname
                  (cursor_startOffset cur
                   # (case cursor_endOffset cur of None \<Rightarrow> [] | Some stop \<Rightarrow> [stop])) of
             Inl e \<Rightarrow> Inl e
           | Inr (new_data, offsets) \<Rightarrow>
               (case show_value element new_data fieldname of
                  Some e \<Rightarrow> Inl e
                | None \<Rightarrow>
                    (case restoreCursor c element (rebase_cursor cur offsets) of
                       Some e \<Rightarrow> Inl e
                     | None \<Rightarrow> Inr new_data))))"

definition notify_client ::
  "'p client \<Rightarrow> jsstring \<Rightarrow> json \<Rightarrow> json \<Rightarrow> jdiff option \<Rightarrow> error + 'p client" where
  \<comment> \<open>\<open>_notify_client\<close>. Its first statement writes \<open>new_object\<close> and \<open>orig_object\<close> into
      a string for the console.\<close>
  "notify_client c key new_object orig_object remote_diff =
     (if to_string_raises new_object \<or> to_string_raises orig_object then Inl TypeError
      else
        (case cb_get_data c of
           None \<Rightarrow> call_notify c key new_object
         | Some get_data \<Rightarrow>
             (case get_data key of
                Inl e \<Rightarrow> Inl e
              | Inr got \<Rightarrow>
                  (case focus c got of
                     Inl e \<Rightarrow> Inl e
                   | Inr (c_object, fieldname, element, cursor) \<Rightarrow>
                       if \<not> is_nullish c_object \<and> \<not> is_nullish orig_object then
                         (case object_diff (jd_dmp c) orig_object c_object of
                            Inl e \<Rightarrow> Inl e
                          | Inr o_diff \<Rightarrow>
                              (case (if length o_diff = 0 then Inr (remote_diff, orig_object)
                                     else
                                       (case transform_object_diff (jd_dmp c) (Some o_diff)
                                               remote_diff orig_object of
                                          Inl e \<Rightarrow> Inl e
                                        | Inr t_diff \<Rightarrow> Inr (t_diff, new_object))) of
                                 Inl e \<Rightarrow> Inl e
                               | Inr (t_diff, t_object) \<Rightarrow>
                                   (case rebase c t_object t_diff fieldname element cursor of
                                      Inl e \<Rightarrow> Inl e
                                    | Inr new_data \<Rightarrow> call_notify c key new_data)))
                       else if truthy new_object then call_notify c key new_object
                       else call_notify c key JNull))))"

subsection \<open>Inbound changes\<close>

definition acknowledges :: "'p client \<Rightarrow> change \<Rightarrow> change \<Rightarrow> bool" where
  \<comment> \<open>the inbound \<open>change\<close> acknowledges the queued change \<open>pending\<close>\<close>
  "acknowledges c change pending =
     (change_clientid change = Some (clientid c) \<and> change_id change = change_id pending
      \<and> ((change_ccid change \<noteq> None \<and> change_ccid change = change_ccid pending)
         \<or> (case (change_ccids change, change_ccid pending) of
               (Some ccids, Some ccid) \<Rightarrow> ccid \<in> set ccids
             | _ \<Rightarrow> False)))"

fun drop_pending :: "'p client \<Rightarrow> change list \<Rightarrow> 'p client \<times> error option" where
  \<comment> \<open>the loop over \<open>pending_to_delete\<close>: the client afterwards, and the exception if one
      is raised\<close>
  "drop_pending c [] = (c, None)"
| "drop_pending c (pd # pds) =
     (case data_store c (change_id pd) of
        None \<Rightarrow> (c, Some TypeError)
      | Some s_data \<Rightarrow>
          drop_pending
            (c\<lparr>data_store := (data_store c)(change_id pd \<mapsto> s_data\<lparr>entity_change := None\<rparr>),
               send_queue := filter (\<lambda>p. p \<noteq> pd) (send_queue c)\<rparr>)
            pds)"

definition new_entity :: "jsstring \<Rightarrow> entity" where
  "new_entity eid =
     \<lparr>entity_id = eid, entity_object = JObj [], entity_version = None, entity_last = JNull,
      entity_change = None, entity_check = None\<rparr>"

definition invalidate_version :: "'p client \<Rightarrow> jsstring \<Rightarrow> 'p client" where
  \<comment> \<open>\<open>if (id in this.data.store) this.data.store[id]['version'] = null\<close>\<close>
  "invalidate_version c eid =
     (case data_store c eid of
        None \<Rightarrow> c
      | Some s_data \<Rightarrow> c\<lparr>data_store := (data_store c)(eid \<mapsto> s_data\<lparr>entity_version := None\<rparr>)\<rparr>)"

definition sv_matches :: "change \<Rightarrow> entity option \<Rightarrow> bool" where
  \<comment> \<open>the condition under which an \<open>'M'\<close> change is applied\<close>
  "sv_matches change s_data =
     (case change_sv change of
        None \<Rightarrow> True
      | Some sv \<Rightarrow>
          (case s_data of None \<Rightarrow> False | Some e \<Rightarrow> entity_version e = Some sv))"

definition is_duplicate :: "change \<Rightarrow> entity option \<Rightarrow> bool" where
  \<comment> \<open>\<open>change['ev'] <= s_data['version']\<close> on a stored entity with a version\<close>
  "is_duplicate change s_data =
     (case (s_data, change_ev change) of
        (Some e, Some ev) \<Rightarrow> (case entity_version e of None \<Rightarrow> False | Some v \<Rightarrow> ev \<le> v)
      | _ \<Rightarrow> False)"

definition apply_change ::
  "'p client \<Rightarrow> bool \<Rightarrow> change \<Rightarrow> ('p client \<times> bool) \<times> error option" where
  \<comment> \<open>the branch of \<open>on_changes\<close> for a change without \<open>error\<close>, up to the checkpoint:
      the client and \<open>reload_needed\<close> afterwards\<close>
  "apply_change c reload_needed change =
     (let eid = change_id change in
      if change_o change = Some (ascii ''-'') then
        (let c0 = c\<lparr>data_store := (data_store c)(eid := None)\<rparr>
         in case remove_entity c0 eid of
              Inl e \<Rightarrow> ((c0, reload_needed), Some e)
            | Inr c1 \<Rightarrow>
                if \<not> change_local change then
                  (case notify_client c1 eid JNull JNull None of
                     Inl e \<Rightarrow> ((c1, reload_needed), Some e)
                   | Inr c2 \<Rightarrow> ((c2, reload_needed), None))
                else ((c1, reload_needed), None))
      else if change_o change = Some (ascii ''M'') then
        (let s_data = data_store c eid in
         if sv_matches change s_data then
           (let e = (case s_data of None \<Rightarrow> new_entity eid | Some e \<Rightarrow> e);
                c1 = c\<lparr>data_store := (data_store c)(eid \<mapsto> e)\<rparr>;
                orig_object = deepCopy (entity_object e)
            in case apply_object_diff (jd_dmp c) (entity_object e) (own_entries (change_v change)) of
                 Inl err \<Rightarrow> ((c1, reload_needed), Some err)
               | Inr obj \<Rightarrow>
                   (let c2 = c1\<lparr>data_store := (data_store c1)
                                  (eid \<mapsto> e\<lparr>entity_object := obj,
                                            entity_version := change_ev change\<rparr>)\<rparr>;
                        new_object = deepCopy obj
                    in case save_entity c2 eid of
                         Inl err \<Rightarrow> ((c2, reload_needed), Some err)
                       | Inr c3 \<Rightarrow>
                           if \<not> change_local change then
                             (case notify_client c3 eid new_object orig_object (change_v change) of
                                Inl err \<Rightarrow> ((c3, reload_needed), Some err)
                              | Inr c4 \<Rightarrow> ((c4, reload_needed), None))
                           else ((c3, reload_needed), None)))
         else if is_duplicate change s_data then ((c, reload_needed), None)
         else ((invalidate_version c eid, True), None))
      else ((c, reload_needed), None))"

definition checkpoint :: "'p client \<Rightarrow> json \<Rightarrow> 'p client \<times> error option" where
  \<comment> \<open>\<open>this.data.last_cv = change['cv']; this._save_meta()\<close>, and the line for the
      console, which converts \<open>last_cv\<close> to a string\<close>
  "checkpoint c cv =
     (save_meta (c\<lparr>data_last_cv := cv\<rparr>), if to_string_raises cv then Some TypeError else None)"

definition on_change ::
  "'p client \<times> bool \<times> jsstring list \<Rightarrow> change
   \<Rightarrow> ('p client \<times> bool \<times> jsstring list) \<times> error option" where
  \<comment> \<open>one iteration of the loop of \<open>on_changes\<close> over the client, \<open>reload_needed\<close> and
      \<open>check_updates\<close>. An \<open>id\<close> that names an inherited property finds a function in
      the store.\<close>
  "on_change st change0 =
     (case st of (c, reload_needed, check_updates) \<Rightarrow>
        if inherited_name (change_id change0) then (st, Some Unmodelled)
        else
        (let pending_to_delete = filter (acknowledges c change0) (send_queue c);
             change = (if pending_to_delete \<noteq> [] then change0\<lparr>change_local := True\<rparr>
                       else change0);
             check_updates' = check_updates @ map (\<lambda>pending. change_id change) pending_to_delete
         in case drop_pending c pending_to_delete of
              (c1, Some e) \<Rightarrow> ((c1, reload_needed, check_updates'), Some e)
            | (c1, None) \<Rightarrow>
                (case change_error change of
                   Some code \<Rightarrow>
                     if code = 409 then ((c1, reload_needed, check_updates'), None)
                     else ((invalidate_version c1 (change_id change), True, check_updates'), None)
                 | None \<Rightarrow>
                     (case apply_change c1 reload_needed change of
                        ((c2, reload'), Some e) \<Rightarrow> ((c2, reload', check_updates'), Some e)
                      | ((c2, reload'), None) \<Rightarrow>
                          if \<not> reload' then
                            (case checkpoint c2 (change_cv change) of
                               (c3, e) \<Rightarrow> ((c3, reload', check_updates'), e))
                          else ((c2, reload', check_updates'), None)))))"

fun on_changes_loop ::
  "'p client \<times> bool \<times> jsstring list \<Rightarrow> change list
   \<Rightarrow> ('p client \<times> bool \<times> jsstring list) \<times> error option" where
  "on_changes_loop st [] = (st, None)"
| "on_changes_loop st (change # response) =
     (case on_change st change of
        (st', Some e) \<Rightarrow> (st', Some e)
      | (st', None) \<Rightarrow> on_changes_loop st' response)"

definition on_changes ::
  "'p client \<Rightarrow> change list \<Rightarrow> ('p client \<times> bool \<times> jsstring list) \<times> error option" where
  \<comment> \<open>the client after the batch, whether a re-index is scheduled (\<open>reload_needed\<close>), and
      the ids whose \<open>_check_update\<close> is scheduled otherwise\<close>
  "on_changes c response = on_changes_loop (c, False, []) response"

text \<open>
  Successive calls of \<open>_make_change\<close>: before each call the client may change in any
  way (\<open>other\<close>); the result lists the change records that are emitted, in order.
\<close>

definition ccid_value :: "change \<Rightarrow> nat option" where
  \<comment> \<open>the number that the string \<open>change['ccid']\<close> denotes\<close>
  "ccid_value ch = (case change_ccid ch of None \<Rightarrow> None | Some ccid \<Rightarrow> to_number ccid)"

fun successive_changes ::
  "'p client \<Rightarrow> (('p client \<Rightarrow> 'p client) \<times> jsstring) list \<Rightarrow> change list" where
  "successive_changes c [] = []"
| "successive_changes c ((other, eid) # calls) =
     (case snd (make_change (other c) eid) of Inr (Some ch) \<Rightarrow> [ch] | _ \<Rightarrow> [])
     @ successive_changes (fst (make_change (other c) eid)) calls"

subsection \<open>Example data\<close>

definition quiet_dmp :: "unit dmp" where
  \<comment> \<open>a text engine for examples that hold no string\<close>
  "quiet_dmp =
     \<lparr>dmp_diff_main = (\<lambda>a b. Inl Unmodelled),
      dmp_diff_cleanupEfficiency = (\<lambda>d. Inl Unmodelled),
      dmp_patch_make = (\<lambda>t d. Inl Unmodelled),
      dmp_patch_apply = (\<lambda>p t. Inl Unmodelled),
      dmp_patch_apply_with_offsets = (\<lambda>p t. Inl Unmodelled)\<rparr>"

definition ex_entity :: "jsstring \<Rightarrow> json \<Rightarrow> json \<Rightarrow> entity" where
  "ex_entity eid obj lst =
     \<lparr>entity_id = eid, entity_object = obj, entity_version = Some 1, entity_last = lst,
      entity_change = None, entity_check = None\<rparr>"

definition ex_client :: "unit client" where
  \<comment> \<open>entity \<open>A\<close> has a pending local edit, entity \<open>B\<close> has none; the storage takes every
      item\<close>
  "ex_client =
     \<lparr>jd_dmp = quiet_dmp, clientid = ascii ''me'', data_ccid = 1,
      data_last_cv = JStr (ascii ''0''),
      data_store =
        [ascii ''A'' \<mapsto> ex_entity (ascii ''A'') (JObj []) (JObj [(ascii ''x'', JNum 1)]),
         ascii ''B'' \<mapsto> ex_entity (ascii ''B'') (JObj []) (JObj [])],
      send_queue = [], initialized = False, cb_get_data = None,
      cb_notify = Some (\<lambda>key v. None),
      captureCursor = (\<lambda>element. Inr None), restoreCursor = (\<lambda>element cur. None),
      notified = [], ls_access = None, ls_accepts = (\<lambda>n. True), ls_calls = 0,
      ls_meta = (1, JStr (ascii ''0'')), ls_entities = Map.empty\<rparr>"

definition ex_error_change :: change where
  \<comment> \<open>the server rejects a change of entity \<open>A\<close> with an error that is not 409\<close>
  "ex_error_change = (new_change (ascii ''A'') (ascii ''7''))\<lparr>change_error := Some 500\<rparr>"

definition ex_remote_change :: change where
  \<comment> \<open>another client's change of entity \<open>B\<close>, based on the version that is stored\<close>
  "ex_remote_change =
     \<lparr>change_clientid = Some (ascii ''other''), change_id = ascii ''B'',
      change_ccid = Some (ascii ''4''), change_ccids = None, change_sv = Some 1,
      change_ev = Some 2, change_cv = JStr (ascii ''X''), change_o = Some (ascii ''M''),
      change_v = Some [(ascii ''x'', OpInsert (JNum 1))], change_error = None,
      change_local = False\<rparr>"

definition ex_null_client :: "unit client" where
  \<comment> \<open>the snapshot of entity \<open>A\<close> is \<open>{"t": null}\<close>\<close>
  "ex_null_client =
     ex_client\<lparr>data_store :=
       [ascii ''A'' \<mapsto> ex_entity (ascii ''A'') (JObj [(ascii ''t'', JNull)]) JNull]\<rparr>"

definition ex_focused_client :: "unit client" where
  \<comment> \<open>the UI shows entity \<open>B\<close> unedited, in an element with a cursor at offset 0 of the
      field \<open>t\<close>\<close>
  "ex_focused_client =
     ex_client\<lparr>cb_get_data :=
         Some (\<lambda>key. Inr (JArr [JObj [], JStr (ascii ''t''),
                                  JObj [(ascii ''value'', JStr [])]])),
       captureCursor :=
         (\<lambda>element. Inr (Some \<lparr>cursor_startOffset = 0, cursor_endOffset = None,
                                  cursor_collapsed = True\<rparr>))\<rparr>"

definition ex_silent_client :: "unit client" where
  \<comment> \<open>the example client without storage\<close>
  "ex_silent_client = ex_client\<lparr>ls_access := Some ReferenceError\<rparr>"

subsection \<open>The two orders of application\<close>

definition apply_both :: "'p dmp \<Rightarrow> json \<Rightarrow> jdiff \<Rightarrow> jdiff \<Rightarrow> error + json" where
  \<comment> \<open>\<open>apply(apply(base, first), transform(second, first, base))\<close>\<close>
  "apply_both dmp base first second =
     (case apply_object_diff dmp base first of
        Inl e \<Rightarrow> Inl e
      | Inr mid \<Rightarrow>
          (case transform_object_diff dmp (Some second) (Some first) base of
             Inl e \<Rightarrow> Inl e
           | Inr t \<Rightarrow> apply_object_diff dmp mid (own_entries t)))"

definition claimed_index :: "nat \<Rightarrow> jdiff \<Rightarrow> int" where
  \<comment> \<open>the index that the specification gives to a local operation at \<open>i\<close>: \<open>i\<close> plus the
      number of remote insert indices up to \<open>i\<close> minus the number of remote delete indices
      up to \<open>i\<close>\<close>
  "claimed_index i bd =
     int i
     + int (length (filter (\<lambda>(k, bop). (case bop of OpInsert v \<Rightarrow> True | _ \<Rightarrow> False)
                              \<and> (case to_number k of Some x \<Rightarrow> x \<le> i | None \<Rightarrow> False)) bd))
     - int (length (filter (\<lambda>(k, bop). bop = OpDelete
                              \<and> (case to_number k of Some x \<Rightarrow> x \<le> i | None \<Rightarrow> False)) bd))"

definition version_conflict :: "'p client \<Rightarrow> change \<Rightarrow> bool" where
  \<comment> \<open>an \<open>'M'\<close> change that is neither applicable to the stored version nor a duplicate:
      the last branch of \<open>on_changes\<close>, which sets \<open>reload_needed\<close>\<close>
  "version_conflict c change =
     (change_o change = Some (ascii ''M'')
      \<and> \<not> sv_matches change (data_store c (change_id change))
      \<and> \<not> is_duplicate change (data_store c (change_id change)))"

section \<open>Properties\<close>

subsection \<open>Decimal numerals\<close>

lemma unat_digit_of: "d < 10 \<Longrightarrow> unat (digit_of d) = 48 + d"
proof -
  assume d: "d < 10"
  have "unat (of_nat (48 + d) :: 16 word) = (48 + d) mod 2 ^ LENGTH(16)"
    by (simp only: unat_of_nat)
  then show ?thesis using d by simp
qed

lemma is_digit_digit_of: "d < 10 \<Longrightarrow> is_digit (digit_of d)"
  unfolding is_digit_def word_le_nat_alt using unat_digit_of [of d] by simp

lemma digit_val_digit_of: "d < 10 \<Longrightarrow> digit_val (digit_of d) = d"
  unfolding digit_val_def using unat_digit_of [of d] by simp

lemma foldl_digits:
  "foldl (\<lambda>n c. 10 * n + digit_val c) a ds
   = a * 10 ^ length ds + foldl (\<lambda>n c. 10 * n + digit_val c) 0 ds"
proof (induction ds arbitrary: a)
  case Nil
  then show ?case by simp
next
  case (Cons d ds)
  show ?case
    using Cons.IH [of "10 * a + digit_val d"] Cons.IH [of "digit_val d"]
    by (simp add: algebra_simps)
qed

lemma digits_val_Cons: "digits_val (d # ds) = digit_val d * 10 ^ length ds + digits_val ds"
  unfolding digits_val_def using foldl_digits [of "digit_val d" ds] by simp

lemma decimal_digits_correct:
  "list_all is_digit acc \<Longrightarrow>
   list_all is_digit (decimal_digits n acc)
   \<and> digits_val (decimal_digits n acc) = n * 10 ^ length acc + digits_val acc"
proof (induction n acc rule: decimal_digits.induct)
  case (1 n acc)
  show ?case
  proof (cases "n < 10")
    case True
    then show ?thesis
      using 1(2) decimal_digits.simps [of n acc]
      by (simp add: is_digit_digit_of digits_val_Cons digit_val_digit_of del: digit_of.simps)
  next
    case False
    have m: "n mod 10 < 10" by simp
    have ds: "list_all is_digit (digit_of (n mod 10) # acc)"
      using 1(2) m by (simp add: is_digit_digit_of del: digit_of.simps)
    have e: "n mod 10 + 10 * (n div 10) = n" by simp
    have "n mod 10 * 10 ^ length acc + 10 * (n div 10 * 10 ^ length acc)
            = (n mod 10 + 10 * (n div 10)) * 10 ^ length acc"
      by (simp only: distrib_right mult.assoc)
    then have split: "n mod 10 * 10 ^ length acc + 10 * (n div 10 * 10 ^ length acc)
            = n * 10 ^ length acc"
      by (simp only: e)
    from 1(1) [OF False ds] False show ?thesis
      using split decimal_digits.simps [of n acc]
      by (simp add: digits_val_Cons digit_val_digit_of algebra_simps del: digit_of.simps)
  qed
qed

lemma to_number_decimal: "to_number (decimal n) = Some n"
  using decimal_digits_correct [of "[]" n]
  by (simp add: to_number_def decimal_def digits_val_def)

subsection \<open>The client change counter\<close>

lemma bit_count_power: "bit_count (2 ^ k) = Suc k"
proof (induction k)
  case 0
  show ?case
    by (simp add: bit_count.simps [of "Suc 0"] bit_count.simps [of 0])
next
  case (Suc k)
  then show ?case
    by (simp add: bit_count.simps [of "2 * 2 ^ k"])
qed

lemma round_double_exact: "m \<le> 2 ^ 53 \<Longrightarrow> round_double m = m"
proof (cases "m < 2 ^ 53")
  case True
  then show ?thesis
    by (simp add: round_double_def)
next
  case False
  moreover assume "m \<le> 2 ^ 53"
  ultimately have m: "m = 2 ^ 53"
    by simp
  have "bit_count m = 54"
    unfolding m using bit_count_power [of 53] by simp
  then show ?thesis
    by (simp add: round_double_def Let_def m)
qed

lemma number_succ_exact: "n < 2 ^ 53 \<Longrightarrow> number_succ n = n + 1"
  unfolding number_succ_def by (rule round_double_exact) simp

lemma number_succ_stall: "number_succ (2 ^ 53) = 2 ^ 53"
proof -
  have "bit_count (2 ^ 53 + 1) = Suc (bit_count (2 ^ 52))"
    by (simp add: bit_count.simps [of 9007199254740993])
  then have "bit_count (2 ^ 53 + 1) = 54"
    using bit_count_power [of 52] by simp
  then show ?thesis
    by (simp add: number_succ_def round_double_def Let_def)
qed

lemma make_change_fst:
  "data_ccid (fst (make_change c eid))
   = (if pending_for c eid \<or> 10 ^ 21 \<le> data_ccid c then data_ccid c
      else number_succ (data_ccid c))"
  by (auto simp: make_change_def Let_def split: option.splits sum.splits)

lemma make_change_emitted:
  "snd (make_change c eid) = Inr (Some ch) \<Longrightarrow>
   change_ccid ch = Some (decimal (data_ccid c)) \<and> \<not> pending_for c eid"
  by (auto simp: make_change_def Let_def new_change_def
      split: option.splits sum.splits if_splits)

lemma successive_changes_bounds:
  "\<forall>(other, eid) \<in> set calls. \<forall>c. data_ccid (other c) = data_ccid c \<Longrightarrow>
   data_ccid c + length calls \<le> 2 ^ 53 \<Longrightarrow>
   (\<forall>ch \<in> set (successive_changes c calls). \<exists>x. ccid_value ch = Some x \<and> data_ccid c \<le> x)
   \<and> sorted_wrt (\<lambda>a b. \<exists>x y. ccid_value a = Some x \<and> ccid_value b = Some y \<and> x < y)
        (successive_changes c calls)"
proof (induction calls arbitrary: c)
  case Nil
  then show ?case by simp
next
  case (Cons call calls)
  obtain other eid where call: "call = (other, eid)" by (cases call)
  let ?c1 = "other c"
  let ?c2 = "fst (make_change ?c1 eid)"
  have same: "data_ccid ?c1 = data_ccid c" using Cons.prems(1) call by simp
  have small: "data_ccid c < 2 ^ 53" and small': "\<not> (10 :: nat) ^ 21 \<le> data_ccid c"
    using Cons.prems(2) by simp_all
  have next_ccid: "data_ccid ?c2 = (if pending_for ?c1 eid then data_ccid c else Suc (data_ccid c))"
    using same small small' by (simp add: make_change_fst number_succ_exact)
  have rest: "\<forall>(other, eid) \<in> set calls. \<forall>c. data_ccid (other c) = data_ccid c"
    using Cons.prems(1) by simp
  have room: "data_ccid ?c2 + length calls \<le> 2 ^ 53"
    using Cons.prems(2) next_ccid by simp
  note IH = Cons.IH [OF rest room]
  have mono: "data_ccid c \<le> data_ccid ?c2" using next_ccid by simp
  show ?case
  proof (cases "snd (make_change ?c1 eid)")
    case (Inl e)
    then show ?thesis using IH mono call by (auto simp: sorted_wrt_append)
  next
    case (Inr r)
    show ?thesis
    proof (cases r)
      case None
      then show ?thesis using Inr IH mono call by (auto simp: sorted_wrt_append)
    next
      case (Some ch)
      from make_change_emitted [of ?c1 eid ch] Inr Some
      have ch: "ccid_value ch = Some (data_ccid c)" and np: "\<not> pending_for ?c1 eid"
        using same by (simp_all add: ccid_value_def to_number_decimal)
      have step: "data_ccid ?c2 = Suc (data_ccid c)"
        using np next_ccid by simp
      show ?thesis using Inr Some IH ch step call
        by (auto simp: sorted_wrt_append)
    qed
  qed
qed

lemma ex_client_changes:
  "map ccid_value
     (successive_changes ex_client
        [(\<lambda>c. c, ascii ''A''), (\<lambda>c. c, ascii ''B''), (\<lambda>c. c, ascii ''A'')])
   = [Some 1, Some 3]"
  by (simp add: ex_client_def ex_entity_def quiet_dmp_def make_change_def pending_for_def
      current_object_def is_nullish_def new_change_def ccid_value_def to_number_decimal
      number_succ_exact Let_def ascii_def)

text \<open>
  Claim C9, as stated, fails. The counter is a double. At \<open>2^53\<close> the increment is lost:
  \<open>2^53 + 1\<close> is no double, and of the two nearest ones the even one is \<open>2^53\<close>. In the
  example, entity \<open>A\<close> has a local edit and nothing is queued; with the counter at
  \<open>2^53\<close>, a call of \<open>_make_change\<close> for \<open>A\<close> passes the check of the send queue and leaves
  the counter as it is, and two calls in a row emit two records with the same \<open>ccid\<close>.
\<close>

theorem make_change_ccid_stalls:
  "\<not> pending_for (ex_client\<lparr>data_ccid := 2 ^ 53\<rparr>) (ascii ''A'')
   \<and> data_ccid (fst (make_change (ex_client\<lparr>data_ccid := 2 ^ 53\<rparr>) (ascii ''A''))) = 2 ^ 53
   \<and> map ccid_value
        (successive_changes (ex_client\<lparr>data_ccid := 2 ^ 53\<rparr>)
           [(\<lambda>c. c, ascii ''A''), (\<lambda>c. c, ascii ''A'')])
      = [Some (2 ^ 53), Some (2 ^ 53)]"
proof -
  have stall: "number_succ 9007199254740992 = 9007199254740992"
    using number_succ_stall by simp
  show ?thesis
    by (simp add: ex_client_def ex_entity_def quiet_dmp_def make_change_def pending_for_def
        current_object_def is_nullish_def new_change_def ccid_value_def to_number_decimal
        stall Let_def ascii_def)
qed

text \<open>
  Claim C9, amended. A call of \<open>_make_change\<close> that finds no pending change for the id in
  the send queue increments \<open>ccid\<close> exactly once when the counter is below \<open>2^53\<close>,
  whatever the call returns (a change record, \<open>null\<close> or an exception); a call that finds
  one leaves the client as it is and returns \<open>null\<close>. An emitted record carries the value
  of the counter before the call. Hence, as long as nothing else touches the counter and
  the counter stays within \<open>2^53\<close>, the \<open>ccid\<close> values of successive emitted records are
  strictly increasing; they need not be consecutive: in the example the second of three
  calls returns \<open>null\<close> and the emitted values are 1 and 3.
\<close>

theorem make_change_ccid:
  "(\<not> pending_for c eid \<and> data_ccid c < 2 ^ 53 \<longrightarrow>
      data_ccid (fst (make_change c eid)) = data_ccid c + 1)
   \<and> (pending_for c eid \<longrightarrow> make_change c eid = (c, Inr None))
   \<and> (\<forall>ch. snd (make_change c eid) = Inr (Some ch) \<longrightarrow> ccid_value ch = Some (data_ccid c))
   \<and> ((\<forall>(other, eid) \<in> set calls. \<forall>c. data_ccid (other c) = data_ccid c)
        \<and> data_ccid c + length calls \<le> 2 ^ 53 \<longrightarrow>
        sorted_wrt (\<lambda>a b. \<exists>x y. ccid_value a = Some x \<and> ccid_value b = Some y \<and> x < y)
          (successive_changes c calls))
   \<and> (\<exists>(c0 :: unit client) calls0.
          (\<forall>(other, eid) \<in> set calls0. \<forall>c. data_ccid (other c) = data_ccid c)
          \<and> data_ccid c0 + length calls0 \<le> 2 ^ 53
          \<and> map ccid_value (successive_changes c0 calls0) = [Some 1, Some 3])"
proof (intro conjI impI allI)
  assume "\<not> pending_for c eid \<and> data_ccid c < 2 ^ 53"
  then show "data_ccid (fst (make_change c eid)) = data_ccid c + 1"
    by (simp add: make_change_fst number_succ_exact)
next
  assume "pending_for c eid"
  then show "make_change c eid = (c, Inr None)"
    by (simp add: make_change_def)
next
  fix ch
  assume "snd (make_change c eid) = Inr (Some ch)"
  from make_change_emitted [OF this] show "ccid_value ch = Some (data_ccid c)"
    by (simp add: ccid_value_def to_number_decimal)
next
  assume "(\<forall>(other, eid) \<in> set calls. \<forall>c. data_ccid (other c) = data_ccid c)
    \<and> data_ccid c + length calls \<le> 2 ^ 53"
  then have "\<forall>(other, eid) \<in> set calls. \<forall>c. data_ccid (other c) = data_ccid c"
    and "data_ccid c + length calls \<le> 2 ^ 53"
    by blast+
  from successive_changes_bounds [OF this]
  show "sorted_wrt (\<lambda>a b. \<exists>x y. ccid_value a = Some x \<and> ccid_value b = Some y \<and> x < y)
          (successive_changes c calls)"
    by simp
next
  have "data_ccid ex_client + length [(\<lambda>c :: unit client. c, ascii ''A''),
      (\<lambda>c. c, ascii ''B''), (\<lambda>c. c, ascii ''A'')] \<le> 2 ^ 53"
    by (simp add: ex_client_def)
  then show "\<exists>(c0 :: unit client) calls0.
          (\<forall>(other, eid) \<in> set calls0. \<forall>c. data_ccid (other c) = data_ccid c)
          \<and> data_ccid c0 + length calls0 \<le> 2 ^ 53
          \<and> map ccid_value (successive_changes c0 calls0) = [Some 1, Some 3]"
    using ex_client_changes
    by (intro exI [of _ ex_client]
        exI [of _ "[(\<lambda>c. c, ascii ''A''), (\<lambda>c. c, ascii ''B''), (\<lambda>c. c, ascii ''A'')]"]) simp
qed

theorem make_change_ccid_witness:
  "\<not> pending_for ex_client (ascii ''B'')
   \<and> data_ccid ex_client < 2 ^ 53
   \<and> snd (make_change ex_client (ascii ''B'')) = Inr None
   \<and> data_ccid (fst (make_change ex_client (ascii ''B''))) = 2
   \<and> sorted_wrt (\<lambda>a b. \<exists>x y. ccid_value a = Some x \<and> ccid_value b = Some y \<and> x < y)
        (successive_changes ex_client
           [(\<lambda>c. c, ascii ''A''), (\<lambda>c. c, ascii ''B''), (\<lambda>c. c, ascii ''A'')])"
proof -
  have np: "\<not> pending_for ex_client (ascii ''B'')"
    by (simp add: pending_for_def ex_client_def)
  have null: "snd (make_change ex_client (ascii ''B'')) = Inr None"
    by (simp add: ex_client_def ex_entity_def quiet_dmp_def make_change_def pending_for_def
        current_object_def is_nullish_def new_change_def Let_def ascii_def)
  have quiet: "\<forall>(other, eid) \<in> set [(\<lambda>c. c, ascii ''A''), (\<lambda>c. c, ascii ''B''), (\<lambda>c. c, ascii ''A'')].
         \<forall>c :: unit client. data_ccid (other c) = data_ccid c"
    by simp
  have one: "data_ccid ex_client = 1" by (simp add: ex_client_def)
  from make_change_ccid [of ex_client "ascii ''B''"
      "[(\<lambda>c. c, ascii ''A''), (\<lambda>c. c, ascii ''B''), (\<lambda>c. c, ascii ''A'')]"] np null quiet one
  show ?thesis by simp
qed

subsection \<open>The change-version cursor\<close>

















lemma local_mark [simp]:
  "sv_matches (ch\<lparr>change_local := b\<rparr>) s = sv_matches ch s"
  "is_duplicate (ch\<lparr>change_local := b\<rparr>) s = is_duplicate ch s"
  by (simp_all add: sv_matches_def is_duplicate_def)

lemma version_conflict_local [simp]:
  "version_conflict c (ch\<lparr>change_local := b\<rparr>) = version_conflict c ch"
  by (simp add: version_conflict_def)



lemmas example_defs =
  ex_client_def ex_entity_def quiet_dmp_def ex_error_change_def ex_remote_change_def
  new_change_def ex_focused_client_def ex_silent_client_def

lemmas on_changes_defs =
  on_changes_def on_change_def apply_change_def acknowledges_def invalidate_version_def
  sv_matches_def is_duplicate_def notify_client_def call_notify_def save_entity_def
  save_meta_def set_item_def checkpoint_def remove_entity_def own_entries_def object_step_def
  object_slot_def new_entity_def inherited_name_def focus_def rebase_def show_value_def
  rebase_cursor_def apply_object_diff_with_offsets_def slot_with_offsets_def arr_get_def
  is_nullish_def



lemma ex_focused_change:
  "snd (on_change (ex_focused_client, False, []) ex_remote_change) = None
   \<and> notified (fst (fst (on_change (ex_focused_client, False, []) ex_remote_change)))
      = [(ascii ''B'', JObj [(ascii ''x'', JNum 1)])]
   \<and> data_last_cv (fst (fst (on_change (ex_focused_client, False, []) ex_remote_change)))
      = JStr (ascii ''X'')"
  by (simp add: example_defs on_changes_defs Let_def ascii_def)

lemma ex_silent_change:
  "snd (on_change (ex_silent_client, False, []) ex_remote_change) = None
   \<and> data_last_cv (fst (fst (on_change (ex_silent_client, False, []) ex_remote_change)))
      = JStr (ascii ''X'')
   \<and> ls_meta (fst (fst (on_change (ex_silent_client, False, []) ex_remote_change)))
      = (1, JStr (ascii ''0''))"
  by (simp add: example_defs on_changes_defs Let_def ascii_def)


subsection \<open>Structural diffs on concrete values\<close>

lemmas jsondiff_defs =
  own_entries_def object_step_def object_slot_def obj_delete_def obj_get_def op_get_def

text \<open>
  Claim C1 at base \<open>{}\<close>, local diff \<open>{"a": {o: '+', v: 1}}\<close> and remote diff
  \<open>{"b": {o: '+', v: 2}}\<close>. The diffs share no key, so the loop of
  \<open>transform_object_diff\<close> never reaches its \<open>return\<close> and the transformed diff is
  \<open>undefined\<close> in both orders: applying the remote diff and then the transformed local
  diff gives \<open>{"b": 2}\<close>, applying the local diff and then the transformed remote diff gives
  \<open>{"a": 1}\<close>, and the two are not equal.
\<close>

theorem transform_object_diff_diverges:
  "transform_object_diff dmp (Some [(ascii ''a'', OpInsert (JNum 1))])
     (Some [(ascii ''b'', OpInsert (JNum 2))]) (JObj []) = Inr None
   \<and> apply_both dmp (JObj []) [(ascii ''b'', OpInsert (JNum 2))]
        [(ascii ''a'', OpInsert (JNum 1))] = Inr (JObj [(ascii ''b'', JNum 2)])
   \<and> apply_both dmp (JObj []) [(ascii ''a'', OpInsert (JNum 1))]
        [(ascii ''b'', OpInsert (JNum 2))] = Inr (JObj [(ascii ''a'', JNum 1)])
   \<and> \<not> equals (JObj [(ascii ''b'', JNum 2)]) (JObj [(ascii ''a'', JNum 1)])"
  by (simp add: apply_both_def jsondiff_defs ascii_def)

text \<open>
  Claim C2 at \<open>a = {"a": null}\<close> and \<open>b = {"a": null, "c": 1}\<close>. The diff is
  \<open>{"c": {o: '+', v: 1}}\<close>; applying it to \<open>a\<close> starts from \<open>deepCopy(a)\<close>, in which
  \<open>null\<close> has become \<open>{}\<close>, and gives \<open>{"a": {}, "c": 1}\<close>, which is not equal to \<open>b\<close>.
\<close>

theorem object_diff_apply_null:
  "object_diff dmp (JObj [(ascii ''a'', JNull)])
     (JObj [(ascii ''a'', JNull), (ascii ''c'', JNum 1)])
   = Inr [(ascii ''c'', OpInsert (JNum 1))]
   \<and> apply_object_diff dmp (JObj [(ascii ''a'', JNull)]) [(ascii ''c'', OpInsert (JNum 1))]
     = Inr (JObj [(ascii ''a'', JObj []), (ascii ''c'', JNum 1)])
   \<and> \<not> equals (JObj [(ascii ''a'', JObj []), (ascii ''c'', JNum 1)])
         (JObj [(ascii ''a'', JNull), (ascii ''c'', JNum 1)])"
  by (simp add: jsondiff_defs ascii_def)

text \<open>
  Claim C4 at the local list diff \<open>{"1": {o: '-'}}\<close> over the base \<open>[1, 2]\<close>. Against the
  remote diff \<open>{"0": {o: '+', v: 7}}\<close> the claimed index is 1 + 1 - 0 = 2, and
  \<open>transform_list_diff\<close> keys the operation by \<open>"10"\<close>: both shifts are 1 whatever the
  remote diff holds, and \<open>"1" + 1 - 1\<close> is 10. Against the remote diff
  \<open>{"10": {o: '-'}}\<close>, which has an operation at that key, it raises a TypeError on
  \<open>bd.index['o']\<close> instead of dropping the local deletion.
\<close>

theorem transform_list_diff_rekeys_wrongly:
  "transform_list_diff dmp [(ascii ''1'', OpDelete)] [(ascii ''0'', OpInsert (JNum 7))]
     (JArr [JNum 1, JNum 2]) = Inr [(ascii ''10'', OpDelete)]
   \<and> claimed_index 1 [(ascii ''0'', OpInsert (JNum 7))] = 2
   \<and> transform_list_diff dmp [(ascii ''1'', OpDelete)] [(ascii ''10'', OpDelete)]
        (JArr [JNum 1, JNum 2]) = Inl TypeError"
  by (simp add: jsondiff_defs list_rekey_step_def claimed_index_def to_number_def is_digit_def
      digits_val_def digit_val_def decimal_def decimal_digits.simps Let_def ascii_def)

text \<open>
  Claim C10 at a store whose snapshot of entity \<open>A\<close> is \<open>{"t": null}\<close>: \<open>get\<close> returns
  \<open>{"t": {}}\<close>, which is not equal to the snapshot. For an id that is not in the store it
  returns \<open>null\<close>.
\<close>

theorem get_null_snapshot:
  "get ex_null_client (ascii ''A'') = JObj [(ascii ''t'', JObj [])]
   \<and> map_option entity_object (data_store ex_null_client (ascii ''A''))
     = Some (JObj [(ascii ''t'', JNull)])
   \<and> \<not> equals (JObj [(ascii ''t'', JObj [])]) (JObj [(ascii ''t'', JNull)])
   \<and> get ex_null_client (ascii ''Z'') = JNull"
  by (simp add: get_def ex_null_client_def ex_client_def ex_entity_def ascii_def)

subsection \<open>The pattern length of match\<close>

text \<open>
  Claim C6, as stated, fails: a pattern of 33 code units is longer than \<open>Match_MaxBits\<close>,
  and \<open>match_main\<close> on a text equal to it returns the index 0.
\<close>

theorem match_main_long_pattern_returns:
  "Match_MaxBits < length (replicate 33 (97 :: 16 word))
   \<and> match_main (replicate 33 97) (replicate 33 97) 5 = Inr 0"
  by (simp add: match_main_def Match_MaxBits_def)

text \<open>
  Claim C6, amended. \<open>match_bitap_\<close> refuses every pattern longer than \<open>Match_MaxBits\<close>.
  \<open>match_main\<close> refuses such a pattern exactly when it reaches the bitap search: it
  returns 0 when the text equals the pattern, -1 when the text is empty, and the clamped
  location when the pattern stands there in the text.
\<close>

theorem match_main_long_pattern:
  "Match_MaxBits < length pattern \<Longrightarrow>
   match_bitap text pattern loc = Inl (Error ''Pattern too long for this browser.'')
   \<and> match_main text pattern loc0 =
       (if text = pattern then Inr 0
        else if text = [] then Inr (- 1)
        else if substring text (nat (max 0 (min loc0 (int (length text)))))
                  (nat (max 0 (min loc0 (int (length text)))) + length pattern) = pattern
          then Inr (int (nat (max 0 (min loc0 (int (length text))))))
        else Inl (Error ''Pattern too long for this browser.''))"
  by (simp add: match_main_def match_bitap_def Let_def)

theorem match_main_long_pattern_witness:
  "Match_MaxBits < length (replicate 33 (97 :: 16 word))
   \<and> match_bitap (replicate 40 98) (replicate 33 97) 0
     = Inl (Error ''Pattern too long for this browser.'')
   \<and> match_main (replicate 40 98) (replicate 33 97) 0
     = Inl (Error ''Pattern too long for this browser.'')"
proof -
  have h: "Match_MaxBits < length (replicate 33 (97 :: 16 word))"
    by (simp add: Match_MaxBits_def)
  have ne: "replicate 40 (98 :: 16 word) \<noteq> replicate 33 97"
    by simp
  show ?thesis
    using match_main_long_pattern [OF h, of "replicate 40 98" 0 0] h
    by (simp add: substring_def ne)
qed


subsection \<open>Text diffs on concrete inputs\<close>

lemma indexOf_None:
  assumes "x \<in> set pattern" and "x \<notin> set text"
  shows "indexOf text pattern from = None"
proof -
  have "take (length pattern) (drop k text) \<noteq> pattern" for k
  proof
    assume "take (length pattern) (drop k text) = pattern"
    then have "set pattern \<subseteq> set text"
      by (metis set_drop_subset set_take_subset subset_trans)
    with assms show False by auto
  qed
  then show ?thesis
    by (simp add: indexOf_def find_None_iff)
qed

lemma halfMatchI_None:
  assumes "x \<in> set (substring longtext i (i + length longtext div 4))"
    and "x \<notin> set shorttext" and "longtext \<noteq> []"
  shows "halfMatchI longtext shorttext i = None"
proof -
  let ?seed = "substring longtext i (i + length longtext div 4)"
  have "take (length ?seed) (drop j shorttext) \<noteq> ?seed" for j
  proof
    assume "take (length ?seed) (drop j shorttext) = ?seed"
    then have "set ?seed \<subseteq> set shorttext"
      by (metis set_drop_subset set_take_subset subset_trans)
    with assms show False by auto
  qed
  then have "filter (\<lambda>j. take (length ?seed) (drop j shorttext) = ?seed)
      [0..<Suc (length shorttext)] = []"
    by (simp add: filter_empty_conv)
  with assms(3) show ?thesis
    unfolding halfMatchI_def Let_def by simp
qed

lemma lines_of_line:
  "10 \<notin> set l \<Longrightarrow> lines_of (l @ 10 # rest) = (l @ [10]) # lines_of rest"
  by (induction l) auto

lemma lines_of_Nil:
  "lines_of l = [] \<longleftrightarrow> l = []"
  by (cases l) (auto split: list.splits)

lemma lines_of_last:
  "10 \<notin> set l \<Longrightarrow> l \<noteq> [] \<Longrightarrow> lines_of l = [l]"
proof (induction l)
  case Nil
  then show ?case by simp
next
  case (Cons c l)
  then show ?case
    by (cases "l = []") (auto simp: lines_of_Nil split: list.splits)
qed

lemma length_ascii:
  "length (ascii s) = length s"
  by (simp add: ascii_def)

lemma ex_halfMatch:
  "diff_halfMatch (replicate 100 97 @ 10 # ascii ''hasOwnProperty'') (replicate 101 98) = None"
proof -
  have "halfMatchI (replicate 100 97 @ 10 # ascii ''hasOwnProperty'') (replicate 101 98) i = None"
    if "i = 29 \<or> i = 58" for i
    using that
    by (intro halfMatchI_None [where x = 97]) (auto simp: substring_def)
  then show ?thesis
    by (simp add: diff_halfMatch_def Diff_Timeout_def ascii_def)
qed

lemma ex_linesToChars:
  "diff_linesToChars (replicate 100 97 @ 10 # ascii ''hasOwnProperty'') (replicate 101 98)
     = Inl TypeError"
proof -
  have 1: "lines_of (replicate 100 97 @ 10 # ascii ''hasOwnProperty'')
      = [replicate 100 97 @ [10], ascii ''hasOwnProperty'']"
    by (simp add: lines_of_line lines_of_last ascii_def)
  have 2: "lines_of (replicate 101 98) = [replicate 101 98]"
    by (simp add: lines_of_last)
  have 3: "replicate 100 97 @ [10] \<noteq> ascii ''hasOwnProperty''"
    "replicate 100 97 @ [10] \<noteq> ascii ''__proto__''"
    by (auto simp: ascii_def dest: arg_cong [where f = length])
  have 4: "ascii ''hasOwnProperty'' \<noteq> ascii ''__proto__''"
    by (simp add: ascii_def)
  show ?thesis
    unfolding diff_linesToChars_def 1 2
    using 3 4 by (simp add: lineHash_def)
qed

lemma ex_compute:
  "diff_compute main clock t (replicate 100 97 @ 10 # ascii ''hasOwnProperty'')
     (replicate 101 98) True deadline = Inl TypeError"
proof -
  have "indexOf (replicate 100 97 @ 10 # ascii ''hasOwnProperty'') (replicate 101 98) 0 = None"
    by (rule indexOf_None [where x = 98]) (auto simp: ascii_def)
  then show ?thesis
    by (simp add: diff_compute_def ex_halfMatch diff_lineMode_def ex_linesToChars length_ascii)
qed

text \<open>
  Claim C3 at \<open>a\<close> = one hundred \<open>a\<close>, a line feed and the line \<open>hasOwnProperty\<close>, and
  \<open>b\<close> = one hundred and one \<open>b\<close>. The texts share no prefix, no suffix and no half, and
  both are longer than 100 code units, so \<open>diff_main(a, b)\<close> goes through the line mode.
  \<open>diff_linesToChars_\<close> stores the second line of \<open>a\<close> in \<open>lineHash\<close> under the key
  \<open>hasOwnProperty\<close>; for the line of \<open>b\<close> the test \<open>lineHash.hasOwnProperty\<close> finds the
  number 2 and the call \<open>lineHash.hasOwnProperty(line)\<close> raises a \<open>TypeError\<close>. So
  \<open>diff_main(a, b)\<close> raises, whatever the clock shows and however deep the calls may
  nest, and there is no diff from which \<open>a\<close> and \<open>b\<close> could be rebuilt.
\<close>

theorem diff_main_hasOwnProperty_line:
  "diff_main (Suc fuel) clock t (replicate 100 97 @ 10 # ascii ''hasOwnProperty'')
     (replicate 101 98) None None = Inl TypeError"
proof -
  have "replicate 100 97 @ 10 # ascii ''hasOwnProperty'' \<noteq> replicate 101 98"
    by (auto simp: ascii_def dest: arg_cong [where f = length])
  moreover have "diff_commonPrefix (replicate 100 97 @ 10 # ascii ''hasOwnProperty'')
      (replicate 101 98) = 0"
    by (simp add: diff_commonPrefix_def hd_append)
  moreover have "diff_commonSuffix (replicate 100 97 @ 10 # ascii ''hasOwnProperty'')
      (replicate 101 98) = 0"
    by (simp add: diff_commonSuffix_def ascii_def)
  ultimately show ?thesis
    by (simp add: diff_main_body_def Diff_Timeout_def substring_def substring_from_def
        ex_compute length_ascii)
qed

lemmas merge_defs =
  diff_cleanupMerge_def merge_round_def merge_step_def merge_reset_def merge_replace_def
  merge_factor_def shift_step_def splice_def

lemma ex_surrogate_prefix:
  "diff_commonPrefix [0xD83D, 0xDE00] [0xD83D, 0xDE01] = 1"
  by (simp add: diff_commonPrefix_def commonPrefix_search.simps substring_def)

lemma ex_surrogate_suffix:
  "diff_commonSuffix [0xDE00] [0xDE01] = 0"
  by (simp add: diff_commonSuffix_def)

lemma ex_surrogate_compute:
  "diff_compute main clock t [0xDE00] [0xDE01] True deadline
     = Inr ([(DIFF_DELETE, [0xDE00]), (DIFF_INSERT, [0xDE01])], t)"
  by (simp add: diff_compute_def indexOf_def)

lemma ex_surrogate_merge:
  "diff_cleanupMerge [(DIFF_EQUAL, [0xD83D]), (DIFF_DELETE, [0xDE00]), (DIFF_INSERT, [0xDE01])]
     = Inr [(DIFF_EQUAL, [0xD83D]), (DIFF_DELETE, [0xDE00]), (DIFF_INSERT, [0xDE01])]"
  by (simp add: merge_defs while_loop_unfold Let_def diff_commonPrefix_def diff_commonSuffix_def)

text \<open>
  Claim C5 at \<open>a\<close> = U+1F600 and \<open>b\<close> = U+1F601, each one surrogate pair: \<open>a\<close> is the
  code units D83D DE00 and \<open>b\<close> is D83D DE01. \<open>diff_main(a, b)\<close> takes the common prefix
  by code units, so it keeps the high surrogate, deletes DE00 and inserts DE01.
  \<open>diff_toDelta\<close> passes the inserted text, a low surrogate alone, to \<open>encodeURI\<close>, which
  raises a \<open>URIError\<close>: there is no delta to decode.
\<close>

theorem diff_toDelta_split_surrogate:
  "diff_main (Suc fuel) clock t [0xD83D, 0xDE00] [0xD83D, 0xDE01] None None
     = Inr ([(DIFF_EQUAL, [0xD83D]), (DIFF_DELETE, [0xDE00]), (DIFF_INSERT, [0xDE01])], Suc t)
   \<and> diff_toDelta [(DIFF_EQUAL, [0xD83D]), (DIFF_DELETE, [0xDE00]), (DIFF_INSERT, [0xDE01])]
     = Inl URIError"
  by (simp add: diff_main_body_def Diff_Timeout_def ex_surrogate_prefix ex_surrogate_suffix
      ex_surrogate_compute ex_surrogate_merge substring_def substring_from_def Let_def
      diff_toDelta_def uriReserved_def uriUnescaped_def)

subsection \<open>Malformed deltas are the deltas that \<open>diff_fromDelta\<close> rejects\<close>

subsection \<open>Malformed deltas are rejected\<close>

lemma bad_escape_simps:
  "bad_escape [] = False"
  "bad_escape (c # param)
     = (c = 43 \<and> (case decodeURI param of Inl e \<Rightarrow> True | Inr t \<Rightarrow> False))"
  by (simp_all add: bad_escape_def)

lemma bad_token_simps:
  "bad_token [] = False"
  "bad_token (c # param)
     = (if c = 45 \<or> c = 61 then (case parseInt10 param of None \<Rightarrow> True | Some n \<Rightarrow> n < 0)
        else c \<noteq> 43)"
  by (simp_all add: bad_token_def)

lemma source_length_simps:
  "source_length [] = 0"
  "source_length ([] # tokens) = source_length tokens"
  "source_length ((c # param) # tokens)
     = (if c = 45 \<or> c = 61 then (case parseInt10 param of None \<Rightarrow> 0 | Some n \<Rightarrow> nat n)
        else 0) + source_length tokens"
  by (simp_all add: source_length_def)

lemmas token_simps = bad_escape_simps bad_token_simps source_length_simps substring_from_def

lemma diff_fromDelta_tokens_malformed:
  "case diff_fromDelta_tokens text1 tokens p of
     Inl e \<Rightarrow> (\<exists>msg. e = Error msg) \<and> (list_ex bad_escape tokens \<or> list_ex bad_token tokens)
   | Inr (diffs, p') \<Rightarrow>
       \<not> list_ex bad_escape tokens \<and> \<not> list_ex bad_token tokens
       \<and> p' = p + source_length tokens"
proof (induction tokens arbitrary: p)
  case Nil
  show ?case
    by (simp add: token_simps)
next
  case (Cons token tokens)
  show ?case
  proof (cases token)
    case Nil
    then show ?thesis
      using Cons.IH [of p]
      by (auto simp: token_simps split: sum.splits prod.splits)
  next
    case (Cons c param)
    note token = this
    consider (plus) "c = 43" | (count) "c = 45 \<or> c = 61" | (other) "c \<noteq> 43" "c \<noteq> 45" "c \<noteq> 61"
      by blast
    then show ?thesis
    proof cases
      case plus
      then show ?thesis
        using Cons.IH [of p] token
        by (auto simp: token_simps split: sum.splits prod.splits)
    next
      case count
      show ?thesis
      proof (cases "parseInt10 param")
        case None
        then show ?thesis
          using token count by (auto simp: token_simps)
      next
        case (Some n)
        show ?thesis
        proof (cases "n < 0")
          case True
          then show ?thesis
            using token count Some by (auto simp: token_simps)
        next
          case False
          then show ?thesis
            using Cons.IH [of "p + nat n"] token count Some
            by (auto simp: token_simps Let_def split: sum.splits prod.splits)
        qed
      qed
    next
      case other
      then show ?thesis
        using token by (auto simp: token_simps)
    qed
  qed
qed

lemma diff_fromDelta_malformed:
  "malformed text1 delta \<longleftrightarrow> (\<exists>msg. diff_fromDelta text1 delta = Inl (Error msg))"
  using diff_fromDelta_tokens_malformed [where ?text1.0 = text1 and tokens = "split_tab delta" and p = 0]
  by (auto simp: diff_fromDelta_def malformed_def split: sum.splits prod.splits if_splits)

lemma diff_fromDelta_wellformed:
  "\<not> malformed text1 delta \<longleftrightarrow> (\<exists>diffs. diff_fromDelta text1 delta = Inr diffs)"
  using diff_fromDelta_tokens_malformed [where ?text1.0 = text1 and tokens = "split_tab delta" and p = 0]
  by (auto simp: diff_fromDelta_def malformed_def split: sum.splits prod.splits if_splits)

lemma text_patch_malformed:
  "malformed text1 delta \<Longrightarrow> \<exists>msg. text_patch dmp (JStr text1) delta = Inl (Error msg)"
  by (auto simp: text_patch_def diff_fromDelta_malformed)

lemma object_step_raises:
  "malformed_op dmp cur op \<Longrightarrow> \<exists>e. object_step patched key op (Inl e0) = Inl e"
  by (cases op; cases patched) (auto simp: object_step_def)

lemma list_step_raises:
  "malformed_op dmp cur op \<Longrightarrow> \<exists>e. list_step patched deleted index op (Inl e0) = Inl e"
  by (cases op; cases patched)
    (auto simp: list_step_def Let_def split: option.splits sum.splits)

lemma malformed_raises:
  "malformed_op dmp cur op \<Longrightarrow> \<exists>e. apply_slot_op dmp cur op = Inl e"
  "malformed_object_diff dmp s diffs \<Longrightarrow> \<exists>e. apply_object_diff dmp s diffs = Inl e"
  "malformed_object_ops dmp patched diffs \<Longrightarrow> \<exists>e. apply_object_ops dmp patched diffs = Inl e"
  "malformed_list_diff dmp s diffs \<Longrightarrow> \<exists>e. apply_list_diff dmp s diffs = Inl e"
  "malformed_list_ops dmp patched deleted diffs
     \<Longrightarrow> \<exists>e. apply_list_ops dmp patched deleted diffs = Inl e"
proof (induction dmp cur op and dmp s diffs and dmp patched diffs and dmp s diffs
    and dmp patched deleted diffs
    rule: malformed_op_malformed_object_diff_malformed_object_ops_malformed_list_diff_malformed_list_ops.induct)
  case (1 dmp cur delta)
  then obtain text1 where cur: "cur = JStr text1" and bad: "malformed text1 delta"
    by (cases cur) auto
  from text_patch_malformed [OF bad, of dmp] show ?case
    by (auto simp: cur)
next
  case (12 dmp patched key op diffs)
  show ?case
  proof (cases "malformed_op dmp (object_slot patched key) op")
    case True
    from 12(1) [OF this] obtain e0 where "apply_slot_op dmp (object_slot patched key) op = Inl e0"
      by blast
    then show ?thesis
      using object_step_raises [OF True, of patched key e0] by auto
  next
    case False
    then show ?thesis
      using 12(2) 12(3) by (auto split: sum.splits)
  qed
next
  case (15 dmp patched deleted index op diffs)
  show ?case
  proof (cases "malformed_op dmp (list_slot patched deleted index) op")
    case True
    from 15(1) [OF this] obtain e0
      where "apply_slot_op dmp (list_slot patched deleted index) op = Inl e0"
      by blast
    then show ?thesis
      using list_step_raises [OF True, of patched deleted index e0] by auto
  next
    case False
    then show ?thesis
      using 15(2) 15(3) by (auto split: sum.splits prod.splits)
  qed
qed auto

subsection \<open>The store under \<open>apply_object_diff\<close>\<close>

text \<open>
  The functions on the store do what the functions on JSON values do: a value of the
  store that is a JSON value stays this value while cells are added, \<open>deepCopy\<close> builds
  the copy in new cells, and the loops of \<open>apply_object_diff\<close> and \<open>apply_list_diff\<close>
  write to the cell of the copy only.
\<close>

subsection \<open>The store under \<open>apply_object_diff\<close>\<close>









lemma repr_stable:
  "repr lo h v j \<Longrightarrow> length h \<le> length h'
   \<Longrightarrow> (\<And>a. lo \<le> a \<Longrightarrow> a < length h \<Longrightarrow> h' ! a = h ! a) \<Longrightarrow> repr lo h' v j"
proof (induction lo h v j rule: repr.induct)
  case (1 lo h a kvs)
  from 1(2) have a: "lo \<le> a" "a < length h"
    by auto
  then have eq: "h' ! a = h ! a"
    by (rule 1(4))
  from 1(2) obtain hkvs where cell: "h ! a = HObj hkvs"
    and rel: "list_all2 (\<lambda>kw kj. fst kw = fst kj \<and> repr lo h (snd kw) (snd kj)) hkvs kvs"
    by (auto split: hobj.splits)
  have "list_all2 (\<lambda>kw kj. fst kw = fst kj \<and> repr lo h' (snd kw) (snd kj)) hkvs kvs"
    using rel 1(1) [OF cell _ _ _ 1(3) 1(4)] by (auto elim!: list.rel_mono_strong)
  with a eq cell 1(3) 1(2) show ?case
    by simp
next
  case (2 lo h a xs)
  from 2(2) have a: "lo \<le> a" "a < length h"
    by auto
  then have eq: "h' ! a = h ! a"
    by (rule 2(4))
  from 2(2) obtain ws where cell: "h ! a = HArr ws"
    and rel: "list_all2 (\<lambda>w x. repr lo h w x) ws xs"
    by (auto split: hobj.splits)
  have "list_all2 (\<lambda>w x. repr lo h' w x) ws xs"
    using rel 2(1) [OF cell _ _ _ 2(3) 2(4)] by (auto elim!: list.rel_mono_strong)
  with a eq cell 2(3) show ?case
    by simp
qed auto








lemma map_of_obj_set: "map_of (obj_set kvs i w) k = (if k = i then Some w else map_of kvs k)"
  by (induction kvs) auto

lemma list_all2_set1: "list_all2 P xs ys \<Longrightarrow> x \<in> set xs \<Longrightarrow> \<exists>y \<in> set ys. P x y"
  by (induction rule: list_all2_induct) auto




lemma list_all2_set2: "list_all2 P xs ys \<Longrightarrow> y \<in> set ys \<Longrightarrow> \<exists>x \<in> set xs. P x y"
  by (induction rule: list_all2_induct) auto

lemma repr_wf: "repr lo h v j \<Longrightarrow> wf_json j"
proof (induction lo h v j rule: repr.induct)
  case (1 lo h a kvs)
  from 1(2) obtain hkvs where cell: "h ! a = HObj hkvs"
    and rel: "list_all2 (\<lambda>kw kj. fst kw = fst kj \<and> repr lo h (snd kw) (snd kj)) hkvs kvs"
    and d: "distinct (map fst kvs)"
    by (auto split: hobj.splits)
  have "wf_json (snd kj)" if "kj \<in> set kvs" for kj
  proof -
    from list_all2_set2 [OF rel that] obtain kw
      where "kw \<in> set hkvs" "repr lo h (snd kw) (snd kj)"
      by blast
    then show ?thesis
      using 1(1) [OF cell _ that] by blast
  qed
  with d show ?case
    by (simp add: list_all_iff)
next
  case (2 lo h a xs)
  from 2(2) obtain ws where cell: "h ! a = HArr ws"
    and rel: "list_all2 (\<lambda>w x. repr lo h w x) ws xs"
    by (auto split: hobj.splits)
  have "wf_json x" if "x \<in> set xs" for x
  proof -
    from list_all2_set2 [OF rel that] obtain w where "w \<in> set ws" "repr lo h w x"
      by blast
    then show ?thesis
      using 2(1) [OF cell _ that] by blast
  qed
  then show ?case
    by (simp add: list_all_iff)
qed auto


lemma repr_modifies: "repr lo h v j \<Longrightarrow> modifies p h h' \<Longrightarrow> p < lo \<Longrightarrow> repr lo h' v j"
  by (erule repr_stable) (auto simp: modifies_def)

lemma repr_HVal: "wf_json j \<Longrightarrow> repr lo h (HVal j) j"
  by simp










lemma copy_of_lower: "copy_of n h v j \<Longrightarrow> n' \<le> n \<Longrightarrow> copy_of n' h v j"
  by (cases v) (auto simp: copy_of_def)

lemma copy_of_prim:
  "(case j of JObj kvs \<Rightarrow> False | JArr xs \<Rightarrow> False | _ \<Rightarrow> True) \<Longrightarrow> copy_of n h (HVal j) j"
  by (simp add: copy_of_def)
























lemma copy_of_HRef: "copy_of n h (HRef p) pj \<longleftrightarrow> n \<le> p \<and> holds h p pj"
  by (simp add: copy_of_def)




















subsection \<open>A malformed delta in a structural diff\<close>














end
